theory Spec2Isabelle
  imports Complex_Main "HOL-Library.Sublist"
begin

section \<open>JavaScript values used by the pipeline\<close>

text \<open>
  A JavaScript \<open>number\<close> is an IEEE 754 binary64 value: a finite value or one of the
  three special values. A finite value is kept as the real it denotes; the sign of zero is
  not represented, every zero is the positive zero. Numbers that are read from the
  provider's JSON are taken to be binary64 values already.
\<close>

datatype number = Fin real | PosInf | NegInf | NaN

text \<open>The sign of an infinity after an overflow, a multiplication or a division.\<close>

definition signed_inf :: "bool \<Rightarrow> number" where
  "signed_inf positive = (if positive then PosInf else NegInf)"

text \<open>
  Rounding a real to binary64, to nearest and ties to even, as every arithmetic operation
  and every conversion to a number does. \<open>binade x\<close> is the exponent \<open>e\<close> with
  \<open>2^e \<le> |x| < 2^(e+1)\<close>; the values of that binade are the multiples of \<open>2^(e-52)\<close>,
  those below \<open>2^-1022\<close> (the subnormal ones) the multiples of \<open>2^-1074\<close>. A result of
  magnitude \<open>2^1024\<close> or more is an infinity.
\<close>

function ilog2 :: "nat \<Rightarrow> nat" where
  "ilog2 n = (if n < 2 then 0 else Suc (ilog2 (n div 2)))"
  by pat_completeness auto
termination
  by (relation "measure (\<lambda>n. n)") auto

declare ilog2.simps [simp del]

definition clog2 :: "nat \<Rightarrow> nat" where
  "clog2 n = (if n \<le> 1 then 0 else Suc (ilog2 (n - 1)))"

definition binade :: "real \<Rightarrow> int" where
  "binade x = (if 1 \<le> \<bar>x\<bar> then int (ilog2 (nat \<lfloor>\<bar>x\<bar>\<rfloor>))
               else - int (clog2 (nat \<lceil>1 / \<bar>x\<bar>\<rceil>)))"

definition round_even :: "real \<Rightarrow> int" where
  "round_even y =
     (if y - of_int \<lfloor>y\<rfloor> < 1 / 2 then \<lfloor>y\<rfloor>
      else if 1 / 2 < y - of_int \<lfloor>y\<rfloor> then \<lfloor>y\<rfloor> + 1
      else if even \<lfloor>y\<rfloor> then \<lfloor>y\<rfloor> else \<lfloor>y\<rfloor> + 1)"

definition round64 :: "real \<Rightarrow> number" where
  "round64 x =
     (if x = 0 then Fin 0
      else let q = 2 powi (max (binade x) (- 1022) - 52);
               r = of_int (round_even (x / q)) * q
           in if 2 ^ 1024 \<le> \<bar>r\<bar> then signed_inf (0 < x) else Fin r)"

text \<open>
  The arithmetic operators. The result of an operation on finite values is the exact
  result rounded; negation, the absolute value and \<open>Math.floor\<close> are exact. The special
  values follow IEEE 754: a non-zero value divided by zero is an infinity, \<open>0 / 0\<close> and
  \<open>Infinity / Infinity\<close> are \<open>NaN\<close>, and \<open>NaN\<close> is absorbing.
\<close>

fun js_neg :: "number \<Rightarrow> number" where
  "js_neg (Fin a) = Fin (- a)"
| "js_neg PosInf = NegInf"
| "js_neg NegInf = PosInf"
| "js_neg NaN = NaN"

fun js_add :: "number \<Rightarrow> number \<Rightarrow> number" where
  "js_add (Fin a) (Fin b) = round64 (a + b)"
| "js_add NaN _ = NaN"
| "js_add _ NaN = NaN"
| "js_add PosInf NegInf = NaN"
| "js_add NegInf PosInf = NaN"
| "js_add PosInf _ = PosInf"
| "js_add NegInf _ = NegInf"
| "js_add (Fin a) PosInf = PosInf"
| "js_add (Fin a) NegInf = NegInf"

definition js_sub :: "number \<Rightarrow> number \<Rightarrow> number" where
  "js_sub x y = js_add x (js_neg y)"

fun js_abs :: "number \<Rightarrow> number" where
  "js_abs (Fin a) = Fin \<bar>a\<bar>"
| "js_abs PosInf = PosInf"
| "js_abs NegInf = PosInf"
| "js_abs NaN = NaN"

fun js_mul :: "number \<Rightarrow> number \<Rightarrow> number" where
  "js_mul (Fin a) (Fin b) = round64 (a * b)"
| "js_mul NaN _ = NaN"
| "js_mul _ NaN = NaN"
| "js_mul (Fin a) PosInf = (if a = 0 then NaN else signed_inf (0 < a))"
| "js_mul (Fin a) NegInf = (if a = 0 then NaN else signed_inf (a < 0))"
| "js_mul PosInf (Fin b) = (if b = 0 then NaN else signed_inf (0 < b))"
| "js_mul NegInf (Fin b) = (if b = 0 then NaN else signed_inf (b < 0))"
| "js_mul PosInf PosInf = PosInf"
| "js_mul NegInf NegInf = PosInf"
| "js_mul PosInf NegInf = NegInf"
| "js_mul NegInf PosInf = NegInf"

fun js_div :: "number \<Rightarrow> number \<Rightarrow> number" where
  "js_div (Fin a) (Fin b) =
     (if b = 0 then (if a = 0 then NaN else signed_inf (0 < a)) else round64 (a / b))"
| "js_div NaN _ = NaN"
| "js_div _ NaN = NaN"
| "js_div (Fin a) PosInf = Fin 0"
| "js_div (Fin a) NegInf = Fin 0"
| "js_div PosInf (Fin b) = signed_inf (0 \<le> b)"
| "js_div NegInf (Fin b) = signed_inf (b < 0)"
| "js_div PosInf _ = NaN"
| "js_div NegInf _ = NaN"

fun js_floor :: "number \<Rightarrow> number" where
  "js_floor (Fin a) = Fin (of_int \<lfloor>a\<rfloor>)"
| "js_floor x = x"

text \<open>Strict equality \<open>===\<close> and \<open><\<close> on numbers: every comparison with \<open>NaN\<close> is false.\<close>

fun js_eq :: "number \<Rightarrow> number \<Rightarrow> bool" where
  "js_eq NaN _ = False"
| "js_eq _ NaN = False"
| "js_eq x y = (x = y)"

fun js_lt :: "number \<Rightarrow> number \<Rightarrow> bool" where
  "js_lt (Fin a) (Fin b) = (a < b)"
| "js_lt NaN _ = False"
| "js_lt _ NaN = False"
| "js_lt NegInf y = (y \<noteq> NegInf)"
| "js_lt x PosInf = (x \<noteq> PosInf)"
| "js_lt _ _ = False"

fun isNaN :: "number \<Rightarrow> bool" where
  "isNaN NaN = True"
| "isNaN _ = False"

fun isFinite :: "number \<Rightarrow> bool" where
  "isFinite (Fin a) = True"
| "isFinite _ = False"

text \<open>Truthiness of a number: \<open>0\<close> and \<open>NaN\<close> are falsy.\<close>

fun truthy :: "number \<Rightarrow> bool" where
  "truthy (Fin a) = (a \<noteq> 0)"
| "truthy NaN = False"
| "truthy _ = True"

text \<open>
  \<open>x || 0\<close> for a number of the provider's JSON that may be missing: \<open>undefined\<close>,
  \<open>null\<close> and \<open>0\<close> are falsy.
\<close>

definition or_zero :: "real option \<Rightarrow> real" where
  "or_zero x = (case x of None \<Rightarrow> 0 | Some v \<Rightarrow> if v \<noteq> 0 then v else 0)"

text \<open>
  \<open>xs[i]\<close> used as a number: reading past the end gives \<open>undefined\<close>, which
  arithmetic turns into \<open>NaN\<close>.
\<close>

definition num_at :: "real list \<Rightarrow> nat \<Rightarrow> number" where
  "num_at xs i = (if i < length xs then Fin (xs ! i) else NaN)"

text \<open>A thrown JavaScript \<open>Error\<close> with its message.\<close>

datatype error = Error string

section \<open>Decoded transactions (the fields of \<open>ParsedTransactionWithMeta\<close> that are read)\<close>

record TokenAmount =
  amount :: string

record TokenBalance =
  mint :: string
  owner :: "string option"
  uiTokenAmount :: TokenAmount

record ParsedTransactionMeta =
  fee :: real
  preBalances :: "real list"
  postBalances :: "real list"
  preTokenBalances :: "TokenBalance list option"
  postTokenBalances :: "TokenBalance list option"
  computeUnitsConsumed :: "real option"

record ParsedMessageAccount =
  pubkey :: string
  signer :: bool

record PartiallyDecodedInstruction =
  programId :: string
  data :: string

record ParsedMessage =
  accountKeys :: "ParsedMessageAccount list"
  instructions :: "PartiallyDecodedInstruction list"

record ParsedTransaction =
  signatures :: "string list"
  message :: ParsedMessage

record ParsedTransactionWithMeta =
  blockTime :: "real option"
  meta :: "ParsedTransactionMeta option"
  transaction :: ParsedTransaction

record Signer =
  key :: string
  index :: nat

record ParsedTokenHistory =
  signature :: "string option"
  mint :: string
  type :: string
  owner :: string
  preTokenBalance :: number
  postTokenBalance :: number
  preSolBalance :: number
  postSolBalance :: number
  price :: number
  date :: number

text \<open>Constants of the Solana libraries.\<close>

definition LAMPORTS_PER_SOL :: number where
  "LAMPORTS_PER_SOL = Fin 1000000000"

definition ComputeBudgetProgram_programId :: string where
  "ComputeBudgetProgram_programId = ''ComputeBudget111111111111111111111111111111''"

text \<open>
  What the code observes of a compute-budget instruction after
  \<open>bs58.decode\<close>, \<open>decodeInstructionType\<close> and \<open>decodeSetComputeUnitPrice\<close>:
  its type and, for \<open>SetComputeUnitPrice\<close>, the \<open>microLamports\<close> bigint. Each of the
  three library calls can throw; the decoder is a parameter of the model returning either
  the thrown error or the decoded instruction.
\<close>

datatype ComputeBudgetInstruction =
  RequestUnits | RequestHeapFrame | SetComputeUnitLimit | SetComputeUnitPrice nat

type_synonym decoder = "PartiallyDecodedInstruction \<Rightarrow> error + ComputeBudgetInstruction"

section \<open>The price deriver: \<open>computeTokenPrice\<close>\<close>

text \<open>
  \<open>Number(balances?.find(b => b.owner === key && b.mint === mint)?.uiTokenAmount.amount || 0)
  / Math.pow(10, 6)\<close>. The conversion \<open>Number\<close> of a string is a parameter; the
  empty string is falsy, so it is replaced by \<open>0\<close> before the conversion.
\<close>

definition tokenBalanceOf ::
  "(string \<Rightarrow> number) \<Rightarrow> TokenBalance list \<Rightarrow> string \<Rightarrow> string \<Rightarrow> number" where
  "tokenBalanceOf toNumber balances k m =
     js_div
       (case find (\<lambda>b. TokenBalance.owner b = Some k \<and> TokenBalance.mint b = m) balances of
          None \<Rightarrow> Fin 0
        | Some b \<Rightarrow>
            if amount (uiTokenAmount b) = [] then Fin 0
            else toNumber (amount (uiTokenAmount b)))
       (Fin (10 ^ 6))"

text \<open>The \<open>forEach\<close> over the compute-budget instructions; a throw leaves the loop.\<close>

fun scanMicroLamports ::
  "decoder \<Rightarrow> PartiallyDecodedInstruction list \<Rightarrow> nat \<Rightarrow> error + nat" where
  "scanMicroLamports decode [] microLamports = Inr microLamports"
| "scanMicroLamports decode (ins # rest) microLamports =
     (case decode ins of
        Inl e \<Rightarrow> Inl e
      | Inr (SetComputeUnitPrice p) \<Rightarrow> scanMicroLamports decode rest p
      | Inr _ \<Rightarrow> scanMicroLamports decode rest microLamports)"

definition computeBudgetInstructions ::
  "ParsedTransactionWithMeta \<Rightarrow> PartiallyDecodedInstruction list" where
  "computeBudgetInstructions tx =
     filter (\<lambda>ins. programId ins = ComputeBudgetProgram_programId)
       (instructions (message (transaction tx)))"

definition computeUsage :: "ParsedTransactionWithMeta \<Rightarrow> real" where
  "computeUsage tx = or_zero (Option.bind (meta tx) computeUnitsConsumed)"

text \<open>
  \<open>priorityFee = Math.floor((computeUsage * Number(microLamports)) / 1e6)\<close> when there are
  compute-budget instructions, and \<open>0\<close> otherwise. \<open>Number\<close> of the bigint rounds it to
  binary64, and so do the product and the quotient.
\<close>

definition priorityFeeOf :: "decoder \<Rightarrow> ParsedTransactionWithMeta \<Rightarrow> error + number" where
  "priorityFeeOf decode tx =
     (if computeBudgetInstructions tx = [] then Inr (Fin 0)
      else case scanMicroLamports decode (computeBudgetInstructions tx) 0 of
             Inl e \<Rightarrow> Inl e
           | Inr microLamports \<Rightarrow>
               Inr (js_floor
                 (js_div (js_mul (Fin (computeUsage tx)) (round64 (real microLamports)))
                    (Fin 1000000))))"

definition guardedPrice :: "number \<Rightarrow> number" where
  "guardedPrice p = (if truthy p \<and> \<not> isNaN p \<and> isFinite p then p else Fin 0)"

text \<open>
  The body of \<open>signers.forEach\<close>: \<open>None\<close> is the early \<open>return\<close> that pushes nothing,
  \<open>Inl\<close> a throw of the instruction decoder. \<open>bt\<close> is \<open>parsedTranstion.blockTime\<close>.
\<close>

definition signerTrade ::
  "(string \<Rightarrow> number) \<Rightarrow> decoder \<Rightarrow> ParsedTransactionWithMeta \<Rightarrow> string \<Rightarrow>
   TokenBalance list \<Rightarrow> TokenBalance list \<Rightarrow> real list \<Rightarrow> real list \<Rightarrow> real \<Rightarrow> real \<Rightarrow>
   Signer \<Rightarrow> error + ParsedTokenHistory option" where
  "signerTrade toNumber decode tx m preTB postTB preB postB txFee bt s =
     (let preToken = tokenBalanceOf toNumber preTB (key s) m;
          postToken = tokenBalanceOf toNumber postTB (key s) m
      in if js_eq preToken postToken \<or> bt = 0 then Inr None
         else case priorityFeeOf decode tx of
                Inl e \<Rightarrow> Inl e
              | Inr priorityFee \<Rightarrow>
                  (let preSol = js_div (num_at preB (index s)) LAMPORTS_PER_SOL;
                       postSol = js_div (js_add (js_add (num_at postB (index s)) (Fin txFee))
                                           priorityFee)
                                   LAMPORTS_PER_SOL;
                       p = js_div (js_abs (js_sub preToken postToken))
                             (js_abs (js_sub preSol postSol))
                   in Inr (Some \<lparr>signature = (case signatures (transaction tx) of
                                                  [] \<Rightarrow> None | sg # _ \<Rightarrow> Some sg),
                                  mint = m,
                                  type = (if js_lt postToken preToken then ''sell'' else ''buy''),
                                  owner = key s,
                                  preTokenBalance = preToken,
                                  postTokenBalance = postToken,
                                  preSolBalance = preSol,
                                  postSolBalance = postSol,
                                  price = guardedPrice p,
                                  date = Fin bt\<rparr>)))"

text \<open>\<open>accountKeys.forEach((key, index) => if (key.signer) signers.push(...))\<close>.\<close>

definition signersOf :: "ParsedTransactionWithMeta \<Rightarrow> Signer list" where
  "signersOf tx =
     map (\<lambda>(k, i). \<lparr>key = pubkey k, index = i\<rparr>)
       (filter (\<lambda>(k, i). signer k)
          (zip (accountKeys (message (transaction tx)))
               [0 ..< length (accountKeys (message (transaction tx)))]))"

text \<open>\<open>signers.forEach\<close> pushing onto \<open>accountIndexes\<close>; a throw leaves the loop.\<close>

fun forEachSigner ::
  "(Signer \<Rightarrow> error + ParsedTokenHistory option) \<Rightarrow> Signer list \<Rightarrow> ParsedTokenHistory list \<Rightarrow>
   error + ParsedTokenHistory list" where
  "forEachSigner body [] accountIndexes = Inr accountIndexes"
| "forEachSigner body (s # rest) accountIndexes =
     (case body s of
        Inl e \<Rightarrow> Inl e
      | Inr None \<Rightarrow> forEachSigner body rest accountIndexes
      | Inr (Some t) \<Rightarrow> forEachSigner body rest (accountIndexes @ [t]))"

text \<open>
  \<open>computeTokenPrice\<close>: \<open>Inr None\<close> is the bare \<open>return\<close> of a transaction without
  the balance snapshots or the block time.
\<close>

definition computeTokenPrice ::
  "(string \<Rightarrow> number) \<Rightarrow> decoder \<Rightarrow> ParsedTransactionWithMeta \<Rightarrow> string \<Rightarrow>
   error + ParsedTokenHistory list option" where
  "computeTokenPrice toNumber decode tx m =
     (case (Option.bind (meta tx) preTokenBalances, Option.bind (meta tx) postTokenBalances,
            map_option preBalances (meta tx), map_option postBalances (meta tx)) of
        (Some preTB, Some postTB, Some preB, Some postB) \<Rightarrow>
          if or_zero (blockTime tx) = 0 then Inr None
          else map_sum id Some
                 (forEachSigner
                    (signerTrade toNumber decode tx m preTB postTB preB postB
                       (or_zero (map_option fee (meta tx))) (or_zero (blockTime tx)))
                    (signersOf tx) [])
      | _ \<Rightarrow> Inr None)"

section \<open>The batch fetcher: \<open>getTransactionsWithRetries\<close>\<close>

text \<open>The fields of a \<open>ConfirmedSignatureInfo\<close> that are read; \<open>err\<close> is \<open>null\<close> on success.\<close>

record ConfirmedSignatureInfo =
  signature :: string
  err :: "string option"

text \<open>
  What a run does to the outside, in order: a call of \<open>getParsedTransactions\<close> and a
  \<open>setTimeout\<close> wait with its delay in milliseconds.
\<close>

datatype event = Fetch | Sleep nat

text \<open>
  The transaction-body provider \<open>solanaConnection.getParsedTransactions\<close>: for the
  requested signatures and the number of the attempt it either throws or resolves to an
  array with \<open>null\<close> entries for the signatures it cannot resolve (or to nothing at all,
  which the code guards against with \<open>if (tx)\<close>).
\<close>

type_synonym transactionProvider =
  "string list \<Rightarrow> nat \<Rightarrow> error + ParsedTransactionWithMeta option list option"

text \<open>\<open>tx.forEach(t => { if (t) transactions.push(t) })\<close>.\<close>

definition nonNull :: "'a option list \<Rightarrow> 'a list" where
  "nonNull r = concat (map (\<lambda>x. case x of None \<Rightarrow> [] | Some t \<Rightarrow> [t]) r)"

text \<open>
  The \<open>while (retries < 5)\<close> loop: a successful attempt pushes the non-null entries and
  leaves the loop with \<open>break\<close>; a throw is caught, followed by a wait of 1000 ms and
  \<open>retries++\<close>.
\<close>

function retryLoop ::
  "transactionProvider \<Rightarrow> string list \<Rightarrow> nat \<Rightarrow> ParsedTransactionWithMeta list \<Rightarrow> event list \<Rightarrow>
   ParsedTransactionWithMeta list \<times> event list" where
  "retryLoop getParsedTransactions sigs retries transactions trace =
     (if retries < 5 then
        (case getParsedTransactions sigs retries of
           Inr tx \<Rightarrow>
             (transactions @ (case tx of None \<Rightarrow> [] | Some r \<Rightarrow> nonNull r), trace @ [Fetch])
         | Inl error \<Rightarrow>
             retryLoop getParsedTransactions sigs (retries + 1) transactions
               (trace @ [Fetch, Sleep 1000]))
      else (transactions, trace))"
  by pat_completeness auto
termination
  by (relation "measure (\<lambda>(p, sigs, retries, transactions, trace). 5 - retries)") auto

declare retryLoop.simps [simp del]

definition getTransactionsWithRetries ::
  "transactionProvider \<Rightarrow> ConfirmedSignatureInfo list \<Rightarrow>
   ParsedTransactionWithMeta list \<times> event list" where
  "getTransactionsWithRetries getParsedTransactions batch =
     retryLoop getParsedTransactions (map ConfirmedSignatureInfo.signature batch) 0 [] []"

text \<open>
  \<open>processTransactionBatch\<close>: the price deriver over the fetched transactions. Nothing
  catches a throw of \<open>computeTokenPrice\<close>, so it ends the \<open>forEach\<close> and the function.
\<close>

fun forEachTransaction ::
  "(ParsedTransactionWithMeta \<Rightarrow> error + ParsedTokenHistory list option) \<Rightarrow>
   ParsedTransactionWithMeta list \<Rightarrow> ParsedTokenHistory list \<Rightarrow> error + ParsedTokenHistory list" where
  "forEachTransaction compute [] priceHistory = Inr priceHistory"
| "forEachTransaction compute (tx # rest) priceHistory =
     (case compute tx of
        Inl e \<Rightarrow> Inl e
      | Inr None \<Rightarrow> forEachTransaction compute rest priceHistory
      | Inr (Some priceForAccounts) \<Rightarrow>
          forEachTransaction compute rest (priceHistory @ priceForAccounts))"

definition processTransactionBatch ::
  "(string \<Rightarrow> number) \<Rightarrow> decoder \<Rightarrow> transactionProvider \<Rightarrow> ConfirmedSignatureInfo list \<Rightarrow>
   string \<Rightarrow> error + ParsedTokenHistory list" where
  "processTransactionBatch toNumber decode getParsedTransactions batch m =
     forEachTransaction (\<lambda>tx. computeTokenPrice toNumber decode tx m)
       (fst (getTransactionsWithRetries getParsedTransactions batch)) []"

section \<open>The venue resolver: \<open>getPoolInfo\<close>\<close>

text \<open>A public key is its 32 bytes; \<open>toBuffer\<close> reads them.\<close>

datatype PublicKey = PublicKey (toBuffer: "nat list")

text \<open>The part of the pool registry's answer that is read: \<open>poolInfo.data[0].id\<close>.\<close>

record ApiV3PoolInfoItem =
  pool_id :: string

record PoolsApiReturn =
  data :: "ApiV3PoolInfoItem list"

definition NATIVE_MINT :: string where
  "NATIVE_MINT = ''So11111111111111111111111111111111111111112''"

definition PUMPFUN_PROGRAM :: string where
  "PUMPFUN_PROGRAM = ''6EF8rrecthR5Dkzon8Nwu78hRvfCKubJ14M5uBEwF6P''"

text \<open>\<open>Buffer.from(s)\<close> for an ASCII string: its bytes.\<close>

definition Buffer_from :: "string \<Rightarrow> nat list" where
  "Buffer_from s = map of_char s"

text \<open>
  Library and service calls are parameters, each returning the thrown error or the value:
  \<open>new PublicKey(s)\<close> (throws on an invalid key), \<open>PublicKey.findProgramAddressSync\<close>
  (address and bump seed; throws when no bump seed is viable) and the registry lookup
  \<open>raydium.api.fetchPoolByMints({mint1, mint2})\<close>.
\<close>

type_synonym publicKeyParser = "string \<Rightarrow> error + PublicKey"
type_synonym addressDeriver = "nat list list \<Rightarrow> PublicKey \<Rightarrow> error + PublicKey \<times> nat"
type_synonym poolRegistry = "string \<Rightarrow> string \<Rightarrow> error + PoolsApiReturn option"

text \<open>
  The fallback branch:
  \<open>PublicKey.findProgramAddressSync([Buffer.from("bonding-curve"), new PublicKey(mint).toBuffer()],
  new PublicKey(PUMPFUN_PROGRAM))[0]\<close>.
\<close>

definition bondingCurveAddress ::
  "publicKeyParser \<Rightarrow> addressDeriver \<Rightarrow> string \<Rightarrow> error + PublicKey" where
  "bondingCurveAddress newPublicKey findProgramAddressSync m =
     (case newPublicKey m of
        Inl e \<Rightarrow> Inl e
      | Inr mintKey \<Rightarrow>
          (case newPublicKey PUMPFUN_PROGRAM of
             Inl e \<Rightarrow> Inl e
           | Inr program \<Rightarrow>
               (case findProgramAddressSync [Buffer_from ''bonding-curve'', toBuffer mintKey] program of
                  Inl e \<Rightarrow> Inl e
                | Inr (address, bump) \<Rightarrow> Inr address)))"

text \<open>
  \<open>getPoolInfo\<close>. The lookup is awaited outside any \<open>try\<close>, so its rejection is the
  function's rejection; \<open>!poolInfo || poolInfo.data.length === 0\<close> selects the fallback.
\<close>

definition getPoolInfo ::
  "publicKeyParser \<Rightarrow> addressDeriver \<Rightarrow> poolRegistry \<Rightarrow> string \<Rightarrow> error + PublicKey" where
  "getPoolInfo newPublicKey findProgramAddressSync fetchPoolByMints m =
     (case fetchPoolByMints m NATIVE_MINT of
        Inl e \<Rightarrow> Inl e
      | Inr poolInfo \<Rightarrow>
          (case poolInfo of
             None \<Rightarrow> bondingCurveAddress newPublicKey findProgramAddressSync m
           | Some info \<Rightarrow>
               (case PoolsApiReturn.data info of
                  [] \<Rightarrow> bondingCurveAddress newPublicKey findProgramAddressSync m
                | first # _ \<Rightarrow> newPublicKey (pool_id first))))"

section \<open>The history walker: \<open>getAllTransactionsUntilLastSignature\<close>\<close>

record SignaturesForAddressOptions =
  before :: "string option"
  until :: "string option"

text \<open>\<open>solanaConnection.getSignaturesForAddress(address, options)\<close>: a page or a throw.\<close>

type_synonym signatureProvider =
  "PublicKey \<Rightarrow> SignaturesForAddressOptions \<Rightarrow> error + ConfirmedSignatureInfo list"

text \<open>
  The \<open>while (current.length > 0)\<close> loop. Nothing bounds the number of pages, so the
  loop is a partial function: \<open>None\<close> is a run that never leaves the loop. The 1000 ms
  wait after each page has no effect on the result and is left out.
\<close>

partial_function (option) walkLoop ::
  "signatureProvider \<Rightarrow> PublicKey \<Rightarrow> SignaturesForAddressOptions \<Rightarrow>
   ConfirmedSignatureInfo list \<Rightarrow> ConfirmedSignatureInfo list \<Rightarrow>
   (error + ConfirmedSignatureInfo list) option" where
  "walkLoop getSignaturesForAddress address params current allSignatures =
     (if 0 < length current then
        (case getSignaturesForAddress address
                (params\<lparr>before := Some (ConfirmedSignatureInfo.signature (last current))\<rparr>) of
           Inl e \<Rightarrow> Some (Inl e)
         | Inr next \<Rightarrow>
             walkLoop getSignaturesForAddress address params next (allSignatures @ next))
      else Some (Inr allSignatures))"

text \<open>
  \<open>params = {...(lastSignature && {until: lastSignature})}\<close>: a missing or empty cursor
  sets no bound.
\<close>

definition getAllTransactionsUntilLastSignature ::
  "signatureProvider \<Rightarrow> PublicKey \<Rightarrow> string option \<Rightarrow>
   (error + ConfirmedSignatureInfo list) option" where
  "getAllTransactionsUntilLastSignature getSignaturesForAddress address lastSignature =
     (let params = (case lastSignature of
                      None \<Rightarrow> \<lparr>before = None, until = None\<rparr>
                    | Some s \<Rightarrow> if s = [] then \<lparr>before = None, until = None\<rparr>
                               else \<lparr>before = None, until = Some s\<rparr>)
      in case getSignaturesForAddress address params of
           Inl e \<Rightarrow> Some (Inl e)
         | Inr current \<Rightarrow> walkLoop getSignaturesForAddress address params current current)"

section \<open>The pipeline: \<open>getTokenPoolInfo\<close>\<close>

text \<open>\<open>transactions = (await getAllTransactionsUntilLastSignature(...)).slice(0, 5000)\<close>.\<close>

definition consideredTransactions ::
  "ConfirmedSignatureInfo list \<Rightarrow> ConfirmedSignatureInfo list" where
  "consideredTransactions allSignatures = take 5000 allSignatures"

text \<open>\<open>transactions.filter((transaction) => transaction.err === null)\<close>.\<close>

definition successfullTransactions ::
  "ConfirmedSignatureInfo list \<Rightarrow> ConfirmedSignatureInfo list" where
  "successfullTransactions transactions = filter (\<lambda>t. err t = None) transactions"

text \<open>\<open>for (let i = 0; i < xs.length; i += BATCH_SIZE) batches.push(xs.slice(i, i + BATCH_SIZE))\<close>.\<close>

function batchesFrom :: "'a list \<Rightarrow> nat \<Rightarrow> 'a list list" where
  "batchesFrom xs i =
     (if i < length xs then take 100 (drop i xs) # batchesFrom xs (i + 100) else [])"
  by pat_completeness auto
termination
  by (relation "measure (\<lambda>(xs, i). length xs - i)") auto

declare batchesFrom.simps [simp del]

text \<open>
  \<open>for (const batch of batches) priceHistory.push(...(await processTransactionBatch(batch, mint)))\<close>:
  a rejection of \<open>processTransactionBatch\<close> is not caught and ends the loop. Besides the
  outcome the loop yields \<open>forwarded\<close>, the batches it has handed to
  \<open>processTransactionBatch\<close>, in order. The 1000 ms wait before each batch has no effect
  on either and is left out.
\<close>

fun forEachBatch ::
  "(ConfirmedSignatureInfo list \<Rightarrow> error + ParsedTokenHistory list) \<Rightarrow>
   ConfirmedSignatureInfo list list \<Rightarrow> ParsedTokenHistory list \<Rightarrow>
   ConfirmedSignatureInfo list list \<Rightarrow>
   (error + ParsedTokenHistory list) \<times> ConfirmedSignatureInfo list list" where
  "forEachBatch process [] priceHistory forwarded = (Inr priceHistory, forwarded)"
| "forEachBatch process (batch # rest) priceHistory forwarded =
     (case process batch of
        Inl e \<Rightarrow> (Inl e, forwarded @ [batch])
      | Inr trades \<Rightarrow> forEachBatch process rest (priceHistory @ trades) (forwarded @ [batch]))"

text \<open>The libraries and remote services a run talks to.\<close>

record Services =
  Number_conv :: "string \<Rightarrow> number"
  ComputeBudgetInstruction_decode :: decoder
  PublicKey_new :: publicKeyParser
  PublicKey_findProgramAddressSync :: addressDeriver
  raydium_fetchPoolByMints :: poolRegistry
  solanaConnection_getSignaturesForAddress :: signatureProvider
  solanaConnection_getParsedTransactions :: transactionProvider

text \<open>
  \<open>getTokenPoolInfo\<close> (and \<open>getHistoricalTransactionData\<close>, which only calls it):
  \<open>None\<close> when the walker never returns; otherwise the outcome, \<open>Inl e\<close> when the run
  throws \<open>e\<close> and \<open>Inr priceHistory\<close> when it returns, together with the batches that
  were forwarded to \<open>processTransactionBatch\<close>.
\<close>

definition getTokenPoolInfo ::
  "Services \<Rightarrow> string \<Rightarrow> string option \<Rightarrow>
   ((error + ParsedTokenHistory list) \<times> ConfirmedSignatureInfo list list) option" where
  "getTokenPoolInfo sv m lastSignature =
     (case getPoolInfo (PublicKey_new sv) (PublicKey_findProgramAddressSync sv)
             (raydium_fetchPoolByMints sv) m of
        Inl e \<Rightarrow> Some (Inl e, [])
      | Inr poolPublicKey \<Rightarrow>
          (case getAllTransactionsUntilLastSignature (solanaConnection_getSignaturesForAddress sv)
                  poolPublicKey lastSignature of
             None \<Rightarrow> None
           | Some (Inl e) \<Rightarrow> Some (Inl e, [])
           | Some (Inr allSignatures) \<Rightarrow>
               Some (forEachBatch
                       (\<lambda>batch. processTransactionBatch (Number_conv sv)
                                  (ComputeBudgetInstruction_decode sv)
                                  (solanaConnection_getParsedTransactions sv) batch m)
                       (batchesFrom (successfullTransactions (consideredTransactions allSignatures))
                          0) [] [])))"

section \<open>The per-asset driver: \<open>syncAgentTransactionHistory\<close>\<close>

record Agent =
  agent_id :: nat
  mint :: string

text \<open>The attributes passed to \<open>PriceHistory.create\<close>.\<close>

record PriceHistoryAttributes =
  price :: string
  blockTime :: number
  agentId :: nat
  signature :: "string option"

text \<open>
  The persistence layer, outside the pipeline: \<open>getAgents()\<close>, \<open>getLastSignature(id)\<close>
  and \<open>PriceHistory.create(row)\<close> (\<open>Some e\<close> when the insert throws \<open>e\<close>), and the
  conversion \<open>"" + item.price\<close> of a number to a string.
\<close>

record Persistence =
  db_getAgents :: "error + Agent list"
  db_getLastSignature :: "nat \<Rightarrow> error + string option"
  db_create :: "PriceHistoryAttributes \<Rightarrow> error option"
  String_of_number :: "number \<Rightarrow> string"

text \<open>\<open>for (const item of history) await PriceHistory.create({...})\<close> on the table \<open>rows\<close>.\<close>

fun createAll ::
  "(PriceHistoryAttributes \<Rightarrow> error option) \<Rightarrow> PriceHistoryAttributes list \<Rightarrow>
   PriceHistoryAttributes list \<Rightarrow> PriceHistoryAttributes list \<times> error option" where
  "createAll create rows [] = (rows, None)"
| "createAll create rows (item # rest) =
     (case create item of
        Some e \<Rightarrow> (rows, Some e)
      | None \<Rightarrow> createAll create (rows @ [item]) rest)"

definition rowOf :: "Persistence \<Rightarrow> Agent \<Rightarrow> ParsedTokenHistory \<Rightarrow> PriceHistoryAttributes" where
  "rowOf ps agent item =
     \<lparr>PriceHistoryAttributes.price = String_of_number ps (ParsedTokenHistory.price item),
      PriceHistoryAttributes.blockTime = date item,
      agentId = agent_id agent,
      PriceHistoryAttributes.signature = ParsedTokenHistory.signature item\<rparr>"

text \<open>
  \<open>for (const agent of agents) { ... }\<close>: the loop body has no \<open>try\<close>, so the first
  throw ends the loop. The result is the table and the thrown error, if any; \<open>None\<close>
  when a walker never returns.
\<close>

fun syncAgents ::
  "Services \<Rightarrow> Persistence \<Rightarrow> Agent list \<Rightarrow> PriceHistoryAttributes list \<Rightarrow>
   (PriceHistoryAttributes list \<times> error option) option" where
  "syncAgents sv ps [] rows = Some (rows, None)"
| "syncAgents sv ps (agent # rest) rows =
     (case db_getLastSignature ps (agent_id agent) of
        Inl e \<Rightarrow> Some (rows, Some e)
      | Inr lastSignature \<Rightarrow>
          (case getTokenPoolInfo sv (Agent.mint agent) lastSignature of
             None \<Rightarrow> None
           | Some (Inl e, forwarded) \<Rightarrow> Some (rows, Some e)
           | Some (Inr history, forwarded) \<Rightarrow>
               (case createAll (db_create ps) rows (map (rowOf ps agent) history) of
                  (rows', Some e) \<Rightarrow> Some (rows', Some e)
                | (rows', None) \<Rightarrow> syncAgents sv ps rest rows')))"

definition syncAgentTransactionHistory ::
  "Services \<Rightarrow> Persistence \<Rightarrow> PriceHistoryAttributes list \<Rightarrow>
   (PriceHistoryAttributes list \<times> error option) option" where
  "syncAgentTransactionHistory sv ps rows =
     (case db_getAgents ps of
        Inl e \<Rightarrow> Some (rows, Some e)
      | Inr agents \<Rightarrow> syncAgents sv ps agents rows)"

section \<open>The expanded agent response: \<open>getAgentResponse\<close>\<close>

text \<open>
  A stored price row as \<open>getPriceHistory\<close> returns it. Block times are whole seconds and
  are kept as integers, so that \<open>parseInt\<close> of the property key written from a block
  time is that block time.
\<close>

record PriceHistory =
  price :: string
  blockTime :: int

record HistoricPrice =
  time :: int
  price :: number

text \<open>
  The object \<open>history: Record<number, PriceHistory[]>\<close>, its keys in the order of their
  first insertion.
\<close>

type_synonym historyObject = "(int \<times> PriceHistory list) list"

text \<open>
  \<open>if (!history[t]) history[t] = []; history[t].push(row)\<close>.
\<close>

fun pushRow :: "historyObject \<Rightarrow> PriceHistory \<Rightarrow> historyObject" where
  "pushRow [] row = [(PriceHistory.blockTime row, [row])]"
| "pushRow ((t, rows) # rest) row =
     (if t = PriceHistory.blockTime row then (t, rows @ [row]) # rest
      else (t, rows) # pushRow rest row)"

text \<open>
  \<open>Object.entries\<close> lists the keys that are array indices (integers from \<open>0\<close> to
  \<open>2^32 - 2\<close>) first, in ascending numeric order, and then the other keys in insertion
  order.
\<close>

definition isArrayIndex :: "int \<Rightarrow> bool" where
  "isArrayIndex t = (0 \<le> t \<and> t < 4294967295)"

definition Object_entries :: "historyObject \<Rightarrow> (int \<times> PriceHistory list) list" where
  "Object_entries obj =
     sort_key fst (filter (\<lambda>kv. isArrayIndex (fst kv)) obj) @
     filter (\<lambda>kv. \<not> isArrayIndex (fst kv)) obj"

text \<open>
  \<open>prices.reduce((acc, price) => { p = parseFloat(price.price); return isNaN(p) ? acc : acc + p }, 0)\<close>;
  \<open>parseFloat\<close> is a parameter.
\<close>

definition sumPrices :: "(string \<Rightarrow> number) \<Rightarrow> PriceHistory list \<Rightarrow> number" where
  "sumPrices parseFloat prices =
     foldl (\<lambda>acc row. if isNaN (parseFloat (PriceHistory.price row)) then acc
                        else js_add acc (parseFloat (PriceHistory.price row)))
       (Fin 0) prices"

definition flattenHistory :: "(string \<Rightarrow> number) \<Rightarrow> PriceHistory list \<Rightarrow> HistoricPrice list" where
  "flattenHistory parseFloat agentHistory =
     map (\<lambda>(t, prices). \<lparr>time = t, HistoricPrice.price = sumPrices parseFloat prices\<rparr>)
       (Object_entries (foldl pushRow [] agentHistory))"

text \<open>
  Arrays are objects: a variable holds a reference, and the store holds the elements of
  the array of each reference (the \<open>r\<close>-th allocated array at position \<open>r\<close>).
  \<open>Array.prototype.sort\<close> sorts the array it is called on in place (stably, here by
  \<open>a.time - b.time\<close>) and returns the same reference.
\<close>

type_synonym ref = nat
type_synonym store = "HistoricPrice list list"

definition new_array :: "HistoricPrice list \<Rightarrow> store \<Rightarrow> ref \<times> store" where
  "new_array xs h = (length h, h @ [xs])"

definition Array_sort_by_time :: "ref \<Rightarrow> store \<Rightarrow> ref \<times> store" where
  "Array_sort_by_time r h = (r, h[r := sort_key time (h ! r)])"

text \<open>The response object; of its fields only \<open>history\<close> is kept.\<close>

record AgentResponse =
  history :: ref

text \<open>
  \<open>getAgentResponse(id, expanded)\<close> as far as the \<open>history\<close> field goes. The values the
  awaited repository calls resolved to are inputs: the agent (\<open>null\<close> when there is
  none) and its stored price rows.
\<close>

definition getAgentResponse ::
  "(string \<Rightarrow> number) \<Rightarrow> Agent option \<Rightarrow> PriceHistory list \<Rightarrow> bool \<Rightarrow> store \<Rightarrow>
   AgentResponse option \<times> store" where
  "getAgentResponse parseFloat agent agentHistory expanded h0 =
     (case agent of
        None \<Rightarrow> (None, h0)
      | Some a \<Rightarrow>
          (let (empty, h1) = new_array [] h0;
               response = \<lparr>history = empty\<rparr>
           in if expanded then
                (let (flattendHistory, h2) = new_array (flattenHistory parseFloat agentHistory) h1;
                     (sorted_ref, h3) = Array_sort_by_time flattendHistory h2;
                     response = response\<lparr>history := sorted_ref\<rparr>;
                     response = response\<lparr>history := flattendHistory\<rparr>
                 in (Some response, h3))
              else (Some response, h1)))"

text \<open>What the caller serialises: the elements of the array the response refers to.\<close>

definition returnedHistory :: "AgentResponse option \<times> store \<Rightarrow> HistoricPrice list option" where
  "returnedHistory res =
     (case fst res of None \<Rightarrow> None | Some response \<Rightarrow> Some (snd res ! history response))"

section \<open>Notions used to state the properties\<close>

text \<open>A number that is finite and not negative; \<open>NaN\<close> and the infinities are not.\<close>

fun finite_nonneg :: "number \<Rightarrow> bool" where
  "finite_nonneg (Fin a) = (0 \<le> a)"
| "finite_nonneg _ = False"

text \<open>
  The micro-lamport prices declared by the \<open>SetComputeUnitPrice\<close> instructions of a list,
  in instruction order.
\<close>

definition declaredPrices :: "decoder \<Rightarrow> PartiallyDecodedInstruction list \<Rightarrow> nat list" where
  "declaredPrices decode inss =
     concat (map (\<lambda>ins. case decode ins of Inr (SetComputeUnitPrice p) \<Rightarrow> [p] | _ \<Rightarrow> []) inss)"

text \<open>
  The micro-lamport price in force for a transaction: the one declared last among its
  compute-budget instructions, and \<open>0\<close> when none declares a price.
\<close>

definition declaredPrice :: "decoder \<Rightarrow> ParsedTransactionWithMeta \<Rightarrow> nat" where
  "declaredPrice decode tx =
     (case declaredPrices decode (computeBudgetInstructions tx) of
        [] \<Rightarrow> 0
      | p # ps \<Rightarrow> last (p # ps))"

text \<open>
  The priority fee as the specification words it: \<open>0\<close> when no \<open>SetComputeUnitPrice\<close>
  instruction is addressed to the compute-budget program, and otherwise
  \<open>floor(compute units consumed * micro-lamport price / 1000000)\<close> for the price declared
  last, in exact arithmetic.
\<close>

definition specPriorityFee :: "decoder \<Rightarrow> ParsedTransactionWithMeta \<Rightarrow> real" where
  "specPriorityFee decode tx =
     (case declaredPrices decode (computeBudgetInstructions tx) of
        [] \<Rightarrow> 0
      | p # ps \<Rightarrow> of_int \<lfloor>computeUsage tx * real (last (p # ps)) / 1000000\<rfloor>)"

text \<open>
  The signature-history provider the walker is specified against: the venue's history
  \<open>venueHistory\<close> is listed newest first, a page starts right after the signature \<open>before\<close>
  (at the newest record when there is none), stops before the signature \<open>until\<close> and holds
  at most \<open>limit\<close> records.
\<close>

definition listSignatures :: "nat \<Rightarrow> ConfirmedSignatureInfo list \<Rightarrow> signatureProvider" where
  "listSignatures limit venueHistory address opts =
     Inr (take limit
            (takeWhile (\<lambda>r. Some (ConfirmedSignatureInfo.signature r) \<noteq> until opts)
               (case before opts of
                  None \<Rightarrow> venueHistory
                | Some b \<Rightarrow>
                    drop 1 (dropWhile (\<lambda>r. ConfirmedSignatureInfo.signature r \<noteq> b)
                              venueHistory))))"

section \<open>Concrete inputs\<close>

text \<open>
  \<open>Number\<close> on the strings a raw token amount is sent as: a non-empty string of decimal
  digits is its value, rounded. It instantiates the conversion parameter at the concrete
  inputs below, where no other kind of string occurs.
\<close>

definition Number_decimal :: "string \<Rightarrow> number" where
  "Number_decimal s =
     (if s \<noteq> [] \<and> list_all (\<lambda>c. 48 \<le> (of_char c :: nat) \<and> (of_char c :: nat) \<le> 57) s
      then round64 (real (foldl (\<lambda>a c. 10 * a + (of_char c - 48)) 0 s))
      else NaN)"

text \<open>A decoder knowing three instruction payloads and throwing on every other one.\<close>

definition exampleDecoder :: decoder where
  "exampleDecoder ins =
     (if PartiallyDecodedInstruction.data ins = ''price=25000'' then Inr (SetComputeUnitPrice 25000)
      else if PartiallyDecodedInstruction.data ins = ''price=999999999999999999''
        then Inr (SetComputeUnitPrice 999999999999999999)
      else if PartiallyDecodedInstruction.data ins = ''limit'' then Inr SetComputeUnitLimit
      else Inl (Error ''Instruction type incorrect; not a ComputeBudgetInstruction''))"

text \<open>
  A sale by the signer \<open>alice\<close>: 5 tokens before, 3 after; 1 SOL before and, with the
  base fee of 5000 lamports and the priority fee of 5000 lamports added back, 1.5 SOL after.
  The second signer \<open>bob\<close> holds no token account.
\<close>

definition examplePre :: "TokenBalance list" where
  "examplePre = [\<lparr>TokenBalance.mint = ''MINT'', TokenBalance.owner = Some ''alice'',
                  uiTokenAmount = \<lparr>amount = ''5000000''\<rparr>\<rparr>]"

definition examplePost :: "TokenBalance list" where
  "examplePost = [\<lparr>TokenBalance.mint = ''MINT'', TokenBalance.owner = Some ''alice'',
                   uiTokenAmount = \<lparr>amount = ''3000000''\<rparr>\<rparr>]"

definition exampleMeta :: ParsedTransactionMeta where
  "exampleMeta = \<lparr>fee = 5000, preBalances = [1000000000, 7], postBalances = [1499990000, 7],
                   preTokenBalances = Some examplePre, postTokenBalances = Some examplePost,
                   computeUnitsConsumed = Some 200000\<rparr>"

definition exampleSale :: ParsedTransactionWithMeta where
  "exampleSale =
     \<lparr>ParsedTransactionWithMeta.blockTime = Some 1700000000,
      meta = Some exampleMeta,
      transaction = \<lparr>signatures = [''sig1''],
                     message = \<lparr>accountKeys = [\<lparr>pubkey = ''alice'', signer = True\<rparr>,
                                                \<lparr>pubkey = ''bob'', signer = True\<rparr>],
                                instructions =
                                  [\<lparr>programId = ComputeBudgetProgram_programId,
                                    PartiallyDecodedInstruction.data = ''limit''\<rparr>,
                                   \<lparr>programId = ComputeBudgetProgram_programId,
                                    PartiallyDecodedInstruction.data = ''price=25000''\<rparr>,
                                   \<lparr>programId = ''6EF8rrecthR5Dkzon8Nwu78hRvfCKubJ14M5uBEwF6P'',
                                    PartiallyDecodedInstruction.data = ''swap''\<rparr>]\<rparr>\<rparr>\<rparr>"

definition exampleSaleTrade :: ParsedTokenHistory where
  "exampleSaleTrade =
     \<lparr>ParsedTokenHistory.signature = Some ''sig1'', ParsedTokenHistory.mint = ''MINT'',
      type = ''sell'', ParsedTokenHistory.owner = ''alice'',
      preTokenBalance = Fin 5, postTokenBalance = Fin 3,
      preSolBalance = Fin 1, postSolBalance = Fin (3 / 2), ParsedTokenHistory.price = Fin 4,
      date = Fin 1700000000\<rparr>"

text \<open>
  A sale by the only signer that consumed one compute unit at a declared price of
  \<open>999999999999999999\<close> micro-lamports: 5 tokens before, 3 after; 1005 SOL before and
  999995000 lamports after, the base fee being 5000 lamports.
\<close>

definition roundedSale :: ParsedTransactionWithMeta where
  "roundedSale =
     \<lparr>ParsedTransactionWithMeta.blockTime = Some 1700000000,
      meta = Some \<lparr>fee = 5000, preBalances = [1005000000000], postBalances = [999995000],
                   preTokenBalances = Some examplePre, postTokenBalances = Some examplePost,
                   computeUnitsConsumed = Some 1\<rparr>,
      transaction = \<lparr>signatures = [''sigR''],
                     message = \<lparr>accountKeys = [\<lparr>pubkey = ''alice'', signer = True\<rparr>],
                                instructions =
                                  [\<lparr>programId = ComputeBudgetProgram_programId,
                                    PartiallyDecodedInstruction.data =
                                      ''price=999999999999999999''\<rparr>]\<rparr>\<rparr>\<rparr>"

definition roundedTrade :: ParsedTokenHistory where
  "roundedTrade =
     \<lparr>ParsedTokenHistory.signature = Some ''sigR'', ParsedTokenHistory.mint = ''MINT'',
      type = ''sell'', ParsedTokenHistory.owner = ''alice'',
      preTokenBalance = Fin 5, postTokenBalance = Fin 3,
      preSolBalance = Fin 1005, postSolBalance = Fin 1001,
      ParsedTokenHistory.price = Fin (1 / 2), date = Fin 1700000000\<rparr>"

text \<open>
  Stand-ins for the key constructor and the address derivation: a key is the character
  codes of its string, the derived address the seeds followed by the program's bytes.
\<close>

definition examplePublicKey :: publicKeyParser where
  "examplePublicKey s =
     (if s = [] then Inl (Error ''Invalid public key input'') else Inr (PublicKey (map of_char s)))"

definition exampleDerive :: addressDeriver where
  "exampleDerive seeds program = Inr (PublicKey (concat seeds @ toBuffer program), 255)"

text \<open>A registry listing two pools, one listing none, and one whose request fails.\<close>

definition listedRegistry :: poolRegistry where
  "listedRegistry mint1 mint2 =
     Inr (Some \<lparr>PoolsApiReturn.data = [\<lparr>pool_id = ''PoolA''\<rparr>, \<lparr>pool_id = ''PoolB''\<rparr>]\<rparr>)"

definition emptyRegistry :: poolRegistry where
  "emptyRegistry mint1 mint2 = Inr (Some \<lparr>PoolsApiReturn.data = []\<rparr>)"

definition failingRegistry :: poolRegistry where
  "failingRegistry mint1 mint2 = Inl (Error ''Request failed with status code 500'')"

text \<open>
  A batch of two signatures, a provider failing twice before answering (with \<open>null\<close> for
  the second signature), and a provider that always fails.
\<close>

definition exampleBatch :: "ConfirmedSignatureInfo list" where
  "exampleBatch = [\<lparr>ConfirmedSignatureInfo.signature = ''sig1'', err = None\<rparr>,
                   \<lparr>ConfirmedSignatureInfo.signature = ''sig2'', err = None\<rparr>]"

definition flakyProvider :: transactionProvider where
  "flakyProvider sigs attempt =
     (if attempt < 2 then Inl (Error ''429 Too Many Requests'')
      else Inr (Some [Some exampleSale, None]))"

definition deadProvider :: transactionProvider where
  "deadProvider sigs attempt = Inl (Error ''fetch failed'')"

text \<open>A venue history of five records, newest first, the second one failed.\<close>

definition exampleHistory :: "ConfirmedSignatureInfo list" where
  "exampleHistory =
     [\<lparr>ConfirmedSignatureInfo.signature = ''s5'', err = None\<rparr>,
      \<lparr>ConfirmedSignatureInfo.signature = ''s4'', err = Some ''InstructionError''\<rparr>,
      \<lparr>ConfirmedSignatureInfo.signature = ''s3'', err = None\<rparr>,
      \<lparr>ConfirmedSignatureInfo.signature = ''s2'', err = None\<rparr>,
      \<lparr>ConfirmedSignatureInfo.signature = ''s1'', err = None\<rparr>]"

text \<open>A history of 5002 records: the newest failed, the 5001 older ones succeeded.\<close>

definition longHistory :: "ConfirmedSignatureInfo list" where
  "longHistory =
     \<lparr>ConfirmedSignatureInfo.signature = ''failed'', err = Some ''InstructionError''\<rparr> #
     map (\<lambda>i. \<lparr>ConfirmedSignatureInfo.signature = replicate (Suc i) (CHR ''s''), err = None\<rparr>)
       [0 ..< 5001]"

text \<open>
  A transaction provider that resolves none of the requested signatures, and the services
  of a run against it: the registry lists a pool, the signature provider is a parameter.
\<close>

definition nullTransactions :: transactionProvider where
  "nullTransactions sigs attempt = Inr (Some (map (\<lambda>s. None) sigs))"

definition servicesOf :: "signatureProvider \<Rightarrow> Services" where
  "servicesOf getSignaturesForAddress =
     \<lparr>Number_conv = Number_decimal,
      ComputeBudgetInstruction_decode = exampleDecoder,
      PublicKey_new = examplePublicKey,
      PublicKey_findProgramAddressSync = exampleDerive,
      raydium_fetchPoolByMints = listedRegistry,
      solanaConnection_getSignaturesForAddress = getSignaturesForAddress,
      solanaConnection_getParsedTransactions = nullTransactions\<rparr>"

text \<open>An agent whose asset is the one traded in the example sale.\<close>

definition exampleAgent :: Agent where
  "exampleAgent = \<lparr>agent_id = 2, Agent.mint = ''MINT''\<rparr>"

text \<open>
  Stored price rows: three rows at two block times beyond \<open>2^32\<close>, the later block time
  first, and the same rows at block times of the present day.
\<close>

definition farFutureRows :: "PriceHistory list" where
  "farFutureRows =
     [\<lparr>PriceHistory.price = ''2'', PriceHistory.blockTime = 5000000000\<rparr>,
      \<lparr>PriceHistory.price = ''1'', PriceHistory.blockTime = 4999999999\<rparr>,
      \<lparr>PriceHistory.price = ''3'', PriceHistory.blockTime = 5000000000\<rparr>]"

definition recentRows :: "PriceHistory list" where
  "recentRows =
     [\<lparr>PriceHistory.price = ''2'', PriceHistory.blockTime = 1700000300\<rparr>,
      \<lparr>PriceHistory.price = ''1'', PriceHistory.blockTime = 1700000100\<rparr>,
      \<lparr>PriceHistory.price = ''3'', PriceHistory.blockTime = 1700000300\<rparr>]"

text \<open>
  A sale of 2 tokens of the asset \<open>m\<close> for 0.5 SOL by the only signer, carrying the given
  instructions; with an instruction the decoder does not know, and without any.
\<close>

definition balancesOf :: "string \<Rightarrow> string \<Rightarrow> TokenBalance list" where
  "balancesOf m amt = [\<lparr>TokenBalance.mint = m, TokenBalance.owner = Some ''alice'',
                        uiTokenAmount = \<lparr>amount = amt\<rparr>\<rparr>]"

definition saleOf :: "string \<Rightarrow> PartiallyDecodedInstruction list \<Rightarrow> ParsedTransactionWithMeta" where
  "saleOf m instrs =
     \<lparr>ParsedTransactionWithMeta.blockTime = Some 1700000000,
      meta = Some \<lparr>fee = 5000, preBalances = [1000000000], postBalances = [1499995000],
                   preTokenBalances = Some (balancesOf m ''5000000''),
                   postTokenBalances = Some (balancesOf m ''3000000''),
                   computeUnitsConsumed = Some 200000\<rparr>,
      transaction = \<lparr>signatures = [''sigX''],
                     message = \<lparr>accountKeys = [\<lparr>pubkey = ''alice'', signer = True\<rparr>],
                                instructions = instrs\<rparr>\<rparr>\<rparr>"

definition badSale :: ParsedTransactionWithMeta where
  "badSale = saleOf ''BAD'' [\<lparr>programId = ComputeBudgetProgram_programId,
                               PartiallyDecodedInstruction.data = ''unknown''\<rparr>]"

definition goodSale :: ParsedTransactionWithMeta where
  "goodSale = saleOf ''BAD'' []"

text \<open>The trade derived from such a sale without compute-budget instructions.\<close>

definition saleTrade :: "string \<Rightarrow> ParsedTokenHistory" where
  "saleTrade m =
     \<lparr>ParsedTokenHistory.signature = Some ''sigX'', ParsedTokenHistory.mint = m,
      type = ''sell'', ParsedTokenHistory.owner = ''alice'',
      preTokenBalance = Fin 5, postTokenBalance = Fin 3,
      preSolBalance = Fin 1, postSolBalance = Fin (3 / 2), ParsedTokenHistory.price = Fin 4,
      date = Fin 1700000000\<rparr>"

text \<open>The error the example decoder throws.\<close>

definition decodeError :: error where
  "decodeError = Error ''Instruction type incorrect; not a ComputeBudgetInstruction''"

text \<open>
  The agent of the asset \<open>BAD\<close>; a registry listing, for every asset, the pool named
  after it; the venue history of \<open>BAD\<close> with 101 successful records, the newest being the
  sale that cannot be decoded; the venue history of \<open>MINT\<close> with one record.
\<close>

definition badAgent :: Agent where
  "badAgent = \<lparr>agent_id = 1, Agent.mint = ''BAD''\<rparr>"

definition mintRegistry :: poolRegistry where
  "mintRegistry mint1 mint2 = Inr (Some \<lparr>PoolsApiReturn.data = [\<lparr>pool_id = ''pool-'' @ mint1\<rparr>]\<rparr>)"

definition badHistory :: "ConfirmedSignatureInfo list" where
  "badHistory =
     \<lparr>ConfirmedSignatureInfo.signature = ''sigBad'', err = None\<rparr> #
     map (\<lambda>i. \<lparr>ConfirmedSignatureInfo.signature = CHR ''g'' # replicate i (CHR ''x''),
               err = None\<rparr>)
       [0 ..< 100]"

definition goodHistory :: "ConfirmedSignatureInfo list" where
  "goodHistory = [\<lparr>ConfirmedSignatureInfo.signature = ''sig1'', err = None\<rparr>]"

text \<open>The signature provider serving both venues, and the transaction provider.\<close>

definition venueSignatures :: signatureProvider where
  "venueSignatures address opts =
     listSignatures 1000
       (if address = PublicKey (map of_char ''pool-BAD'') then badHistory else goodHistory)
       address opts"

definition exampleTransactions :: transactionProvider where
  "exampleTransactions sigs attempt =
     Inr (Some (map (\<lambda>s. if s = ''sigBad'' then Some badSale
                          else if s = ''sig1'' then Some exampleSale
                          else Some goodSale) sigs))"

text \<open>A signature provider whose every request fails.\<close>

definition failingSignatures :: signatureProvider where
  "failingSignatures address opts = Inl (Error ''503 Service Unavailable'')"

text \<open>
  The services; a stand-in for the conversion of a number to a string, right on the one
  price that occurs; the persistence layer; and the row written for the example sale.
\<close>

definition exampleServices :: Services where
  "exampleServices =
     \<lparr>Number_conv = Number_decimal,
      ComputeBudgetInstruction_decode = exampleDecoder,
      PublicKey_new = examplePublicKey,
      PublicKey_findProgramAddressSync = exampleDerive,
      raydium_fetchPoolByMints = mintRegistry,
      solanaConnection_getSignaturesForAddress = venueSignatures,
      solanaConnection_getParsedTransactions = exampleTransactions\<rparr>"

definition exampleString :: "number \<Rightarrow> string" where
  "exampleString n = (if n = Fin 4 then ''4'' else ''0'')"

definition examplePersistence :: Persistence where
  "examplePersistence =
     \<lparr>db_getAgents = Inr [badAgent, exampleAgent],
      db_getLastSignature = (\<lambda>i. Inr None),
      db_create = (\<lambda>row. None),
      String_of_number = exampleString\<rparr>"

definition exampleRow :: PriceHistoryAttributes where
  "exampleRow = \<lparr>PriceHistoryAttributes.price = ''4'',
                  PriceHistoryAttributes.blockTime = Fin 1700000000,
                  agentId = 2, PriceHistoryAttributes.signature = Some ''sig1''\<rparr>"

section \<open>Properties of binary64 rounding\<close>

lemma ilog2_le: "1 \<le> n \<Longrightarrow> 2 ^ ilog2 n \<le> n"
proof (induction n rule: ilog2.induct)
  case (1 n)
  show ?case
  proof (cases "n < 2")
    case True
    with 1 show ?thesis by (simp add: ilog2.simps[of n])
  next
    case False
    then have "1 \<le> n div 2" by simp
    with 1 False have "2 ^ ilog2 (n div 2) \<le> n div 2" by simp
    then have "2 * 2 ^ ilog2 (n div 2) \<le> n" by simp
    with False show ?thesis by (simp add: ilog2.simps[of n])
  qed
qed

lemma ilog2_gt: "n < 2 ^ Suc (ilog2 n)"
proof (induction n rule: ilog2.induct)
  case (1 n)
  show ?case
  proof (cases "n < 2")
    case True
    then show ?thesis by (simp add: ilog2.simps[of n])
  next
    case False
    with 1 have "n div 2 < 2 ^ Suc (ilog2 (n div 2))" by simp
    then have "n < 2 * 2 ^ Suc (ilog2 (n div 2))" by simp
    with False show ?thesis by (simp add: ilog2.simps[of n])
  qed
qed

lemma clog2_ge: "n \<le> 2 ^ clog2 n"
proof (cases "n \<le> 1")
  case True
  then show ?thesis by (simp add: clog2_def)
next
  case False
  from ilog2_gt[of "n - 1"] have "n - 1 < 2 ^ Suc (ilog2 (n - 1))" .
  then have "n \<le> 2 ^ Suc (ilog2 (n - 1))" by simp
  with False show ?thesis by (simp add: clog2_def)
qed

lemma binade_le:
  assumes "x \<noteq> 0"
  shows "2 powi binade x \<le> \<bar>x\<bar>"
proof (cases "1 \<le> \<bar>x\<bar>")
  case True
  then have n: "1 \<le> nat \<lfloor>\<bar>x\<bar>\<rfloor>" by linarith
  from ilog2_le[OF n] have "real (2 ^ ilog2 (nat \<lfloor>\<bar>x\<bar>\<rfloor>)) \<le> real (nat \<lfloor>\<bar>x\<bar>\<rfloor>)"
    by (rule iffD2[OF of_nat_le_iff])
  also have "\<dots> \<le> \<bar>x\<bar>" using True by linarith
  finally show ?thesis using True by (simp add: binade_def)
next
  case False
  define y where "y = 1 / \<bar>x\<bar>"
  define N where "N = nat \<lceil>y\<rceil>"
  from assms have y: "0 < y" by (simp add: y_def)
  then have "y \<le> real N" unfolding N_def by linarith
  also have "real N \<le> real (2 ^ clog2 N)" using clog2_ge[of N] by (rule iffD2[OF of_nat_le_iff])
  finally have "1 / \<bar>x\<bar> \<le> 2 ^ clog2 N" by (simp add: y_def)
  then have "1 / 2 ^ clog2 N \<le> \<bar>x\<bar>"
    using assms by (simp add: field_simps)
  with False show ?thesis
    by (simp add: binade_def N_def y_def power_int_minus field_simps)
qed

lemma binade_gt:
  assumes "x \<noteq> 0"
  shows "\<bar>x\<bar> < 2 powi (binade x + 1)"
proof (cases "1 \<le> \<bar>x\<bar>")
  case True
  define n where "n = nat \<lfloor>\<bar>x\<bar>\<rfloor>"
  have a: "\<bar>x\<bar> < real n + 1" unfolding n_def by linarith
  from ilog2_gt[of n] have "Suc n \<le> 2 ^ Suc (ilog2 n)" by simp
  then have "real (Suc n) \<le> real (2 ^ Suc (ilog2 n))" by (rule iffD2[OF of_nat_le_iff])
  then have b: "real n + 1 \<le> 2 ^ Suc (ilog2 n)" by simp
  from a b have "\<bar>x\<bar> < 2 ^ Suc (ilog2 n)" by linarith
  then have "\<bar>x\<bar> < 2 ^ Suc (ilog2 (nat \<lfloor>\<bar>x\<bar>\<rfloor>))" by (simp only: n_def)
  moreover have "binade x + 1 = int (Suc (ilog2 (nat \<lfloor>\<bar>x\<bar>\<rfloor>)))"
    using True by (simp add: binade_def)
  ultimately show ?thesis by (simp only: power_int_of_nat)
next
  case False
  define y where "y = 1 / \<bar>x\<bar>"
  define N where "N = nat \<lceil>y\<rceil>"
  from assms False have y: "1 < y" by (simp add: y_def)
  then have N: "2 \<le> N" unfolding N_def by linarith
  then have c: "clog2 N = Suc (ilog2 (N - 1))" by (simp add: clog2_def)
  from N have "1 \<le> N - 1" by simp
  from ilog2_le[OF this] have "real (2 ^ ilog2 (N - 1)) \<le> real (N - 1)"
    by (rule iffD2[OF of_nat_le_iff])
  also have "real (N - 1) < y" using N unfolding N_def by linarith
  finally have "2 ^ ilog2 (N - 1) < 1 / \<bar>x\<bar>" by (simp add: y_def)
  then have lt: "\<bar>x\<bar> < 1 / 2 ^ ilog2 (N - 1)"
    using assms by (simp add: field_simps)
  have "binade x + 1 = - int (ilog2 (N - 1))"
    using False c by (simp add: binade_def N_def y_def)
  with lt show ?thesis by (simp add: power_int_minus field_simps)
qed

lemma binade_less:
  assumes "x \<noteq> 0" and "\<bar>x\<bar> < 2 powi e"
  shows "binade x < e"
proof (rule ccontr)
  assume "\<not> binade x < e"
  then have "e \<le> binade x" by simp
  then have "(2::real) powi e \<le> 2 powi binade x" by (intro power_int_increasing) simp_all
  with binade_le[OF assms(1)] assms(2) show False by linarith
qed

lemma round_even_of_int [simp]: "round_even (of_int k) = k"
  by (simp add: round_even_def)

lemma round_even_ge: "of_int k \<le> y \<Longrightarrow> k \<le> round_even y"
proof -
  assume "of_int k \<le> y"
  then have "k \<le> \<lfloor>y\<rfloor>" by (simp add: le_floor_iff)
  then show ?thesis unfolding round_even_def by auto
qed

lemma round_even_error: "\<bar>of_int (round_even y) - y\<bar> \<le> 1 / 2"
  unfolding round_even_def by (auto simp: abs_le_iff)

lemma round64_nonneg:
  assumes "0 \<le> x"
  shows "round64 x = PosInf \<or> (\<exists>r\<ge>0. round64 x = Fin r)"
proof (cases "x = 0")
  case True
  then show ?thesis by (simp add: round64_def)
next
  case False
  define q :: real where "q = 2 powi (max (binade x) (- 1022) - 52)"
  have q: "0 < q" by (simp add: q_def)
  with assms have "0 \<le> x / q" by simp
  then have "0 \<le> round_even (x / q)" using round_even_ge[of 0 "x / q"] by simp
  with q have "0 \<le> of_int (round_even (x / q)) * q" by simp
  with False assms show ?thesis
    by (auto simp: round64_def Let_def q_def signed_inf_def)
qed

lemma round64_dyadic:
  assumes k: "\<bar>k\<bar> < 2 ^ 53" and n: "n \<le> 1074"
  shows "round64 (of_int k / 2 ^ n) = Fin (of_int k / 2 ^ n)"
proof (cases "k = 0")
  case True
  then show ?thesis by (simp add: round64_def)
next
  case False
  define x :: real where "x = of_int k / 2 ^ n"
  define e where "e = max (binade x) (- 1022)"
  define q :: real where "q = 2 powi (e - 52)"
  from False have x0: "x \<noteq> 0" by (simp add: x_def)
  have "\<bar>x\<bar> = of_int \<bar>k\<bar> / 2 ^ n" by (simp add: x_def abs_divide)
  also have "\<dots> < 2 ^ 53 / 2 ^ n"
    using k by (intro divide_strict_right_mono) (simp_all add: of_int_less_iff[symmetric] del: of_int_less_iff)
  also have "\<dots> = 2 powi (53 - int n)"
    by (simp add: power_int_diff)
  finally have "binade x < 53 - int n" by (rule binade_less[OF x0])
  with n have e: "e \<le> 52 - int n" by (simp add: e_def)
  define j where "j = nat (52 - int n - e)"
  have split: "(2::real) powi (52 - e - int n) = 2 powi (- (e - 52)) * 2 powi (- int n)"
    using power_int_add[of "2::real" "- (e - 52)" "- int n"] by simp
  have inv1: "inverse ((2::real) powi (e - 52)) = 2 powi (- (e - 52))"
    by (rule power_int_minus[symmetric])
  have inv2: "inverse ((2::real) ^ n) = 2 powi (- int n)"
    by (simp add: power_int_minus)
  have "x / q = of_int k * inverse (2 ^ n) * inverse (2 powi (e - 52))"
    by (simp only: x_def q_def divide_inverse)
  also have "\<dots> = of_int k * (2 powi (- (e - 52)) * 2 powi (- int n))"
    by (simp only: inv1 inv2 mult.assoc mult.commute)
  also have "\<dots> = of_int k * 2 powi (52 - e - int n)" by (simp only: split)
  also have "52 - e - int n = int j" using e by (simp add: j_def)
  finally have xq: "x / q = of_int (k * 2 ^ j)" by simp
  have q: "q \<noteq> 0" by (simp add: q_def)
  have "of_int (round_even (x / q)) * q = x / q * q" by (simp only: xq round_even_of_int)
  also have "\<dots> = x" using q by simp
  finally have r: "of_int (round_even (x / q)) * q = x" .
  have "\<bar>x\<bar> < 2 ^ 53"
  proof -
    have "\<bar>x\<bar> = of_int \<bar>k\<bar> / 2 ^ n" by (simp add: x_def abs_divide)
    also have "\<dots> \<le> of_int \<bar>k\<bar>" by (simp add: field_simps mult_le_cancel_left1 self_le_power)
    also have "\<dots> < 2 ^ 53" using k by (simp add: of_int_less_iff[symmetric] del: of_int_less_iff)
    finally show ?thesis .
  qed
  then have "\<not> 2 ^ 1024 \<le> \<bar>x\<bar>" by simp
  with x0 r show ?thesis
    unfolding round64_def Let_def x_def[symmetric] e_def[symmetric] q_def[symmetric] by simp
qed

lemma round64_of_int: "\<bar>k\<bar> < 2 ^ 53 \<Longrightarrow> round64 (of_int k) = Fin (of_int k)"
  using round64_dyadic[of k 0] by simp

lemma round64_of_nat: "n < 2 ^ 53 \<Longrightarrow> round64 (real n) = Fin (real n)"
  using round64_of_int[of "int n"] by simp


lemma binade_eq:
  assumes "2 powi e \<le> \<bar>x\<bar>" and "\<bar>x\<bar> < 2 powi (e + 1)"
  shows "binade x = e"
proof -
  have "(0::real) < 2 powi e" by simp
  with assms(1) have "0 < \<bar>x\<bar>" by linarith
  then have x0: "x \<noteq> 0" by auto
  from binade_less[OF x0 assms(2)] have up: "binade x \<le> e" by simp
  have "e \<le> binade x"
  proof (rule ccontr)
    assume "\<not> e \<le> binade x"
    then have "binade x + 1 \<le> e" by simp
    then have "(2::real) powi (binade x + 1) \<le> 2 powi e" by (intro power_int_increasing) simp_all
    with binade_gt[OF x0] assms(1) show False by linarith
  qed
  with up show ?thesis by simp
qed

lemma round_even_near:
  assumes "\<bar>y - of_int k\<bar> < 1 / 2"
  shows "round_even y = k"
proof -
  from assms have "of_int k - 1 / 2 < y" "y < of_int k + 1 / 2" by linarith+
  then consider "\<lfloor>y\<rfloor> = k" | "\<lfloor>y\<rfloor> = k - 1" by linarith
  then show ?thesis
  proof cases
    case 1
    have "y - of_int \<lfloor>y\<rfloor> < 1 / 2" using \<open>y < of_int k + 1 / 2\<close> unfolding 1 by simp
    then show ?thesis by (simp add: round_even_def 1)
  next
    case 2
    have "1 / 2 < y - of_int \<lfloor>y\<rfloor>" using \<open>of_int k - 1 / 2 < y\<close> unfolding 2 by simp
    then show ?thesis by (simp add: round_even_def 2)
  qed
qed

lemma round64_numeral [simp]:
  "(numeral n :: nat) < 2 ^ 53 \<Longrightarrow> round64 (numeral n) = Fin (numeral n)"
  using round64_of_nat[of "numeral n"] by simp

lemma round64_0 [simp]: "round64 0 = Fin 0"
  by (simp add: round64_def)

lemma round64_1 [simp]: "round64 1 = Fin 1"
  using round64_of_nat[of 1] by simp

lemma round64_floor_div:
  assumes "P < 2 ^ 53"
  shows "\<exists>r. round64 (real P / 1000000) = Fin r \<and> \<lfloor>r\<rfloor> = \<lfloor>real P / 1000000\<rfloor>"
proof (cases "P = 0")
  case True
  then show ?thesis by simp
next
  case False
  define x :: real where "x = real P / 1000000"
  define n where "n = P div 1000000"
  define e where "e = max (binade x) (- 1022)"
  define j where "j = nat (52 - e)"
  define q :: real where "q = 2 powi (e - 52)"
  define k where "k = round_even (x / q)"
  from False have x0: "0 < x" by (simp add: x_def)
  have fl: "\<lfloor>x\<rfloor> = int n" unfolding x_def n_def
    using floor_divide_of_nat_eq[of P 1000000, where ?'a = real] by simp
  have "real P < 2 ^ 53" using assms
    by (metis of_nat_less_iff of_nat_numeral of_nat_power)
  then have "x < 2 ^ 53 / 1000000" by (simp add: x_def)
  also have "\<dots> < 2 powi 34" by simp
  finally have "\<bar>x\<bar> < 2 powi 34" using x0 by simp
  from binade_less[OF _ this] x0 have "binade x < 34" by simp
  then have e: "e \<le> 33" "- 1022 \<le> e" by (simp_all add: e_def)
  then have j: "19 \<le> j" "int j = 52 - e" by (simp_all add: j_def)
  have q: "q = 1 / 2 ^ j"
  proof -
    have "e - 52 = - int j" using j by simp
    then show ?thesis by (simp add: q_def power_int_minus divide_inverse)
  qed
  have q0: "0 < q" by (simp add: q)
  have xq: "x / q = x * 2 ^ j" by (simp add: q)
  have nx: "real n \<le> x" using fl by linarith
  then have "of_int (int (n * 2 ^ j)) \<le> x / q" by (simp add: xq)
  from round_even_ge[OF this] have "int (n * 2 ^ j) \<le> k" by (simp add: k_def)
  then have "real_of_int (int (n * 2 ^ j)) \<le> of_int k" by (simp only: of_int_le_iff)
  then have "real n * 2 ^ j \<le> of_int k" by simp
  then have lo: "real n \<le> of_int k * q" by (simp add: q field_simps)
  have "P = n * 1000000 + P mod 1000000" by (simp add: n_def)
  moreover have "P mod 1000000 \<le> 999999" using mod_less_divisor[of 1000000 P] by simp
  ultimately have "P \<le> n * 1000000 + 999999" by linarith
  then have "real P \<le> real (n * 1000000 + 999999)" by (simp only: of_nat_le_iff)
  then have xup: "x \<le> real n + 999999 / 1000000" by (simp add: x_def field_simps)
  from round_even_error[of "x / q"] have "of_int k \<le> x / q + 1 / 2"
    unfolding k_def by linarith
  then have "of_int k * q \<le> (x / q + 1 / 2) * q" using q0 by (simp only: mult_le_cancel_right_pos)
  also have "\<dots> = x + q / 2" using q0 by (simp add: field_simps)
  finally have kq: "of_int k * q \<le> x + q / 2" .
  have "(2::real) ^ 19 \<le> 2 ^ j" using j(1) by (intro power_increasing) simp_all
  then have "q \<le> 1 / 2 ^ 19" unfolding q by (intro divide_left_mono) simp_all
  with kq xup have hi: "of_int k * q < real n + 1" by simp
  have "n \<le> P" by (simp add: n_def)
  with assms have "n < 2 ^ 53" by simp
  then have "real n < 2 ^ 53"
    by (metis of_nat_less_iff of_nat_numeral of_nat_power)
  with hi lo have "\<bar>of_int k * q\<bar> < 2 ^ 1024" by simp
  then have "round64 x = Fin (of_int k * q)"
    using x0 by (simp add: round64_def Let_def e_def[symmetric] q_def[symmetric] k_def[symmetric])
  moreover from lo hi have "\<lfloor>of_int k * q\<rfloor> = int n" by linarith
  ultimately show ?thesis using fl by (simp add: x_def)
qed

lemma round64_quintillion: "round64 999999999999999999 = Fin 1000000000000000000"
proof -
  define x :: real where "x = 999999999999999999"
  have "binade x = 59" by (rule binade_eq) (simp_all add: x_def)
  then have e: "max (binade x) (- 1022) - 52 = 7" by simp
  have "round_even (x / 2 powi 7) = 7812500000000000"
    by (rule round_even_near) (simp add: x_def)
  then show ?thesis
    unfolding x_def[symmetric] round64_def Let_def e by (simp add: x_def)
qed

lemma round64_scaled:
  assumes k: "\<bar>k\<bar> < 2 ^ 53" and j: "j \<le> 970"
  shows "round64 (of_int k * 2 ^ j) = Fin (of_int k * 2 ^ j)"
proof (cases "k = 0")
  case True
  then show ?thesis by (simp add: round64_def)
next
  case False
  define x :: real where "x = of_int k * 2 ^ j"
  define e where "e = max (binade x) (- 1022)"
  define q :: real where "q = 2 powi (e - 52)"
  from False have x0: "x \<noteq> 0" by (simp add: x_def)
  have "\<bar>x\<bar> = of_int \<bar>k\<bar> * 2 ^ j" by (simp add: x_def abs_mult)
  also have "\<dots> < 2 ^ 53 * 2 ^ j"
    using k by (intro mult_strict_right_mono) (simp_all add: of_int_less_iff[symmetric] del: of_int_less_iff)
  also have "\<dots> = 2 powi (53 + int j)"
    using power_int_add[of "2::real" 53 "int j"] by simp
  finally have ub: "\<bar>x\<bar> < 2 powi (53 + int j)" .
  from binade_less[OF x0 ub] have "binade x < 53 + int j" .
  then have e: "e \<le> 52 + int j" by (simp add: e_def)
  define i where "i = nat (52 + int j - e)"
  have split: "(2::real) powi (int j + (52 - e)) = 2 powi (int j) * 2 powi (- (e - 52))"
    using power_int_add[of "2::real" "int j" "- (e - 52)"] by simp
  have inv1: "inverse ((2::real) powi (e - 52)) = 2 powi (- (e - 52))"
    by (rule power_int_minus[symmetric])
  have "x / q = of_int k * 2 powi (int j) * inverse (2 powi (e - 52))"
    by (simp only: x_def q_def divide_inverse power_int_of_nat)
  also have "\<dots> = of_int k * (2 powi (int j) * 2 powi (- (e - 52)))"
    by (simp only: inv1 mult.assoc)
  also have "\<dots> = of_int k * 2 powi (int j + (52 - e))" by (simp only: split)
  also have "int j + (52 - e) = int i" using e by (simp add: i_def)
  finally have xq: "x / q = of_int (k * 2 ^ i)" by simp
  have q: "q \<noteq> 0" by (simp add: q_def)
  have "of_int (round_even (x / q)) * q = x / q * q" by (simp only: xq round_even_of_int)
  also have "\<dots> = x" using q by simp
  finally have r: "of_int (round_even (x / q)) * q = x" .
  have "(2::real) powi (53 + int j) \<le> 2 powi 1023"
    using j by (intro power_int_increasing) simp_all
  with ub have "\<bar>x\<bar> < 2 powi 1023" by linarith
  also have "(2::real) powi 1023 < 2 ^ 1024" by simp
  finally have "\<not> 2 ^ 1024 \<le> \<bar>x\<bar>" by simp
  with x0 r show ?thesis
    unfolding round64_def Let_def x_def[symmetric] e_def[symmetric] q_def[symmetric] by simp
qed

lemma round64_quintillion_exact: "round64 1000000000000000000 = Fin 1000000000000000000"
  using round64_scaled[of 3814697265625 18] by simp

lemma round64_half [simp]: "round64 (1 / 2) = Fin (1 / 2)"
  using round64_dyadic[of 1 1] by simp

lemma round64_minus_half [simp]: "round64 (- (1 / 2)) = Fin (- (1 / 2))"
  using round64_dyadic[of "- 1" 1] by simp

lemma round64_three_halves [simp]: "round64 (3 / 2) = Fin (3 / 2)"
  using round64_dyadic[of 3 1] by simp

section \<open>Properties of the price deriver\<close>

lemma forEachSigner_mem:
  "forEachSigner body ss acc = Inr r \<Longrightarrow> t \<in> set r \<Longrightarrow>
   t \<in> set acc \<or> (\<exists>s\<in>set ss. body s = Inr (Some t))"
proof (induction ss arbitrary: acc)
  case Nil
  then show ?case by simp
next
  case (Cons s ss)
  show ?case
  proof (cases "body s")
    case (Inl e)
    with Cons.prems show ?thesis by simp
  next
    case (Inr ot)
    show ?thesis
    proof (cases ot)
      case None
      with Inr Cons.prems Cons.IH[of acc] show ?thesis by auto
    next
      case (Some u)
      with Inr Cons.prems Cons.IH[of "acc @ [u]"] show ?thesis by auto
    qed
  qed
qed

lemma computeTokenPrice_mem:
  assumes "computeTokenPrice toNumber decode tx m = Inr (Some trades)" and "t \<in> set trades"
  shows "\<exists>mt preTB postTB s. meta tx = Some mt \<and> preTokenBalances mt = Some preTB \<and>
           postTokenBalances mt = Some postTB \<and> s \<in> set (signersOf tx) \<and>
           signerTrade toNumber decode tx m preTB postTB (preBalances mt) (postBalances mt)
             (fee mt) (or_zero (ParsedTransactionWithMeta.blockTime tx)) s = Inr (Some t)"
proof -
  from assms(1) obtain mt where mt: "meta tx = Some mt"
    by (cases "meta tx") (auto simp: computeTokenPrice_def)
  from assms(1) mt obtain preTB where pre: "preTokenBalances mt = Some preTB"
    by (cases "preTokenBalances mt") (auto simp: computeTokenPrice_def)
  from assms(1) mt pre obtain postTB where post: "postTokenBalances mt = Some postTB"
    by (cases "postTokenBalances mt") (auto simp: computeTokenPrice_def)
  have fee: "or_zero (Some (fee mt)) = fee mt" by (simp add: or_zero_def)
  from assms(1) mt pre post fee
  have "forEachSigner
          (signerTrade toNumber decode tx m preTB postTB (preBalances mt) (postBalances mt)
             (fee mt) (or_zero (ParsedTransactionWithMeta.blockTime tx))) (signersOf tx) [] = Inr trades"
    by (auto simp: computeTokenPrice_def map_sum_def split: if_splits sum.splits)
  from forEachSigner_mem[OF this assms(2)] mt pre post show ?thesis by auto
qed

text \<open>With the snapshots present, \<open>computeTokenPrice\<close> is the loop over the signers.\<close>

lemma computeTokenPrice_unfold:
  assumes "meta tx = Some mt" and "preTokenBalances mt = Some preTB"
    and "postTokenBalances mt = Some postTB"
  shows "computeTokenPrice toNumber decode tx m =
     (if or_zero (ParsedTransactionWithMeta.blockTime tx) = 0 then Inr None
      else map_sum id Some
             (forEachSigner
                (signerTrade toNumber decode tx m preTB postTB (preBalances mt) (postBalances mt)
                   (fee mt) (or_zero (ParsedTransactionWithMeta.blockTime tx)))
                (signersOf tx) []))"
proof -
  have fee: "or_zero (Some (fee mt)) = fee mt" by (simp add: or_zero_def)
  from assms fee show ?thesis by (simp add: computeTokenPrice_def)
qed

text \<open>
  The loop over the signers: the pushed trades are, in order, one for each signer on which
  the body does not return early; the loop returns when the body never throws and throws
  when the first signer on which the body does not return early throws.
\<close>

lemma forEachSigner_all2:
  assumes some: "\<And>s t. body s = Inr (Some t) \<Longrightarrow> changed s \<and> R t s"
    and none: "\<And>s. body s = Inr None \<Longrightarrow> \<not> changed s"
  shows "forEachSigner body ss acc = Inr r \<Longrightarrow>
         \<exists>new. r = acc @ new \<and> list_all2 R new (filter changed ss)"
proof (induction ss arbitrary: acc)
  case Nil
  then show ?case by simp
next
  case (Cons s ss)
  show ?case
  proof (cases "body s")
    case (Inl e)
    with Cons.prems show ?thesis by simp
  next
    case (Inr ot)
    show ?thesis
    proof (cases ot)
      case None
      with Inr Cons.prems have "forEachSigner body ss acc = Inr r" by simp
      from Cons.IH[OF this] none[of s] Inr None show ?thesis by simp
    next
      case (Some t)
      with Inr Cons.prems have "forEachSigner body ss (acc @ [t]) = Inr r" by simp
      from Cons.IH[OF this] obtain new where
        new: "r = (acc @ [t]) @ new" "list_all2 R new (filter changed ss)" by blast
      from some[of s t] Inr Some have "changed s" "R t s" by simp_all
      with new show ?thesis by (intro exI[of _ "t # new"]) simp
    qed
  qed
qed

lemma forEachSigner_total:
  "\<forall>s\<in>set ss. \<not> isl (body s) \<Longrightarrow> \<exists>r. forEachSigner body ss acc = Inr r"
proof (induction ss arbitrary: acc)
  case Nil
  then show ?case by simp
next
  case (Cons s ss)
  from Cons.prems obtain ot where ot: "body s = Inr ot" by (cases "body s") auto
  from Cons.prems have rest: "\<forall>s\<in>set ss. \<not> isl (body s)" by simp
  show ?case
  proof (cases ot)
    case None
    with ot Cons.IH[OF rest, of acc] show ?thesis by simp
  next
    case (Some t)
    with ot Cons.IH[OF rest, of "acc @ [t]"] show ?thesis by simp
  qed
qed

lemma forEachSigner_throws:
  "\<exists>s\<in>set ss. body s = Inl e \<Longrightarrow> \<forall>s\<in>set ss. body s = Inl e \<or> body s = Inr None \<Longrightarrow>
   forEachSigner body ss acc = Inl e"
proof (induction ss arbitrary: acc)
  case Nil
  then show ?case by simp
next
  case (Cons s ss)
  from Cons.prems(2) consider "body s = Inl e" | "body s = Inr None" by auto
  then show ?case
  proof cases
    case 1
    then show ?thesis by simp
  next
    case 2
    with Cons.prems have "\<exists>s\<in>set ss. body s = Inl e"
      "\<forall>s\<in>set ss. body s = Inl e \<or> body s = Inr None" by auto
    from Cons.IH[OF this] 2 show ?thesis by simp
  qed
qed

text \<open>The three ways the body of the loop ends for one signer.\<close>

lemma signerTrade_Some:
  assumes "signerTrade toNumber decode tx m preTB postTB preB postB txFee bt s = Inr (Some t)"
  shows "\<not> js_eq (tokenBalanceOf toNumber preTB (key s) m)
                 (tokenBalanceOf toNumber postTB (key s) m) \<and>
         (\<exists>pf. priorityFeeOf decode tx = Inr pf \<and>
            ParsedTokenHistory.owner t = key s \<and>
            preTokenBalance t = tokenBalanceOf toNumber preTB (key s) m \<and>
            postTokenBalance t = tokenBalanceOf toNumber postTB (key s) m \<and>
            preSolBalance t = js_div (num_at preB (index s)) LAMPORTS_PER_SOL \<and>
            postSolBalance t =
              js_div (js_add (js_add (num_at postB (index s)) (Fin txFee)) pf) LAMPORTS_PER_SOL \<and>
            type t = (if js_lt (postTokenBalance t) (preTokenBalance t) then ''sell'' else ''buy'') \<and>
            ParsedTokenHistory.price t =
              guardedPrice (js_div (js_abs (js_sub (preTokenBalance t) (postTokenBalance t)))
                              (js_abs (js_sub (preSolBalance t) (postSolBalance t)))))"
  using assms
  by (cases "priorityFeeOf decode tx")
     (auto simp: signerTrade_def Let_def split: if_splits)

lemma signerTrade_None:
  assumes "signerTrade toNumber decode tx m preTB postTB preB postB txFee bt s = Inr None"
    and "bt \<noteq> 0"
  shows "js_eq (tokenBalanceOf toNumber preTB (key s) m) (tokenBalanceOf toNumber postTB (key s) m)"
  using assms
  by (cases "priorityFeeOf decode tx")
     (auto simp: signerTrade_def Let_def split: if_splits)

lemma signerTrade_unchanged:
  "js_eq (tokenBalanceOf toNumber preTB (key s) m) (tokenBalanceOf toNumber postTB (key s) m) \<Longrightarrow>
   signerTrade toNumber decode tx m preTB postTB preB postB txFee bt s = Inr None"
  by (simp add: signerTrade_def)

lemma signerTrade_throws:
  "\<not> js_eq (tokenBalanceOf toNumber preTB (key s) m) (tokenBalanceOf toNumber postTB (key s) m) \<Longrightarrow>
   bt \<noteq> 0 \<Longrightarrow> priorityFeeOf decode tx = Inl e \<Longrightarrow>
   signerTrade toNumber decode tx m preTB postTB preB postB txFee bt s = Inl e"
  by (simp add: signerTrade_def)

lemma signerTrade_returns:
  "\<not> isl (priorityFeeOf decode tx) \<Longrightarrow>
   \<not> isl (signerTrade toNumber decode tx m preTB postTB preB postB txFee bt s)"
  by (cases "priorityFeeOf decode tx") (auto simp: signerTrade_def Let_def)

text \<open>The quotient of two absolute values and its guard.\<close>

lemma js_div_abs:
  "js_div (js_abs x) (js_abs y) = NaN \<or> js_div (js_abs x) (js_abs y) = PosInf \<or>
   (\<exists>r\<ge>0. js_div (js_abs x) (js_abs y) = Fin r)"
proof (cases x)
  case (Fin a)
  show ?thesis
  proof (cases y)
    case (Fin b)
    show ?thesis
    proof (cases "b = 0")
      case True
      with \<open>x = Fin a\<close> Fin show ?thesis by (simp add: signed_inf_def)
    next
      case False
      have "0 \<le> \<bar>a\<bar> / \<bar>b\<bar>" by simp
      from round64_nonneg[OF this] False \<open>x = Fin a\<close> Fin show ?thesis by auto
    qed
  qed (use Fin in \<open>auto\<close>)
next
  case PosInf
  then show ?thesis by (cases y) (auto simp: signed_inf_def)
next
  case NegInf
  then show ?thesis by (cases y) (auto simp: signed_inf_def)
next
  case NaN
  then show ?thesis by simp
qed

lemma js_div_by_zero:
  "js_div (js_abs x) (Fin 0) = NaN \<or> js_div (js_abs x) (Fin 0) = PosInf"
  by (cases x) (auto simp: signed_inf_def)

lemma guardedPrice_quotient:
  "guardedPrice (js_div (js_abs x) (js_abs y)) =
     (if js_abs y = Fin 0 \<or> \<not> finite_nonneg (js_div (js_abs x) (js_abs y)) then Fin 0
      else js_div (js_abs x) (js_abs y))"
proof -
  from js_div_abs[of x y] consider "js_div (js_abs x) (js_abs y) = NaN"
    | "js_div (js_abs x) (js_abs y) = PosInf"
    | r where "0 \<le> r" "js_div (js_abs x) (js_abs y) = Fin r" by blast
  then show ?thesis
  proof cases
    case 1
    then show ?thesis by (simp add: guardedPrice_def)
  next
    case 2
    then show ?thesis by (simp add: guardedPrice_def)
  next
    case 3
    from js_div_by_zero[of x] 3(2) have "js_abs y \<noteq> Fin 0" by auto
    with 3 show ?thesis by (simp add: guardedPrice_def)
  qed
qed

lemma guardedPrice_finite_nonneg: "finite_nonneg (guardedPrice (js_div (js_abs x) (js_abs y)))"
  using js_div_abs[of x y] by (auto simp: guardedPrice_def)

text \<open>
  Claim C1. With the balance snapshots present, the trades emitted by \<open>computeTokenPrice\<close>
  are, in order, one for each signer whose asset balance changed (a result is returned
  whenever the block time is present and decoding the compute-budget instructions does not
  throw). The trade of such a signer carries the signer's address and the two looked-up
  balances; its type is \<open>sell\<close> when the post-asset balance is less than the pre-asset
  balance and \<open>buy\<close> otherwise; its price is
  \<open>|pre-asset - post-asset| / |pre-native - post-native|\<close>, except that it is exactly \<open>0\<close>
  when the denominator is zero or the quotient is not a finite non-negative number; so
  every emitted price is finite and non-negative, never \<open>NaN\<close> or an infinity.
\<close>

theorem computeTokenPrice_type_and_price:
  assumes "meta tx = Some mt" and "preTokenBalances mt = Some preTB"
    and "postTokenBalances mt = Some postTB"
  shows "(or_zero (ParsedTransactionWithMeta.blockTime tx) \<noteq> 0 \<and>
          \<not> isl (priorityFeeOf decode tx) \<longrightarrow>
            (\<exists>trades. computeTokenPrice toNumber decode tx m = Inr (Some trades))) \<and>
         (\<forall>trades. computeTokenPrice toNumber decode tx m = Inr (Some trades) \<longrightarrow>
            list_all2
              (\<lambda>t s.
                 ParsedTokenHistory.owner t = key s \<and>
                 preTokenBalance t = tokenBalanceOf toNumber preTB (key s) m \<and>
                 postTokenBalance t = tokenBalanceOf toNumber postTB (key s) m \<and>
                 type t =
                   (if js_lt (postTokenBalance t) (preTokenBalance t) then ''sell'' else ''buy'') \<and>
                 ParsedTokenHistory.price t =
                   (let numerator = js_abs (js_sub (preTokenBalance t) (postTokenBalance t));
                        denominator = js_abs (js_sub (preSolBalance t) (postSolBalance t))
                    in if denominator = Fin 0 \<or> \<not> finite_nonneg (js_div numerator denominator)
                       then Fin 0 else js_div numerator denominator) \<and>
                 finite_nonneg (ParsedTokenHistory.price t))
              trades
              (filter (\<lambda>s. \<not> js_eq (tokenBalanceOf toNumber preTB (key s) m)
                                     (tokenBalanceOf toNumber postTB (key s) m))
                 (signersOf tx)))"
proof (intro conjI impI allI)
  assume a: "or_zero (ParsedTransactionWithMeta.blockTime tx) \<noteq> 0 \<and>
             \<not> isl (priorityFeeOf decode tx)"
  let ?body = "signerTrade toNumber decode tx m preTB postTB (preBalances mt) (postBalances mt)
                 (fee mt) (or_zero (ParsedTransactionWithMeta.blockTime tx))"
  from a have "\<forall>s\<in>set (signersOf tx). \<not> isl (?body s)"
    by (simp add: signerTrade_returns)
  from forEachSigner_total[OF this, of "[]"] obtain r where
    "forEachSigner ?body (signersOf tx) [] = Inr r" by blast
  with a show "\<exists>trades. computeTokenPrice toNumber decode tx m = Inr (Some trades)"
    by (simp add: computeTokenPrice_unfold[OF assms])
next
  fix trades
  assume run: "computeTokenPrice toNumber decode tx m = Inr (Some trades)"
  let ?bt = "or_zero (ParsedTransactionWithMeta.blockTime tx)"
  let ?body = "signerTrade toNumber decode tx m preTB postTB (preBalances mt) (postBalances mt)
                 (fee mt) ?bt"
  let ?changed = "\<lambda>s. \<not> js_eq (tokenBalanceOf toNumber preTB (key s) m)
                                (tokenBalanceOf toNumber postTB (key s) m)"
  let ?R = "\<lambda>t s.
                 ParsedTokenHistory.owner t = key s \<and>
                 preTokenBalance t = tokenBalanceOf toNumber preTB (key s) m \<and>
                 postTokenBalance t = tokenBalanceOf toNumber postTB (key s) m \<and>
                 type t =
                   (if js_lt (postTokenBalance t) (preTokenBalance t) then ''sell'' else ''buy'') \<and>
                 ParsedTokenHistory.price t =
                   (let numerator = js_abs (js_sub (preTokenBalance t) (postTokenBalance t));
                        denominator = js_abs (js_sub (preSolBalance t) (postSolBalance t))
                    in if denominator = Fin 0 \<or> \<not> finite_nonneg (js_div numerator denominator)
                       then Fin 0 else js_div numerator denominator) \<and>
                 finite_nonneg (ParsedTokenHistory.price t)"
  from run have bt: "?bt \<noteq> 0" and loop: "forEachSigner ?body (signersOf tx) [] = Inr trades"
    by (auto simp: computeTokenPrice_unfold[OF assms] map_sum_def split: if_splits sum.splits)
  have some: "?changed s \<and> ?R t s" if "?body s = Inr (Some t)" for s t
    using signerTrade_Some[OF that]
    by (auto simp: Let_def guardedPrice_quotient guardedPrice_finite_nonneg)
  have none: "\<not> ?changed s" if "?body s = Inr None" for s
    using signerTrade_None[OF that bt] by simp
  from forEachSigner_all2[where body = ?body and changed = ?changed and R = ?R, OF some none loop]
  show "list_all2 ?R trades (filter ?changed (signersOf tx))" by simp
qed

lemma scanMicroLamports_last:
  "scanMicroLamports decode inss ml0 = Inr ml \<Longrightarrow>
   ml = (if declaredPrices decode inss = [] then ml0 else last (declaredPrices decode inss))"
proof (induction inss arbitrary: ml0)
  case Nil
  then show ?case by (simp add: declaredPrices_def)
next
  case (Cons ins inss)
  show ?case
  proof (cases "decode ins")
    case (Inl e)
    with Cons.prems show ?thesis by simp
  next
    case (Inr cb)
    show ?thesis
    proof (cases cb)
      case (SetComputeUnitPrice p)
      with Inr Cons.prems have "scanMicroLamports decode inss p = Inr ml" by simp
      from Cons.IH[OF this] Inr SetComputeUnitPrice show ?thesis
        by (simp add: declaredPrices_def)
    qed (use Inr Cons.prems Cons.IH[of ml0] in \<open>simp_all add: declaredPrices_def\<close>)
  qed
qed

lemma scanMicroLamports_throws:
  "\<forall>i\<in>set inss. \<not> isl (decode i) \<Longrightarrow> decode ins = Inl e \<Longrightarrow>
   scanMicroLamports decode (inss @ ins # inss') ml = Inl e"
proof (induction inss arbitrary: ml)
  case Nil
  then show ?case by simp
next
  case (Cons i inss)
  from Cons.prems(1) obtain cb where cb: "decode i = Inr cb" by (cases "decode i") auto
  from Cons.prems(1) have rest: "\<forall>i\<in>set inss. \<not> isl (decode i)" by simp
  from Cons.IH[OF rest Cons.prems(2)] cb show ?case by (cases cb) simp_all
qed

lemma priorityFeeOf_throws:
  assumes "computeBudgetInstructions tx = inss @ ins # inss'"
    and "\<forall>i\<in>set inss. \<not> isl (decode i)" and "decode ins = Inl e"
  shows "priorityFeeOf decode tx = Inl e"
  using scanMicroLamports_throws[OF assms(2,3), of inss' 0] assms(1)
  by (simp add: priorityFeeOf_def)

text \<open>
  The fee the code computes, for the price in force; it is the exactly computed one
  whenever the compute units are a natural number and neither the price nor the product
  reaches \<open>2^53\<close>.
\<close>

lemma priorityFeeOf_value:
  assumes "priorityFeeOf decode tx = Inr pf"
  shows "pf = js_floor (js_div (js_mul (Fin (computeUsage tx))
                                  (round64 (real (declaredPrice decode tx))))
                          (Fin 1000000))"
proof (cases "computeBudgetInstructions tx = []")
  case True
  with assms have "pf = Fin 0" by (simp add: priorityFeeOf_def)
  moreover from True have "declaredPrice decode tx = 0"
    by (simp add: declaredPrices_def declaredPrice_def)
  ultimately show ?thesis by simp
next
  case False
  with assms obtain ml where
    ml: "scanMicroLamports decode (computeBudgetInstructions tx) 0 = Inr ml" and
    pf: "pf = js_floor (js_div (js_mul (Fin (computeUsage tx)) (round64 (real ml))) (Fin 1000000))"
    by (auto simp: priorityFeeOf_def split: sum.splits)
  from scanMicroLamports_last[OF ml] have "ml = declaredPrice decode tx"
    by (cases "declaredPrices decode (computeBudgetInstructions tx)")
       (simp_all add: declaredPrice_def)
  with pf show ?thesis by simp
qed

lemma specPriorityFee_declared:
  "specPriorityFee decode tx =
     of_int \<lfloor>computeUsage tx * real (declaredPrice decode tx) / 1000000\<rfloor>"
  by (cases "declaredPrices decode (computeBudgetInstructions tx)")
     (simp_all add: specPriorityFee_def declaredPrice_def)

lemma priorityFee_exact:
  assumes "cu = real c" and "p < 2 ^ 53" and "c * p < 2 ^ 53"
  shows "js_floor (js_div (js_mul (Fin cu) (round64 (real p))) (Fin 1000000)) =
         Fin (of_int \<lfloor>cu * real p / 1000000\<rfloor>)"
proof -
  from round64_of_nat[OF assms(2)] have p: "round64 (real p) = Fin (real p)" .
  from round64_of_nat[OF assms(3)] have cp: "round64 (real c * real p) = Fin (real (c * p))"
    by simp
  from round64_floor_div[OF assms(3)] obtain r where
    r: "round64 (real (c * p) / 1000000) = Fin r" "\<lfloor>r\<rfloor> = \<lfloor>real (c * p) / 1000000\<rfloor>" by blast
  have "js_floor (js_div (js_mul (Fin cu) (round64 (real p))) (Fin 1000000)) =
        js_floor (js_div (Fin (real (c * p))) (Fin 1000000))"
    by (simp only: p assms(1) js_mul.simps cp)
  also have "\<dots> = js_floor (Fin r)" using r(1) by simp
  also have "\<dots> = Fin (of_int \<lfloor>cu * real p / 1000000\<rfloor>)" using r(2) assms(1) by simp
  finally show ?thesis .
qed

text \<open>
  Claim C3 as stated fails. A transaction that consumed one compute unit at a declared
  price of \<open>999999999999999999\<close> micro-lamports: the specification's fee is
  \<open>floor(999999999999999999 / 1000000) = 999999999999\<close>, while \<open>Number\<close> rounds the price
  to \<open>10^18\<close> and the code's fee is \<open>1000000000000\<close>; that fee is the one added to the
  post-native balance of the emitted trade, \<open>(999995000 + 5000 + 1000000000000) / 10^9 = 1001\<close>.
\<close>

theorem priorityFee_rounded_counterexample:
  "computeTokenPrice Number_decimal exampleDecoder roundedSale ''MINT'' = Inr (Some [roundedTrade]) \<and>
   priorityFeeOf exampleDecoder roundedSale = Inr (Fin 1000000000000) \<and>
   specPriorityFee exampleDecoder roundedSale = 999999999999 \<and>
   priorityFeeOf exampleDecoder roundedSale \<noteq> Inr (Fin (specPriorityFee exampleDecoder roundedSale)) \<and>
   postSolBalance roundedTrade = Fin 1001"
proof -
  have fee: "priorityFeeOf exampleDecoder roundedSale = Inr (Fin 1000000000000)"
    by (simp add: priorityFeeOf_def computeBudgetInstructions_def roundedSale_def
        exampleDecoder_def computeUsage_def or_zero_def round64_quintillion
        round64_quintillion_exact)
  have spec: "specPriorityFee exampleDecoder roundedSale = 999999999999"
    by (simp add: specPriorityFee_def declaredPrices_def computeBudgetInstructions_def
        roundedSale_def exampleDecoder_def computeUsage_def or_zero_def)
  have signers: "signersOf roundedSale = [\<lparr>key = ''alice'', index = 0\<rparr>]"
    by (simp add: signersOf_def roundedSale_def)
  have m: "meta roundedSale =
             Some \<lparr>fee = 5000, preBalances = [1005000000000], postBalances = [999995000],
                   preTokenBalances = Some examplePre, postTokenBalances = Some examplePost,
                   computeUnitsConsumed = Some 1\<rparr>"
    "ParsedTransactionWithMeta.blockTime roundedSale = Some 1700000000"
    "signatures (transaction roundedSale) = [''sigR'']"
    by (simp_all add: roundedSale_def)
  have bal: "tokenBalanceOf Number_decimal examplePre ''alice'' ''MINT'' = Fin 5"
    "tokenBalanceOf Number_decimal examplePost ''alice'' ''MINT'' = Fin 3"
    by (simp_all add: tokenBalanceOf_def examplePre_def examplePost_def Number_decimal_def)
  have run: "computeTokenPrice Number_decimal exampleDecoder roundedSale ''MINT'' =
             Inr (Some [roundedTrade])"
    unfolding computeTokenPrice_def signerTrade_def
    by (simp add: m signers bal fee or_zero_def num_at_def LAMPORTS_PER_SOL_def js_sub_def
        guardedPrice_def roundedTrade_def)
  have post: "postSolBalance roundedTrade = Fin 1001" by (simp add: roundedTrade_def)
  from fee spec run post show ?thesis by simp
qed

text \<open>
  Claim C3, amended. The trades emitted by \<open>computeTokenPrice\<close> are, in order, one for each
  signer whose asset balance changed. For such a signer the pre-native balance is the
  signer's raw pre-balance divided by \<open>LAMPORTS_PER_SOL\<close> and the post-native balance is
  (raw post-balance + base fee + priority fee) divided by the same scale, every operation
  rounding to binary64. The priority fee is
  \<open>floor((compute units consumed * Number(price)) / 1000000)\<close> in binary64 arithmetic, the
  price being the one decoded last among the \<open>SetComputeUnitPrice\<close> instructions addressed
  to the compute-budget program; it is \<open>0\<close> when there is no such instruction, and it is
  the exactly computed \<open>floor(compute units consumed * price / 1000000)\<close> whenever the
  compute units are a natural number and neither the price nor the product of the two
  reaches \<open>2^53\<close>.
\<close>

theorem computeTokenPrice_native_balances:
  assumes "computeTokenPrice toNumber decode tx m = Inr (Some trades)"
    and "meta tx = Some mt" and "preTokenBalances mt = Some preTB"
    and "postTokenBalances mt = Some postTB"
  shows "list_all2
           (\<lambda>t s.
              ParsedTokenHistory.owner t = key s \<and>
              preSolBalance t = js_div (num_at (preBalances mt) (index s)) LAMPORTS_PER_SOL \<and>
              postSolBalance t =
                js_div (js_add (js_add (num_at (postBalances mt) (index s)) (Fin (fee mt)))
                          (js_floor (js_div (js_mul (Fin (computeUsage tx))
                                               (round64 (real (declaredPrice decode tx))))
                                       (Fin 1000000))))
                  LAMPORTS_PER_SOL)
           trades
           (filter (\<lambda>s. \<not> js_eq (tokenBalanceOf toNumber preTB (key s) m)
                                  (tokenBalanceOf toNumber postTB (key s) m))
              (signersOf tx)) \<and>
         (trades \<noteq> [] \<longrightarrow>
            priorityFeeOf decode tx =
              Inr (js_floor (js_div (js_mul (Fin (computeUsage tx))
                                       (round64 (real (declaredPrice decode tx))))
                               (Fin 1000000)))) \<and>
         (declaredPrices decode (computeBudgetInstructions tx) = [] \<longrightarrow>
            js_floor (js_div (js_mul (Fin (computeUsage tx))
                                (round64 (real (declaredPrice decode tx))))
                        (Fin 1000000)) = Fin 0) \<and>
         (\<forall>c. computeUsage tx = real c \<and> declaredPrice decode tx < 2 ^ 53 \<and>
               c * declaredPrice decode tx < 2 ^ 53 \<longrightarrow>
            js_floor (js_div (js_mul (Fin (computeUsage tx))
                                (round64 (real (declaredPrice decode tx))))
                        (Fin 1000000)) = Fin (specPriorityFee decode tx))"
proof (intro conjI impI allI)
  let ?bt = "or_zero (ParsedTransactionWithMeta.blockTime tx)"
  let ?body = "signerTrade toNumber decode tx m preTB postTB (preBalances mt) (postBalances mt)
                 (fee mt) ?bt"
  let ?changed = "\<lambda>s. \<not> js_eq (tokenBalanceOf toNumber preTB (key s) m)
                                (tokenBalanceOf toNumber postTB (key s) m)"
  let ?fee = "js_floor (js_div (js_mul (Fin (computeUsage tx))
                                  (round64 (real (declaredPrice decode tx))))
                          (Fin 1000000))"
  let ?R = "\<lambda>t s.
              ParsedTokenHistory.owner t = key s \<and>
              preSolBalance t = js_div (num_at (preBalances mt) (index s)) LAMPORTS_PER_SOL \<and>
              postSolBalance t =
                js_div (js_add (js_add (num_at (postBalances mt) (index s)) (Fin (fee mt))) ?fee)
                  LAMPORTS_PER_SOL"
  from assms(1) have bt: "?bt \<noteq> 0" and loop: "forEachSigner ?body (signersOf tx) [] = Inr trades"
    by (auto simp: computeTokenPrice_unfold[OF assms(2,3,4)] map_sum_def
             split: if_splits sum.splits)
  have some: "?changed s \<and> ?R t s" if "?body s = Inr (Some t)" for s t
  proof -
    from signerTrade_Some[OF that] obtain pf where
      pf: "priorityFeeOf decode tx = Inr pf" and
      t: "?changed s" "ParsedTokenHistory.owner t = key s"
         "preSolBalance t = js_div (num_at (preBalances mt) (index s)) LAMPORTS_PER_SOL"
         "postSolBalance t =
            js_div (js_add (js_add (num_at (postBalances mt) (index s)) (Fin (fee mt))) pf)
              LAMPORTS_PER_SOL"
      by blast
    from priorityFeeOf_value[OF pf] t show ?thesis by simp
  qed
  have none: "\<not> ?changed s" if "?body s = Inr None" for s
    using signerTrade_None[OF that bt] by simp
  from forEachSigner_all2[where body = ?body and changed = ?changed and R = ?R, OF some none loop]
  show "list_all2 ?R trades (filter ?changed (signersOf tx))" by simp
  show "priorityFeeOf decode tx = Inr ?fee" if "trades \<noteq> []"
  proof -
    from that obtain t where "t \<in> set trades" by (cases trades) auto
    from forEachSigner_mem[OF loop this] obtain s where "?body s = Inr (Some t)" by auto
    from signerTrade_Some[OF this] obtain pf where pf: "priorityFeeOf decode tx = Inr pf"
      by blast
    with priorityFeeOf_value[OF pf] show ?thesis by simp
  qed
  show "?fee = Fin 0" if "declaredPrices decode (computeBudgetInstructions tx) = []"
    using that by (simp add: declaredPrice_def)
  show "?fee = Fin (specPriorityFee decode tx)"
    if "computeUsage tx = real c \<and> declaredPrice decode tx < 2 ^ 53 \<and>
        c * declaredPrice decode tx < 2 ^ 53" for c
    using that priorityFee_exact[of "computeUsage tx" c "declaredPrice decode tx"]
    by (simp add: specPriorityFee_declared)
qed

lemma tokenBalanceOf_absent:
  "find (\<lambda>b. TokenBalance.owner b = Some k \<and> TokenBalance.mint b = m) balances = None \<Longrightarrow>
   tokenBalanceOf toNumber balances k m = Fin 0"
  by (simp add: tokenBalanceOf_def)

text \<open>
  Claim C2. The pre- and post-asset balances of an emitted trade are the ones looked up for
  its owner: the first snapshot entry matching owner address and asset identifier, its
  amount divided by \<open>10^6\<close>, and zero when no entry matches. A signer whose two balances
  are equal, in particular one without any asset-balance entry, gets no trade.
\<close>

theorem computeTokenPrice_unchanged_balance:
  assumes "computeTokenPrice toNumber decode tx m = Inr (Some trades)"
    and "meta tx = Some mt" and "preTokenBalances mt = Some preTB"
    and "postTokenBalances mt = Some postTB"
  shows "(\<forall>t \<in> set trades.
            preTokenBalance t = tokenBalanceOf toNumber preTB (ParsedTokenHistory.owner t) m \<and>
            postTokenBalance t = tokenBalanceOf toNumber postTB (ParsedTokenHistory.owner t) m) \<and>
         (js_eq (tokenBalanceOf toNumber preTB k m) (tokenBalanceOf toNumber postTB k m) \<longrightarrow>
            (\<forall>t \<in> set trades. ParsedTokenHistory.owner t \<noteq> k)) \<and>
         ((\<forall>b \<in> set preTB \<union> set postTB.
              TokenBalance.owner b \<noteq> Some k \<or> TokenBalance.mint b \<noteq> m) \<longrightarrow>
            (\<forall>t \<in> set trades. ParsedTokenHistory.owner t \<noteq> k)) \<and>
         (\<forall>bs. tokenBalanceOf toNumber bs k m =
            (case find (\<lambda>b. TokenBalance.owner b = Some k \<and> TokenBalance.mint b = m) bs of
               None \<Rightarrow> Fin 0
             | Some b \<Rightarrow> if amount (uiTokenAmount b) = [] then Fin 0
                         else js_div (toNumber (amount (uiTokenAmount b))) (Fin 1000000)))"
proof -
  have each: "preTokenBalance t = tokenBalanceOf toNumber preTB (ParsedTokenHistory.owner t) m \<and>
       postTokenBalance t = tokenBalanceOf toNumber postTB (ParsedTokenHistory.owner t) m \<and>
       \<not> js_eq (tokenBalanceOf toNumber preTB (ParsedTokenHistory.owner t) m)
               (tokenBalanceOf toNumber postTB (ParsedTokenHistory.owner t) m)"
    if "t \<in> set trades" for t
  proof -
    from computeTokenPrice_mem[OF assms(1) that] assms(2,3,4) obtain s where
      "signerTrade toNumber decode tx m preTB postTB (preBalances mt) (postBalances mt)
           (fee mt) (or_zero (ParsedTransactionWithMeta.blockTime tx)) s = Inr (Some t)"
      by auto
    then show ?thesis
      by (auto simp: signerTrade_def Let_def split: if_splits sum.splits)
  qed
  have absent: "js_eq (tokenBalanceOf toNumber preTB k m) (tokenBalanceOf toNumber postTB k m)"
    if "\<forall>b \<in> set preTB \<union> set postTB.
          TokenBalance.owner b \<noteq> Some k \<or> TokenBalance.mint b \<noteq> m"
  proof -
    from that have
      "find (\<lambda>b. TokenBalance.owner b = Some k \<and> TokenBalance.mint b = m) preTB = None"
      "find (\<lambda>b. TokenBalance.owner b = Some k \<and> TokenBalance.mint b = m) postTB = None"
      by (auto simp: find_None_iff)
    then show ?thesis by (simp add: tokenBalanceOf_absent)
  qed
  have lookup: "tokenBalanceOf toNumber bs k m =
            (case find (\<lambda>b. TokenBalance.owner b = Some k \<and> TokenBalance.mint b = m) bs of
               None \<Rightarrow> Fin 0
             | Some b \<Rightarrow> if amount (uiTokenAmount b) = [] then Fin 0
                         else js_div (toNumber (amount (uiTokenAmount b))) (Fin 1000000))" for bs
    by (simp add: tokenBalanceOf_def split: option.splits)
  from each absent lookup show ?thesis by blast
qed

lemma Number_decimal_5: "Number_decimal ''5000000'' = Fin 5000000"
  by (simp add: Number_decimal_def)
lemma Number_decimal_3: "Number_decimal ''3000000'' = Fin 3000000"
  by (simp add: Number_decimal_def)

lemma signersOf_exampleSale:
  "signersOf exampleSale = [\<lparr>key = ''alice'', index = 0\<rparr>, \<lparr>key = ''bob'', index = 1\<rparr>]"
  by (simp add: signersOf_def exampleSale_def upt_rec)

lemma priorityFeeOf_exampleSale: "priorityFeeOf exampleDecoder exampleSale = Inr (Fin 5000)"
  by (simp add: priorityFeeOf_def computeBudgetInstructions_def exampleSale_def exampleMeta_def
      exampleDecoder_def computeUsage_def or_zero_def ComputeBudgetProgram_programId_def)

lemma example_balances:
  "tokenBalanceOf Number_decimal examplePre ''alice'' ''MINT'' = Fin 5"
  "tokenBalanceOf Number_decimal examplePost ''alice'' ''MINT'' = Fin 3"
  "tokenBalanceOf Number_decimal examplePre ''bob'' ''MINT'' = Fin 0"
  "tokenBalanceOf Number_decimal examplePost ''bob'' ''MINT'' = Fin 0"
  by (simp_all add: tokenBalanceOf_def examplePre_def examplePost_def Number_decimal_5
      Number_decimal_3)

lemma signerTrade_alice:
  "signerTrade Number_decimal exampleDecoder exampleSale ''MINT'' examplePre examplePost
     [1000000000, 7] [1499990000, 7] 5000 1700000000 \<lparr>key = ''alice'', index = 0\<rparr>
   = Inr (Some exampleSaleTrade)"
  by (simp add: signerTrade_def example_balances priorityFeeOf_exampleSale num_at_def
      LAMPORTS_PER_SOL_def js_sub_def guardedPrice_def exampleSaleTrade_def)
     (simp add: exampleSale_def)

lemma signerTrade_bob:
  "signerTrade Number_decimal exampleDecoder exampleSale ''MINT'' examplePre examplePost
     [1000000000, 7] [1499990000, 7] 5000 1700000000 \<lparr>key = ''bob'', index = i\<rparr>
   = Inr None"
  by (simp add: signerTrade_def example_balances)

lemma computeTokenPrice_exampleSale:
  "computeTokenPrice Number_decimal exampleDecoder exampleSale ''MINT'' = Inr (Some [exampleSaleTrade])"
proof -
  have m: "meta exampleSale = Some exampleMeta" "ParsedTransactionWithMeta.blockTime exampleSale = Some 1700000000"
    by (simp_all add: exampleSale_def)
  show ?thesis
    unfolding computeTokenPrice_def m signersOf_exampleSale
    by (simp add: exampleMeta_def or_zero_def signerTrade_alice signerTrade_bob)
qed

lemma exampleSale_snapshots:
  "meta exampleSale = Some exampleMeta" "preTokenBalances exampleMeta = Some examplePre"
  "postTokenBalances exampleMeta = Some examplePost"
  by (simp_all add: exampleSale_def exampleMeta_def)

lemma exampleSale_changed:
  "filter (\<lambda>s. \<not> js_eq (tokenBalanceOf Number_decimal examplePre (key s) ''MINT'')
                         (tokenBalanceOf Number_decimal examplePost (key s) ''MINT''))
     (signersOf exampleSale) = [\<lparr>key = ''alice'', index = 0\<rparr>]"
  by (simp add: signersOf_exampleSale example_balances)

lemma tokenBalanceOf_balancesOf:
  "tokenBalanceOf Number_decimal (balancesOf m ''5000000'') ''alice'' m = Fin 5"
  "tokenBalanceOf Number_decimal (balancesOf m ''3000000'') ''alice'' m = Fin 3"
  by (simp_all add: tokenBalanceOf_def balancesOf_def Number_decimal_5 Number_decimal_3)

lemma signersOf_saleOf: "signersOf (saleOf m instrs) = [\<lparr>key = ''alice'', index = 0\<rparr>]"
  by (simp add: signersOf_def saleOf_def)

lemma priorityFeeOf_goodSale: "priorityFeeOf exampleDecoder goodSale = Inr (Fin 0)"
  by (simp add: priorityFeeOf_def computeBudgetInstructions_def goodSale_def saleOf_def)

lemma saleOf_fields:
  "meta (saleOf m instrs) = Some \<lparr>fee = 5000, preBalances = [1000000000],
                   postBalances = [1499995000],
                   preTokenBalances = Some (balancesOf m ''5000000''),
                   postTokenBalances = Some (balancesOf m ''3000000''),
                   computeUnitsConsumed = Some 200000\<rparr>"
  "ParsedTransactionWithMeta.blockTime (saleOf m instrs) = Some 1700000000"
  "signatures (transaction (saleOf m instrs)) = [''sigX'']"
  by (simp_all add: saleOf_def)

lemma computeTokenPrice_goodSale:
  "computeTokenPrice Number_decimal exampleDecoder goodSale ''BAD'' = Inr (Some [saleTrade ''BAD''])"
proof -
  have b: "goodSale = saleOf ''BAD'' []"
    by (simp add: goodSale_def)
  show ?thesis
    unfolding computeTokenPrice_def signerTrade_def
    by (simp add: b saleOf_fields signersOf_saleOf tokenBalanceOf_balancesOf or_zero_def
          priorityFeeOf_goodSale[unfolded b] num_at_def LAMPORTS_PER_SOL_def js_sub_def
          guardedPrice_def saleTrade_def)
qed

theorem computeTokenPrice_type_and_price_witness:
  "or_zero (ParsedTransactionWithMeta.blockTime exampleSale) \<noteq> 0 \<and>
   \<not> isl (priorityFeeOf exampleDecoder exampleSale) \<and>
   computeTokenPrice Number_decimal exampleDecoder exampleSale ''MINT''
     = Inr (Some [exampleSaleTrade]) \<and>
   ParsedTokenHistory.owner exampleSaleTrade = ''alice'' \<and>
   preTokenBalance exampleSaleTrade = Fin 5 \<and> postTokenBalance exampleSaleTrade = Fin 3 \<and>
   type exampleSaleTrade = ''sell'' \<and> ParsedTokenHistory.price exampleSaleTrade = Fin 4 \<and>
   finite_nonneg (ParsedTokenHistory.price exampleSaleTrade)"
proof -
  let ?alice = "\<lparr>key = ''alice'', index = 0\<rparr>"
  let ?R = "\<lambda>t s. ParsedTokenHistory.owner t = key s \<and>
                 preTokenBalance t = tokenBalanceOf Number_decimal examplePre (key s) ''MINT'' \<and>
                 postTokenBalance t = tokenBalanceOf Number_decimal examplePost (key s) ''MINT'' \<and>
                 type t =
                   (if js_lt (postTokenBalance t) (preTokenBalance t) then ''sell'' else ''buy'') \<and>
                 ParsedTokenHistory.price t =
                   (let numerator = js_abs (js_sub (preTokenBalance t) (postTokenBalance t));
                        denominator = js_abs (js_sub (preSolBalance t) (postSolBalance t))
                    in if denominator = Fin 0 \<or> \<not> finite_nonneg (js_div numerator denominator)
                       then Fin 0 else js_div numerator denominator) \<and>
                 finite_nonneg (ParsedTokenHistory.price t)"
  note inst = computeTokenPrice_type_and_price[OF exampleSale_snapshots,
      where toNumber = Number_decimal and decode = exampleDecoder and m = "''MINT''"]
  have hyp: "or_zero (ParsedTransactionWithMeta.blockTime exampleSale) \<noteq> 0 \<and>
             \<not> isl (priorityFeeOf exampleDecoder exampleSale)"
    by (simp add: exampleSale_def or_zero_def priorityFeeOf_exampleSale[unfolded exampleSale_def])
  with inst obtain trades where
    run: "computeTokenPrice Number_decimal exampleDecoder exampleSale ''MINT'' = Inr (Some trades)"
    by blast
  with computeTokenPrice_exampleSale have trades: "trades = [exampleSaleTrade]" by simp
  from inst run
  have all2: "list_all2 ?R [exampleSaleTrade] [?alice]"
    unfolding exampleSale_changed trades by blast
  note r = all2[unfolded list_all2_Cons, THEN conjunct1]
  from r have own: "ParsedTokenHistory.owner exampleSaleTrade = key ?alice"
    and pre: "preTokenBalance exampleSaleTrade =
                tokenBalanceOf Number_decimal examplePre (key ?alice) ''MINT''"
    and post: "postTokenBalance exampleSaleTrade =
                tokenBalanceOf Number_decimal examplePost (key ?alice) ''MINT''"
    and ty: "type exampleSaleTrade =
          (if js_lt (postTokenBalance exampleSaleTrade) (preTokenBalance exampleSaleTrade)
           then ''sell'' else ''buy'')"
    and fin: "finite_nonneg (ParsedTokenHistory.price exampleSaleTrade)"
    by blast+
  from pre post have bal: "preTokenBalance exampleSaleTrade = Fin 5"
    "postTokenBalance exampleSaleTrade = Fin 3"
    by (simp_all add: example_balances)
  from ty have sell: "type exampleSaleTrade = ''sell''" unfolding bal by simp
  from own have alice: "ParsedTokenHistory.owner exampleSaleTrade = ''alice''" by simp
  have price: "ParsedTokenHistory.price exampleSaleTrade = Fin 4"
    by (simp add: exampleSaleTrade_def)
  from hyp run[unfolded trades] alice bal sell price fin show ?thesis by blast
qed

theorem computeTokenPrice_unchanged_balance_witness:
  "computeTokenPrice Number_decimal exampleDecoder exampleSale ''MINT''
     = Inr (Some [exampleSaleTrade]) \<and>
   js_eq (tokenBalanceOf Number_decimal examplePre ''bob'' ''MINT'')
         (tokenBalanceOf Number_decimal examplePost ''bob'' ''MINT'') \<and>
   ParsedTokenHistory.owner exampleSaleTrade \<noteq> ''bob'' \<and>
   preTokenBalance exampleSaleTrade = tokenBalanceOf Number_decimal examplePre ''alice'' ''MINT''"
proof -
  have m: "meta exampleSale = Some exampleMeta" by (simp add: exampleSale_def)
  have pre: "preTokenBalances exampleMeta = Some examplePre" by (simp add: exampleMeta_def)
  have post: "postTokenBalances exampleMeta = Some examplePost" by (simp add: exampleMeta_def)
  have unchanged: "js_eq (tokenBalanceOf Number_decimal examplePre ''bob'' ''MINT'')
         (tokenBalanceOf Number_decimal examplePost ''bob'' ''MINT'')"
    by (simp add: example_balances)
  have own: "ParsedTokenHistory.owner exampleSaleTrade = ''alice''"
    by (simp add: exampleSaleTrade_def)
  from computeTokenPrice_unchanged_balance[OF computeTokenPrice_exampleSale m pre post,
        of "''bob''"] unchanged
  have "ParsedTokenHistory.owner exampleSaleTrade \<noteq> ''bob'' \<and>
        preTokenBalance exampleSaleTrade =
          tokenBalanceOf Number_decimal examplePre (ParsedTokenHistory.owner exampleSaleTrade) ''MINT''"
    by simp
  with own unchanged computeTokenPrice_exampleSale show ?thesis by simp
qed

theorem computeTokenPrice_native_balances_witness:
  "computeTokenPrice Number_decimal exampleDecoder exampleSale ''MINT''
     = Inr (Some [exampleSaleTrade]) \<and>
   computeUsage exampleSale = real 200000 \<and> declaredPrice exampleDecoder exampleSale = 25000 \<and>
   specPriorityFee exampleDecoder exampleSale = 5000 \<and>
   priorityFeeOf exampleDecoder exampleSale = Inr (Fin 5000) \<and>
   ParsedTokenHistory.owner exampleSaleTrade = ''alice'' \<and>
   preSolBalance exampleSaleTrade = js_div (Fin 1000000000) LAMPORTS_PER_SOL \<and>
   postSolBalance exampleSaleTrade =
     js_div (js_add (js_add (Fin 1499990000) (Fin 5000)) (Fin 5000)) LAMPORTS_PER_SOL \<and>
   computeTokenPrice Number_decimal exampleDecoder goodSale ''BAD''
     = Inr (Some [saleTrade ''BAD'']) \<and>
   declaredPrices exampleDecoder (computeBudgetInstructions goodSale) = [] \<and>
   priorityFeeOf exampleDecoder goodSale = Inr (Fin 0)"
proof -
  note inst = computeTokenPrice_native_balances[OF computeTokenPrice_exampleSale
      exampleSale_snapshots]
  have cu: "computeUsage exampleSale = real 200000"
    by (simp add: computeUsage_def exampleSale_def exampleMeta_def or_zero_def)
  have dp: "declaredPrice exampleDecoder exampleSale = 25000"
    by (simp add: declaredPrice_def declaredPrices_def computeBudgetInstructions_def
        exampleSale_def exampleDecoder_def)
  have spec: "specPriorityFee exampleDecoder exampleSale = 5000"
    by (simp add: specPriorityFee_declared cu dp)
  have small: "computeUsage exampleSale = real 200000 \<and>
               declaredPrice exampleDecoder exampleSale < 2 ^ 53 \<and>
               200000 * declaredPrice exampleDecoder exampleSale < 2 ^ 53"
    by (simp add: cu dp)
  from inst small
  have exact: "js_floor (js_div (js_mul (Fin (computeUsage exampleSale))
                                   (round64 (real (declaredPrice exampleDecoder exampleSale))))
                           (Fin 1000000)) = Fin (specPriorityFee exampleDecoder exampleSale)"
    by blast
  from inst have "priorityFeeOf exampleDecoder exampleSale =
              Inr (js_floor (js_div (js_mul (Fin (computeUsage exampleSale))
                                       (round64 (real (declaredPrice exampleDecoder exampleSale))))
                               (Fin 1000000)))"
    by blast
  then have fee: "priorityFeeOf exampleDecoder exampleSale = Inr (Fin 5000)"
    unfolding exact spec .
  let ?alice = "\<lparr>key = ''alice'', index = 0\<rparr>"
  let ?fee = "js_floor (js_div (js_mul (Fin (computeUsage exampleSale))
                                  (round64 (real (declaredPrice exampleDecoder exampleSale))))
                          (Fin 1000000))"
  let ?R = "\<lambda>t s.
              ParsedTokenHistory.owner t = key s \<and>
              preSolBalance t = js_div (num_at (preBalances exampleMeta) (index s)) LAMPORTS_PER_SOL \<and>
              postSolBalance t =
                js_div (js_add (js_add (num_at (postBalances exampleMeta) (index s))
                                  (Fin (fee exampleMeta))) ?fee)
                  LAMPORTS_PER_SOL"
  from inst have all2: "list_all2 ?R [exampleSaleTrade] [?alice]"
    unfolding exampleSale_changed by blast
  note r = all2[unfolded list_all2_Cons, THEN conjunct1]
  from r have own: "ParsedTokenHistory.owner exampleSaleTrade = key ?alice"
    and pre: "preSolBalance exampleSaleTrade =
                js_div (num_at (preBalances exampleMeta) (index ?alice)) LAMPORTS_PER_SOL"
    and post: "postSolBalance exampleSaleTrade =
                js_div (js_add (js_add (num_at (postBalances exampleMeta) (index ?alice))
                                  (Fin (fee exampleMeta))) ?fee)
                  LAMPORTS_PER_SOL"
    by blast+
  have nums: "num_at (preBalances exampleMeta) (index ?alice) = Fin 1000000000"
    "num_at (postBalances exampleMeta) (index ?alice) = Fin 1499990000"
    "fee exampleMeta = 5000"
    by (simp_all add: exampleMeta_def num_at_def)
  from own pre post
  have bal: "ParsedTokenHistory.owner exampleSaleTrade = ''alice'' \<and>
     preSolBalance exampleSaleTrade = js_div (Fin 1000000000) LAMPORTS_PER_SOL \<and>
     postSolBalance exampleSaleTrade =
       js_div (js_add (js_add (Fin 1499990000) (Fin 5000)) (Fin 5000)) LAMPORTS_PER_SOL"
    unfolding exact spec nums by simp
  have g: "goodSale = saleOf ''BAD'' []" by (simp add: goodSale_def)
  note inst0 = computeTokenPrice_native_balances[OF computeTokenPrice_goodSale
      saleOf_fields(1)[of "''BAD''" "[]", folded g], simplified]
  have none: "declaredPrices exampleDecoder (computeBudgetInstructions goodSale) = []"
    by (simp add: declaredPrices_def computeBudgetInstructions_def g saleOf_def)
  from inst0 none
  have zero: "js_floor (js_div (js_mul (Fin (computeUsage goodSale))
                                  (round64 (real (declaredPrice exampleDecoder goodSale))))
                          (Fin 1000000)) = Fin 0"
    by blast
  from inst0 have "priorityFeeOf exampleDecoder goodSale =
              Inr (js_floor (js_div (js_mul (Fin (computeUsage goodSale))
                                       (round64 (real (declaredPrice exampleDecoder goodSale))))
                               (Fin 1000000)))"
    by blast
  then have fee0: "priorityFeeOf exampleDecoder goodSale = Inr (Fin 0)"
    unfolding zero .
  from computeTokenPrice_exampleSale cu dp spec fee bal computeTokenPrice_goodSale none fee0
  show ?thesis by simp
qed

section \<open>Properties of the batch fetcher\<close>

lemma length_nonNull: "length (nonNull r) \<le> length r"
  by (induction r) (auto simp: nonNull_def split: option.splits)

lemma retryLoop_shape:
  "retries \<le> 5 \<Longrightarrow>
   \<exists>k. retries \<le> k \<and> k \<le> 5 \<and> (\<forall>i. retries \<le> i \<and> i < k \<longrightarrow> isl (p sigs i)) \<and>
       (k < 5 \<longrightarrow> \<not> isl (p sigs k)) \<and>
       retryLoop p sigs retries txs tr =
         (txs @ (if k < 5 then (case projr (p sigs k) of None \<Rightarrow> [] | Some r \<Rightarrow> nonNull r) else []),
          tr @ concat (replicate (k - retries) [Fetch, Sleep 1000]) @ (if k < 5 then [Fetch] else []))"
proof (induction "5 - retries" arbitrary: retries tr)
  case 0
  then have r: "retries = 5" by simp
  show ?case
    by (rule exI[of _ 5]) (auto simp: r retryLoop.simps[of p sigs 5])
next
  case (Suc n)
  then have lt: "retries < 5" by simp
  show ?case
  proof (cases "p sigs retries")
    case (Inr tx)
    show ?thesis
      by (rule exI[of _ retries]) (use lt Inr in \<open>auto simp: retryLoop.simps[of p sigs retries]\<close>)
  next
    case (Inl e)
    from Suc.hyps(2) lt have n: "n = 5 - Suc retries" and le: "Suc retries \<le> 5" by simp_all
    from Suc.hyps(1)[OF n le, of "tr @ [Fetch, Sleep 1000]"] obtain k where
      k: "Suc retries \<le> k" "k \<le> 5" "\<forall>i. Suc retries \<le> i \<and> i < k \<longrightarrow> isl (p sigs i)"
         "k < 5 \<longrightarrow> \<not> isl (p sigs k)"
         "retryLoop p sigs (Suc retries) txs (tr @ [Fetch, Sleep 1000]) =
           (txs @ (if k < 5 then (case projr (p sigs k) of None \<Rightarrow> [] | Some r \<Rightarrow> nonNull r) else []),
            (tr @ [Fetch, Sleep 1000]) @ concat (replicate (k - Suc retries) [Fetch, Sleep 1000]) @
              (if k < 5 then [Fetch] else []))"
      by blast
    have step: "retryLoop p sigs retries txs tr =
                retryLoop p sigs (Suc retries) txs (tr @ [Fetch, Sleep 1000])"
      using lt Inl by (simp add: retryLoop.simps[of p sigs retries])
    have all: "\<forall>i. retries \<le> i \<and> i < k \<longrightarrow> isl (p sigs i)"
    proof (intro allI impI)
      fix i assume "retries \<le> i \<and> i < k"
      then consider "i = retries" | "Suc retries \<le> i \<and> i < k" by force
      then show "isl (p sigs i)" using Inl k(3) by cases auto
    qed
    from k(1) have rep: "replicate (k - retries) [Fetch, Sleep 1000] =
                 [Fetch, Sleep 1000] # replicate (k - Suc retries) [Fetch, Sleep 1000]"
      by (metis Suc_diff_le diff_Suc_Suc replicate_Suc)
    show ?thesis
      by (rule exI[of _ k]) (use k all step rep in \<open>simp\<close>)
  qed
qed

lemma nonNull_filter: "nonNull r = map the (filter (\<lambda>x. x \<noteq> None) r)"
  by (induction r) (auto simp: nonNull_def)

lemma count_fetches:
  "length (filter (\<lambda>e. e = Fetch) (concat (replicate k [Fetch, Sleep 1000]) @ rest)) =
   k + length (filter (\<lambda>e. e = Fetch) rest)"
  by (induction k) auto

text \<open>
  Claim C4. A batch fetch calls the provider at most 5 times; every failed attempt is
  followed by a wait of 1000 ms before the next one; if all attempts fail the result is the
  empty sequence and no error; the \<open>null\<close> entries of a successful answer are dropped;
  and, the provider answering with at most one entry per requested signature, the result
  is no longer than the batch.
\<close>

theorem getTransactionsWithRetries_bounded:
  fixes getParsedTransactions :: transactionProvider and batch :: "ConfirmedSignatureInfo list"
  defines "sigs \<equiv> map ConfirmedSignatureInfo.signature batch"
  defines "result \<equiv> getTransactionsWithRetries getParsedTransactions batch"
  shows "length (filter (\<lambda>e. e = Fetch) (snd result)) \<le> 5 \<and>
         (\<exists>k\<le>5. snd result =
            concat (replicate k [Fetch, Sleep 1000]) @ (if k < 5 then [Fetch] else [])) \<and>
         ((\<forall>i<5. isl (getParsedTransactions sigs i)) \<longrightarrow> fst result = []) \<and>
         (\<forall>k<5. \<forall>r. (\<forall>i<k. isl (getParsedTransactions sigs i)) \<and>
                     getParsedTransactions sigs k = Inr (Some r) \<longrightarrow>
                     fst result = map the (filter (\<lambda>x. x \<noteq> None) r)) \<and>
         ((\<forall>i r. getParsedTransactions sigs i = Inr (Some r) \<longrightarrow> length r \<le> length batch) \<longrightarrow>
            length (fst result) \<le> length batch)"
proof -
  from retryLoop_shape[of 0 getParsedTransactions sigs "[]" "[]"] obtain k where
    k: "k \<le> 5" "\<forall>i<k. isl (getParsedTransactions sigs i)"
       "k < 5 \<longrightarrow> \<not> isl (getParsedTransactions sigs k)" and
    res: "result =
         (if k < 5 then (case projr (getParsedTransactions sigs k) of None \<Rightarrow> [] | Some r \<Rightarrow> nonNull r)
          else [],
          concat (replicate k [Fetch, Sleep 1000]) @ (if k < 5 then [Fetch] else []))"
    unfolding result_def sigs_def getTransactionsWithRetries_def by auto
  have first: "k' = k" if "k' < 5" "\<forall>i<k'. isl (getParsedTransactions sigs i)"
    "\<not> isl (getParsedTransactions sigs k')" for k'
  proof (rule ccontr)
    assume "k' \<noteq> k"
    then consider "k' < k" | "k < k'" by linarith
    then show False
    proof cases
      case 1 with k(2) that(3) show False by blast
    next
      case 2 with that(1,2) k(3) show False by auto
    qed
  qed
  have A: "length (filter (\<lambda>e. e = Fetch) (snd result)) \<le> 5"
  proof -
    have "snd result = concat (replicate k [Fetch, Sleep 1000]) @ (if k < 5 then [Fetch] else [])"
      by (simp add: res)
    then have "length (filter (\<lambda>e. e = Fetch) (snd result)) =
               k + length (filter (\<lambda>e. e = Fetch) (if k < 5 then [Fetch] else []))"
      by (simp only: count_fetches)
    with k(1) show ?thesis by (cases "k < 5") simp_all
  qed
  have B: "\<exists>k\<le>5. snd result =
            concat (replicate k [Fetch, Sleep 1000]) @ (if k < 5 then [Fetch] else [])"
    using k(1) res by auto
  have C: "fst result = []" if "\<forall>i<5. isl (getParsedTransactions sigs i)"
  proof -
    from that k(3) have "\<not> k < 5" by blast
    then show ?thesis by (simp add: res)
  qed
  have D: "fst result = map the (filter (\<lambda>x. x \<noteq> None) r)"
    if "k' < 5" "\<forall>i<k'. isl (getParsedTransactions sigs i)"
       "getParsedTransactions sigs k' = Inr (Some r)" for k' r
  proof -
    from that have "k' = k" by (intro first) auto
    with that show ?thesis by (simp add: res nonNull_filter)
  qed
  have E: "length (fst result) \<le> length batch"
    if c: "\<forall>i r. getParsedTransactions sigs i = Inr (Some r) \<longrightarrow> length r \<le> length batch"
  proof (cases "k < 5")
    case False
    then show ?thesis by (simp add: res)
  next
    case True
    with k(3) obtain tx where tx: "getParsedTransactions sigs k = Inr tx"
      by (cases "getParsedTransactions sigs k") auto
    show ?thesis
    proof (cases tx)
      case None
      with True tx show ?thesis by (simp add: res)
    next
      case (Some r)
      with c tx have "length r \<le> length batch" by blast
      with length_nonNull[of r] True tx Some show ?thesis by (simp add: res)
    qed
  qed
  from A B C D E show ?thesis by blast
qed

theorem getTransactionsWithRetries_bounded_witness:
  "fst (getTransactionsWithRetries flakyProvider exampleBatch) = [exampleSale] \<and>
   length (fst (getTransactionsWithRetries flakyProvider exampleBatch)) \<le> length exampleBatch \<and>
   fst (getTransactionsWithRetries deadProvider exampleBatch) = [] \<and>
   length (filter (\<lambda>e. e = Fetch) (snd (getTransactionsWithRetries deadProvider exampleBatch))) \<le> 5"
proof -
  note flaky = getTransactionsWithRetries_bounded[of flakyProvider exampleBatch]
  note dead = getTransactionsWithRetries_bounded[of deadProvider exampleBatch]
  have fails: "\<forall>i<2. isl (flakyProvider (map ConfirmedSignatureInfo.signature exampleBatch) i)"
    by (simp add: flakyProvider_def)
  have ok: "flakyProvider (map ConfirmedSignatureInfo.signature exampleBatch) 2 =
            Inr (Some [Some exampleSale, None])"
    by (simp add: flakyProvider_def)
  have "(2::nat) < 5" by simp
  with flaky fails ok
  have a: "fst (getTransactionsWithRetries flakyProvider exampleBatch) =
        map the (filter (\<lambda>x. x \<noteq> None) [Some exampleSale, None])"
    by blast
  have "\<forall>i r. flakyProvider (map ConfirmedSignatureInfo.signature exampleBatch) i = Inr (Some r) \<longrightarrow>
          length r \<le> length exampleBatch"
    by (auto simp: flakyProvider_def exampleBatch_def split: if_splits)
  with flaky have b: "length (fst (getTransactionsWithRetries flakyProvider exampleBatch))
                      \<le> length exampleBatch"
    by blast
  have "\<forall>i<5. isl (deadProvider (map ConfirmedSignatureInfo.signature exampleBatch) i)"
    by (simp add: deadProvider_def)
  with dead have c: "fst (getTransactionsWithRetries deadProvider exampleBatch) = []" by blast
  from dead have d: "length (filter (\<lambda>e. e = Fetch)
                       (snd (getTransactionsWithRetries deadProvider exampleBatch))) \<le> 5"
    by blast
  from a b c d show ?thesis by simp
qed

section \<open>Properties of the venue resolver\<close>

text \<open>
  Claim C6. When the registry lookup returns a listing, \<open>getPoolInfo\<close> returns the key of
  the first listed pool; when it returns none, the address derived from the tag
  \<open>bonding-curve\<close>, the asset key's bytes and the bonding-curve program key. The result
  depends on the registry only through its answer for this asset, so equal registry
  states give equal results.
\<close>

theorem getPoolInfo_registry_or_fallback:
  assumes "fetchPoolByMints m NATIVE_MINT = Inr poolInfo"
  shows "(\<forall>info first rest. poolInfo = Some info \<and> PoolsApiReturn.data info = first # rest \<longrightarrow>
            getPoolInfo newPublicKey findProgramAddressSync fetchPoolByMints m =
              newPublicKey (pool_id first)) \<and>
         ((poolInfo = None \<or> (\<exists>info. poolInfo = Some info \<and> PoolsApiReturn.data info = [])) \<longrightarrow>
            (\<forall>mintKey program address bump.
               newPublicKey m = Inr mintKey \<and> newPublicKey PUMPFUN_PROGRAM = Inr program \<and>
               findProgramAddressSync [Buffer_from ''bonding-curve'', toBuffer mintKey] program
                 = Inr (address, bump) \<longrightarrow>
               getPoolInfo newPublicKey findProgramAddressSync fetchPoolByMints m = Inr address)) \<and>
         (\<forall>other. other m NATIVE_MINT = fetchPoolByMints m NATIVE_MINT \<longrightarrow>
            getPoolInfo newPublicKey findProgramAddressSync other m =
            getPoolInfo newPublicKey findProgramAddressSync fetchPoolByMints m)"
  using assms by (auto simp: getPoolInfo_def bondingCurveAddress_def)

theorem getPoolInfo_registry_or_fallback_witness:
  "getPoolInfo examplePublicKey exampleDerive listedRegistry ''MintA''
     = Inr (PublicKey (map of_char ''PoolA'')) \<and>
   getPoolInfo examplePublicKey exampleDerive emptyRegistry ''MintA''
     = Inr (PublicKey (Buffer_from ''bonding-curve'' @ map of_char ''MintA'' @
                       map of_char PUMPFUN_PROGRAM))"
proof -
  have l: "listedRegistry ''MintA'' NATIVE_MINT =
           Inr (Some \<lparr>PoolsApiReturn.data = [\<lparr>pool_id = ''PoolA''\<rparr>, \<lparr>pool_id = ''PoolB''\<rparr>]\<rparr>)"
    by (simp add: listedRegistry_def)
  have e: "emptyRegistry ''MintA'' NATIVE_MINT = Inr (Some \<lparr>PoolsApiReturn.data = []\<rparr>)"
    by (simp add: emptyRegistry_def)
  have k: "examplePublicKey ''MintA'' = Inr (PublicKey (map of_char ''MintA''))"
    "examplePublicKey PUMPFUN_PROGRAM = Inr (PublicKey (map of_char PUMPFUN_PROGRAM))"
    "examplePublicKey ''PoolA'' = Inr (PublicKey (map of_char ''PoolA''))"
    by (simp_all add: examplePublicKey_def PUMPFUN_PROGRAM_def)
  have d: "exampleDerive [Buffer_from ''bonding-curve'', toBuffer (PublicKey (map of_char ''MintA''))]
             (PublicKey (map of_char PUMPFUN_PROGRAM)) =
           Inr (PublicKey (Buffer_from ''bonding-curve'' @ map of_char ''MintA'' @
                       map of_char PUMPFUN_PROGRAM), 255)"
    by (simp add: exampleDerive_def)
  from getPoolInfo_registry_or_fallback[where fetchPoolByMints = listedRegistry and m = "''MintA''"
        and newPublicKey = examplePublicKey and findProgramAddressSync = exampleDerive, OF l] k(3)
  have "getPoolInfo examplePublicKey exampleDerive listedRegistry ''MintA''
     = Inr (PublicKey (map of_char ''PoolA''))" by simp
  moreover from getPoolInfo_registry_or_fallback[where fetchPoolByMints = emptyRegistry and m = "''MintA''"
        and newPublicKey = examplePublicKey and findProgramAddressSync = exampleDerive, OF e] k d
  have "getPoolInfo examplePublicKey exampleDerive emptyRegistry ''MintA''
     = Inr (PublicKey (Buffer_from ''bonding-curve'' @ map of_char ''MintA'' @
                       map of_char PUMPFUN_PROGRAM))" by simp
  ultimately show ?thesis by blast
qed

text \<open>
  Claim C7 as stated fails: an error raised by the registry lookup is raised by
  \<open>getPoolInfo\<close> to its caller, and the fallback address is not returned.
\<close>

theorem getPoolInfo_registry_error_counterexample:
  "getPoolInfo examplePublicKey exampleDerive failingRegistry ''MintA''
     = Inl (Error ''Request failed with status code 500'') \<and>
   bondingCurveAddress examplePublicKey exampleDerive ''MintA''
     = Inr (PublicKey (Buffer_from ''bonding-curve'' @ map of_char ''MintA'' @
                       map of_char PUMPFUN_PROGRAM)) \<and>
   getPoolInfo examplePublicKey exampleDerive failingRegistry ''MintA''
     \<noteq> bondingCurveAddress examplePublicKey exampleDerive ''MintA''"
  by (simp add: getPoolInfo_def failingRegistry_def bondingCurveAddress_def
      examplePublicKey_def exampleDerive_def PUMPFUN_PROGRAM_def)

text \<open>
  Claim C7, amended. An error raised by the registry lookup is not caught: \<open>getPoolInfo\<close>
  raises the same error. Only a lookup that returns without error and lists no pool (no
  answer, or an empty list) falls through to the fallback address.
\<close>

theorem getPoolInfo_registry_error_propagates:
  "(\<forall>e. fetchPoolByMints m NATIVE_MINT = Inl e \<longrightarrow>
       getPoolInfo newPublicKey findProgramAddressSync fetchPoolByMints m = Inl e) \<and>
   ((fetchPoolByMints m NATIVE_MINT = Inr None \<or>
     (\<exists>info. fetchPoolByMints m NATIVE_MINT = Inr (Some info) \<and> PoolsApiReturn.data info = [])) \<longrightarrow>
       getPoolInfo newPublicKey findProgramAddressSync fetchPoolByMints m =
       bondingCurveAddress newPublicKey findProgramAddressSync m)"
  by (auto simp: getPoolInfo_def)

theorem getPoolInfo_registry_error_propagates_witness:
  "getPoolInfo examplePublicKey exampleDerive failingRegistry ''MintA''
     = Inl (Error ''Request failed with status code 500'') \<and>
   getPoolInfo examplePublicKey exampleDerive emptyRegistry ''MintA''
     = bondingCurveAddress examplePublicKey exampleDerive ''MintA''"
proof -
  have f: "failingRegistry ''MintA'' NATIVE_MINT = Inl (Error ''Request failed with status code 500'')"
    by (simp add: failingRegistry_def)
  have e: "emptyRegistry ''MintA'' NATIVE_MINT = Inr (Some \<lparr>PoolsApiReturn.data = []\<rparr>)"
    by (simp add: emptyRegistry_def)
  from getPoolInfo_registry_error_propagates[where fetchPoolByMints = failingRegistry
        and m = "''MintA''" and newPublicKey = examplePublicKey
        and findProgramAddressSync = exampleDerive] f
  have "getPoolInfo examplePublicKey exampleDerive failingRegistry ''MintA''
     = Inl (Error ''Request failed with status code 500'')" by simp
  moreover
  from getPoolInfo_registry_error_propagates[where fetchPoolByMints = emptyRegistry
        and m = "''MintA''" and newPublicKey = examplePublicKey
        and findProgramAddressSync = exampleDerive] e
  have "getPoolInfo examplePublicKey exampleDerive emptyRegistry ''MintA''
     = bondingCurveAddress examplePublicKey exampleDerive ''MintA''" by simp
  ultimately show ?thesis by blast
qed

section \<open>Properties of the history walker and of the pipeline\<close>

lemma dropWhile_distinct_nth:
  "distinct (map f xs) \<Longrightarrow> i < length xs \<Longrightarrow> dropWhile (\<lambda>r. f r \<noteq> f (xs ! i)) xs = drop i xs"
proof (induction xs arbitrary: i)
  case Nil
  then show ?case by simp
next
  case (Cons x xs)
  show ?case
  proof (cases i)
    case 0
    then show ?thesis by simp
  next
    case (Suc j)
    with Cons.prems have j: "j < length xs" and "f x \<notin> f ` set xs" by auto
    then have "f x \<noteq> f (xs ! j)" by (metis imageI nth_mem)
    with Cons.IH[OF _ j] Cons.prems(1) Suc show ?thesis by simp
  qed
qed

lemma takeWhile_drop_commute:
  "n \<le> length (takeWhile P xs) \<Longrightarrow> takeWhile P (drop n xs) = drop n (takeWhile P xs)"
proof (induction xs arbitrary: n)
  case Nil
  then show ?case by simp
next
  case (Cons x xs)
  then show ?case by (cases n) (auto split: if_splits)
qed

lemma page_after:
  assumes "distinct (map f hist)" and "H = takeWhile P hist" and "i < length H"
  shows "takeWhile P (drop 1 (dropWhile (\<lambda>r. f r \<noteq> f (H ! i)) hist)) = drop (Suc i) H"
proof -
  from assms(2,3) have nth: "H ! i = hist ! i" by (simp add: takeWhile_nth)
  from assms(2,3) have i: "i < length hist"
    by (metis length_takeWhile_le less_le_trans)
  from dropWhile_distinct_nth[OF assms(1) i] nth
  have "drop 1 (dropWhile (\<lambda>r. f r \<noteq> f (H ! i)) hist) = drop (Suc i) hist" by simp
  moreover from assms(2,3) have "Suc i \<le> length (takeWhile P hist)" by simp
  ultimately show ?thesis using assms(2) by (simp add: takeWhile_drop_commute)
qed

lemma walkLoop_provider:
  assumes d: "distinct (map ConfirmedSignatureInfo.signature hist)" and l: "0 < limit"
    and H: "H = takeWhile (\<lambda>r. Some (ConfirmedSignatureInfo.signature r) \<noteq> u) hist"
    and agree: "\<And>opts. p addr opts = listSignatures limit hist addr opts"
  shows "k \<le> length H \<Longrightarrow>
         walkLoop p addr \<lparr>before = None, until = u\<rparr>
           (take limit (drop k H)) (take (k + limit) H) = Some (Inr H)"
proof (induction "length H - k" arbitrary: k rule: less_induct)
  case less
  show ?case
  proof (cases "k < length H")
    case False
    with less.prems have "k = length H" by simp
    then show ?thesis by (subst walkLoop.simps) simp
  next
    case True
    define k' where "k' = min (k + limit) (length H)"
    let ?cur = "take limit (drop k H)"
    from True l have ne: "?cur \<noteq> []" by simp
    from True l have k': "k < k'" "k' \<le> length H" by (simp_all add: k'_def)
    have len: "length ?cur = k' - k" by (auto simp: k'_def min_def)
    from ne have "last ?cur = ?cur ! (length ?cur - 1)" by (rule last_conv_nth)
    also have "\<dots> = H ! (k' - 1)" using k' len True by (simp add: nth_append)
    finally have last: "last ?cur = H ! (k' - 1)" .
    from k' have i: "k' - 1 < length H" by simp
    have page: "p addr
                  \<lparr>before = Some (ConfirmedSignatureInfo.signature (H ! (k' - 1))), until = u\<rparr> =
                Inr (take limit (drop k' H))"
      using page_after[OF d H i] k'(1) by (simp add: agree listSignatures_def)
    have acc: "take (k + limit) H @ take limit (drop k' H) = take (k' + limit) H"
    proof (cases "k + limit \<le> length H")
      case True
      then have "k' = k + limit" by (simp add: k'_def)
      then show ?thesis by (simp add: take_add)
    next
      case False
      then have "k' = length H" by (simp add: k'_def)
      with False show ?thesis by simp
    qed
    from k' have "length H - k' < length H - k" by simp
    from less.hyps[OF this k'(2)]
    have IH: "walkLoop p addr \<lparr>before = None, until = u\<rparr>
           (take limit (drop k' H)) (take (k' + limit) H) = Some (Inr H)" .
    show ?thesis
      by (subst walkLoop.simps) (use ne last page acc IH in simp)
  qed
qed

lemma getAll_provider:
  assumes d: "distinct (map ConfirmedSignatureInfo.signature hist)" and l: "0 < limit"
    and agree: "\<And>opts. p addr opts = listSignatures limit hist addr opts"
  shows "getAllTransactionsUntilLastSignature p addr lastSignature =
         Some (Inr (takeWhile
                      (\<lambda>r. lastSignature = Some [] \<or>
                           Some (ConfirmedSignatureInfo.signature r) \<noteq> lastSignature) hist))"
proof -
  define u where "u = (case lastSignature of None \<Rightarrow> None | Some s \<Rightarrow> if s = [] then None else Some s)"
  define H where "H = takeWhile (\<lambda>r. Some (ConfirmedSignatureInfo.signature r) \<noteq> u) hist"
  have first: "p addr \<lparr>before = None, until = u\<rparr> = Inr (take limit H)"
    by (simp add: agree listSignatures_def H_def)
  have params: "(case lastSignature of
                      None \<Rightarrow> \<lparr>before = None, until = None\<rparr>
                    | Some s \<Rightarrow> if s = [] then \<lparr>before = None, until = None\<rparr>
                               else \<lparr>before = None, until = Some s\<rparr>) = \<lparr>before = None, until = u\<rparr>"
    by (simp add: u_def split: option.splits)
  from walkLoop_provider[where p = p and addr = addr and k = 0, OF d l H_def agree]
  have "walkLoop p addr \<lparr>before = None, until = u\<rparr>
           (take limit H) (take limit H) = Some (Inr H)" by simp
  then have "getAllTransactionsUntilLastSignature p addr lastSignature = Some (Inr H)"
    unfolding getAllTransactionsUntilLastSignature_def params Let_def first by simp
  moreover have "H = takeWhile
                      (\<lambda>r. lastSignature = Some [] \<or>
                           Some (ConfirmedSignatureInfo.signature r) \<noteq> lastSignature) hist"
  proof (cases lastSignature)
    case None
    then show ?thesis by (simp add: H_def u_def)
  next
    case (Some s)
    then show ?thesis by (cases "s = []") (auto simp: H_def u_def)
  qed
  ultimately show ?thesis by simp
qed

lemma getAll_listSignatures:
  assumes "distinct (map ConfirmedSignatureInfo.signature hist)" and "0 < limit"
  shows "getAllTransactionsUntilLastSignature (listSignatures limit hist) addr lastSignature =
         Some (Inr (takeWhile
                      (\<lambda>r. lastSignature = Some [] \<or>
                           Some (ConfirmedSignatureInfo.signature r) \<noteq> lastSignature) hist))"
  by (rule getAll_provider[where p = "listSignatures limit hist" and addr = addr, OF assms]) simp

text \<open>The batches cover the list they are cut from, in order.\<close>

lemma concat_batchesFrom: "concat (batchesFrom xs i) = drop i xs"
proof (induction xs i rule: batchesFrom.induct)
  case (1 xs i)
  show ?case
  proof (cases "i < length xs")
    case True
    with 1 have "concat (batchesFrom xs (i + 100)) = drop (i + 100) xs" by simp
    moreover have "take 100 (drop i xs) @ drop (i + 100) xs = drop i xs"
      using append_take_drop_id[of 100 "drop i xs"] by (simp add: add.commute)
    ultimately show ?thesis using True by (subst batchesFrom.simps) simp
  next
    case False
    then show ?thesis by (subst batchesFrom.simps) simp
  qed
qed

text \<open>
  The loop over the batches forwards a prefix of them: all of them when it returns, and
  the batches up to the failing one when \<open>processTransactionBatch\<close> throws.
\<close>

lemma forEachBatch_forwarded:
  "forEachBatch process bs acc fw = (out, fwd) \<Longrightarrow>
   \<exists>k\<le>length bs. fwd = fw @ take k bs \<and> (\<not> isl out \<longrightarrow> k = length bs)"
proof (induction bs arbitrary: acc fw)
  case Nil
  then show ?case by auto
next
  case (Cons b bs)
  show ?case
  proof (cases "process b")
    case (Inl e)
    with Cons.prems have "out = Inl e" "fwd = fw @ [b]" by simp_all
    then show ?thesis by (intro exI[of _ 1]) simp
  next
    case (Inr trades)
    with Cons.prems have "forEachBatch process bs (acc @ trades) (fw @ [b]) = (out, fwd)" by simp
    from Cons.IH[OF this] obtain k where
      k: "k \<le> length bs" "fwd = (fw @ [b]) @ take k bs" "\<not> isl out \<longrightarrow> k = length bs" by blast
    then show ?thesis by (intro exI[of _ "Suc k"]) simp
  qed
qed

lemma forEachBatch_abort:
  "\<forall>b \<in> set pre. \<not> isl (process b) \<Longrightarrow> process failing = Inl e \<Longrightarrow>
   forEachBatch process (pre @ failing # post) acc fw = (Inl e, fw @ pre @ [failing])"
proof (induction pre arbitrary: acc fw)
  case Nil
  then show ?case by simp
next
  case (Cons b pre)
  from Cons.prems(1) obtain r where r: "process b = Inr r" by (cases "process b") auto
  from Cons.prems(1) have "\<forall>b \<in> set pre. \<not> isl (process b)" by simp
  from Cons.IH[OF this Cons.prems(2)] r show ?case by simp
qed

lemma forEachBatch_no_trades:
  "\<forall>b \<in> set bs. process b = Inr [] \<Longrightarrow> forEachBatch process bs acc fw = (Inr acc, fw @ bs)"
  by (induction bs arbitrary: fw) simp_all

text \<open>
  What \<open>getTokenPoolInfo\<close> forwards once the venue is resolved and the walker has returned
  \<open>allSignatures\<close>.
\<close>

lemma getTokenPoolInfo_forwarded:
  assumes "getPoolInfo (PublicKey_new sv) (PublicKey_findProgramAddressSync sv)
             (raydium_fetchPoolByMints sv) m = Inr venue"
    and "getAllTransactionsUntilLastSignature (solanaConnection_getSignaturesForAddress sv)
           venue cursor = Some (Inr allSignatures)"
  shows "\<exists>outcome forwarded.
           getTokenPoolInfo sv m cursor = Some (outcome, forwarded) \<and>
           prefix (concat forwarded) (filter (\<lambda>t. err t = None) (take 5000 allSignatures)) \<and>
           (\<not> isl outcome \<longrightarrow>
              concat forwarded = filter (\<lambda>t. err t = None) (take 5000 allSignatures))"
proof -
  let ?F = "filter (\<lambda>t. err t = None) (take 5000 allSignatures)"
  let ?process = "\<lambda>batch. processTransactionBatch (Number_conv sv)
                     (ComputeBudgetInstruction_decode sv)
                     (solanaConnection_getParsedTransactions sv) batch m"
  obtain outcome forwarded where
    loop: "forEachBatch ?process (batchesFrom ?F 0) [] [] = (outcome, forwarded)"
    by (cases "forEachBatch ?process (batchesFrom ?F 0) [] []") auto
  from assms loop have run: "getTokenPoolInfo sv m cursor = Some (outcome, forwarded)"
    by (simp add: getTokenPoolInfo_def successfullTransactions_def consideredTransactions_def)
  from forEachBatch_forwarded[OF loop] obtain k where
    k: "forwarded = take k (batchesFrom ?F 0)" "\<not> isl outcome \<longrightarrow> k = length (batchesFrom ?F 0)"
    by auto
  have "concat (batchesFrom ?F 0) =
        concat (take k (batchesFrom ?F 0)) @ concat (drop k (batchesFrom ?F 0))"
    by (simp only: concat_append[symmetric] append_take_drop_id)
  then have "?F = concat forwarded @ concat (drop k (batchesFrom ?F 0))"
    by (simp add: concat_batchesFrom k(1))
  then have pre: "prefix (concat forwarded) ?F" by (rule prefixI)
  have all: "concat forwarded = ?F" if "\<not> isl outcome"
    using that k by (simp add: concat_batchesFrom)
  from run pre all show ?thesis by blast
qed

text \<open>
  Claim C5. Against a provider that lists the venue's history newest first and honours
  \<open>before\<close> and \<open>until\<close>, the walker returns and, whatever the other services do, the
  records \<open>getTokenPoolInfo\<close> forwards to the fetcher are an initial part of the successful
  records among the first 5000 records newer than the cursor, all of them when the run
  returns. So they are a subsequence of the newest-first history without repetition
  (strictly ordered newest to oldest, no duplicates across pages), contain no record at or
  older than the cursor, contain successful records only, and number at most 5000.
\<close>

theorem getTokenPoolInfo_forwards_newest_first:
  assumes "getPoolInfo (PublicKey_new sv) (PublicKey_findProgramAddressSync sv)
             (raydium_fetchPoolByMints sv) m = Inr venue"
    and "\<forall>opts. solanaConnection_getSignaturesForAddress sv venue opts =
                 listSignatures limit hist venue opts"
    and "distinct (map ConfirmedSignatureInfo.signature hist)" and "0 < limit"
  shows "\<exists>outcome forwarded.
           getTokenPoolInfo sv m cursor = Some (outcome, forwarded) \<and>
           prefix (concat forwarded)
             (filter (\<lambda>r. err r = None)
                (take 5000
                   (takeWhile (\<lambda>r. cursor = Some [] \<or>
                                    Some (ConfirmedSignatureInfo.signature r) \<noteq> cursor) hist))) \<and>
           (\<not> isl outcome \<longrightarrow>
              concat forwarded =
                filter (\<lambda>r. err r = None)
                  (take 5000
                     (takeWhile (\<lambda>r. cursor = Some [] \<or>
                                      Some (ConfirmedSignatureInfo.signature r) \<noteq> cursor) hist))) \<and>
           subseq (concat forwarded) hist \<and>
           distinct (map ConfirmedSignatureInfo.signature (concat forwarded)) \<and>
           (\<forall>c. cursor = Some c \<and> c \<noteq> [] \<longrightarrow>
              (\<forall>r \<in> set (concat forwarded).
                 ConfirmedSignatureInfo.signature r \<notin>
                   ConfirmedSignatureInfo.signature `
                     set (dropWhile (\<lambda>x. ConfirmedSignatureInfo.signature x \<noteq> c) hist))) \<and>
           (\<forall>r \<in> set (concat forwarded). err r = None) \<and>
           length (concat forwarded) \<le> 5000"
proof -
  let ?P = "\<lambda>r. cursor = Some [] \<or> Some (ConfirmedSignatureInfo.signature r) \<noteq> cursor"
  let ?H = "takeWhile ?P hist"
  let ?F = "filter (\<lambda>r. err r = None) (take 5000 ?H)"
  from assms(2) have agree: "solanaConnection_getSignaturesForAddress sv venue opts =
                 listSignatures limit hist venue opts" for opts by simp
  have walk: "getAllTransactionsUntilLastSignature (solanaConnection_getSignaturesForAddress sv)
                venue cursor = Some (Inr ?H)"
    by (rule getAll_provider[where p = "solanaConnection_getSignaturesForAddress sv"
          and addr = venue, OF assms(3,4) agree])
  from getTokenPoolInfo_forwarded[OF assms(1) walk] obtain outcome forwarded where
    run: "getTokenPoolInfo sv m cursor = Some (outcome, forwarded)" and
    pre: "prefix (concat forwarded) ?F" and
    all: "\<not> isl outcome \<longrightarrow> concat forwarded = ?F"
    by blast
  let ?fw = "concat forwarded"
  have "prefix (take 5000 ?H) hist"
    using take_is_prefix takeWhile_is_prefix prefix_order.trans by blast
  then have "subseq (take 5000 ?H) hist" by (rule prefix_imp_subseq)
  then have subF: "subseq ?F hist"
    using subseq_filter_left subseq_order.trans by blast
  from pre have "subseq ?fw ?F" by (rule prefix_imp_subseq)
  with subF have sub: "subseq ?fw hist" using subseq_order.trans by blast
  from pre have setfw: "set ?fw \<subseteq> set ?F" by (rule set_mono_prefix)
  have setF: "set ?F \<subseteq> set ?H" by (auto dest: in_set_takeD)
  have "distinct (map ConfirmedSignatureInfo.signature ?H)"
    using assms(3) by (metis distinct_append map_append takeWhile_dropWhile_id)
  then have "distinct (map ConfirmedSignatureInfo.signature (take 5000 ?H))"
    by (simp add: take_map[symmetric])
  then have distF: "distinct (map ConfirmedSignatureInfo.signature ?F)"
    by (rule distinct_map_filter)
  from pre obtain rest where "?F = ?fw @ rest" by (auto simp: prefix_def)
  with distF have "distinct (map ConfirmedSignatureInfo.signature (?fw @ rest))" by simp
  then have dist: "distinct (map ConfirmedSignatureInfo.signature ?fw)" by simp
  have cur: "ConfirmedSignatureInfo.signature r \<notin>
               ConfirmedSignatureInfo.signature `
                 set (dropWhile (\<lambda>x. ConfirmedSignatureInfo.signature x \<noteq> c) hist)"
    if c: "cursor = Some c \<and> c \<noteq> []" and r: "r \<in> set ?fw" for c r
  proof -
    from c have same: "?P = (\<lambda>x. ConfirmedSignatureInfo.signature x \<noteq> c)" by auto
    from assms(3) have "distinct (map ConfirmedSignatureInfo.signature (?H @ dropWhile ?P hist))"
      by simp
    then have "ConfirmedSignatureInfo.signature ` set ?H \<inter>
               ConfirmedSignatureInfo.signature ` set (dropWhile ?P hist) = {}"
      by (simp only: map_append distinct_append set_map)
    with r setfw setF show ?thesis unfolding same by blast
  qed
  from setfw have ok: "\<forall>r \<in> set ?fw. err r = None" by auto
  have "length ?F \<le> 5000" by (rule order_trans[OF length_filter_le]) simp
  with prefix_length_le[OF pre] have len: "length ?fw \<le> 5000" by simp
  from run pre all sub dist cur ok len show ?thesis by blast
qed

text \<open>
  Runs against a transaction provider that resolves no signature: every batch is forwarded
  and yields no trade.
\<close>

lemma nonNull_Cons: "nonNull (Some x # r) = x # nonNull r"
  by (simp add: nonNull_def)

lemma nonNull_all_null: "\<forall>x\<in>set r. x = None \<Longrightarrow> nonNull r = []"
  by (induction r) (simp_all add: nonNull_def)

lemma fetch_first_attempt:
  "p (map ConfirmedSignatureInfo.signature batch) 0 = Inr (Some r) \<Longrightarrow>
   fst (getTransactionsWithRetries p batch) = nonNull r"
  by (simp add: getTransactionsWithRetries_def retryLoop.simps[of p _ 0])

lemma processTransactionBatch_nullTransactions:
  "processTransactionBatch toNumber decode nullTransactions batch m = Inr []"
proof -
  have call: "nullTransactions (map ConfirmedSignatureInfo.signature batch) 0 =
        Inr (Some (map (\<lambda>s. None) (map ConfirmedSignatureInfo.signature batch)))"
    by (simp add: nullTransactions_def)
  have "nonNull (map (\<lambda>s. None) (map ConfirmedSignatureInfo.signature batch)) = []"
    by (rule nonNull_all_null) simp
  with fetch_first_attempt[where p = nullTransactions and batch = batch, OF call]
  have "fst (getTransactionsWithRetries nullTransactions batch) = []" by simp
  then show ?thesis by (simp add: processTransactionBatch_def)
qed

lemma servicesOf_fields:
  "Number_conv (servicesOf p) = Number_decimal"
  "ComputeBudgetInstruction_decode (servicesOf p) = exampleDecoder"
  "PublicKey_new (servicesOf p) = examplePublicKey"
  "PublicKey_findProgramAddressSync (servicesOf p) = exampleDerive"
  "raydium_fetchPoolByMints (servicesOf p) = listedRegistry"
  "solanaConnection_getSignaturesForAddress (servicesOf p) = p"
  "solanaConnection_getParsedTransactions (servicesOf p) = nullTransactions"
  by (simp_all add: servicesOf_def)

lemma getPoolInfo_servicesOf:
  "getPoolInfo (PublicKey_new (servicesOf p)) (PublicKey_findProgramAddressSync (servicesOf p))
     (raydium_fetchPoolByMints (servicesOf p)) m = Inr (PublicKey (map of_char ''PoolA''))"
  by (simp add: servicesOf_fields getPoolInfo_def listedRegistry_def examplePublicKey_def)

lemma getTokenPoolInfo_servicesOf:
  assumes "getAllTransactionsUntilLastSignature p (PublicKey (map of_char ''PoolA'')) cursor =
           Some (Inr allSignatures)"
  shows "getTokenPoolInfo (servicesOf p) m cursor =
         Some (Inr [], batchesFrom (filter (\<lambda>t. err t = None) (take 5000 allSignatures)) 0)"
proof -
  have loop: "forEachBatch
          (\<lambda>batch. processTransactionBatch Number_decimal exampleDecoder nullTransactions batch m)
          bs [] [] = (Inr [], bs)" for bs
    using forEachBatch_no_trades[where process =
        "\<lambda>batch. processTransactionBatch Number_decimal exampleDecoder nullTransactions batch m"
        and bs = bs and acc = "[]" and fw = "[]"]
    by (simp add: processTransactionBatch_nullTransactions)
  show ?thesis
    unfolding getTokenPoolInfo_def getPoolInfo_servicesOf sum.case
    unfolding servicesOf_fields assms option.case sum.case loop
    by (simp add: successfullTransactions_def consideredTransactions_def)
qed

theorem getTokenPoolInfo_forwards_newest_first_witness:
  "getTokenPoolInfo (servicesOf (listSignatures 2 exampleHistory)) ''MintA'' (Some ''s2'') =
     Some (Inr [], [[\<lparr>ConfirmedSignatureInfo.signature = ''s5'', err = None\<rparr>,
                     \<lparr>ConfirmedSignatureInfo.signature = ''s3'', err = None\<rparr>]]) \<and>
   subseq [\<lparr>ConfirmedSignatureInfo.signature = ''s5'', err = None\<rparr>,
           \<lparr>ConfirmedSignatureInfo.signature = ''s3'', err = None\<rparr>] exampleHistory \<and>
   distinct (map ConfirmedSignatureInfo.signature
               [\<lparr>ConfirmedSignatureInfo.signature = ''s5'', err = None\<rparr>,
                \<lparr>ConfirmedSignatureInfo.signature = ''s3'', err = None\<rparr>]) \<and>
   ''s3'' \<notin> ConfirmedSignatureInfo.signature `
              set (dropWhile (\<lambda>x. ConfirmedSignatureInfo.signature x \<noteq> ''s2'') exampleHistory)"
proof -
  let ?sv = "servicesOf (listSignatures 2 exampleHistory)"
  let ?venue = "PublicKey (map of_char ''PoolA'')"
  have d: "distinct (map ConfirmedSignatureInfo.signature exampleHistory)"
    by (simp add: exampleHistory_def)
  have l: "(0::nat) < 2" by simp
  have agree: "\<forall>opts. solanaConnection_getSignaturesForAddress ?sv ?venue opts =
                 listSignatures 2 exampleHistory ?venue opts"
    by (simp add: servicesOf_fields)
  have w: "takeWhile (\<lambda>r. Some ''s2'' = Some [] \<or>
                           Some (ConfirmedSignatureInfo.signature r) \<noteq> Some ''s2'') exampleHistory
           = take 3 exampleHistory"
    by (simp add: exampleHistory_def)
  have f: "filter (\<lambda>t. err t = None) (take 5000 (take 3 exampleHistory)) =
           [\<lparr>ConfirmedSignatureInfo.signature = ''s5'', err = None\<rparr>,
            \<lparr>ConfirmedSignatureInfo.signature = ''s3'', err = None\<rparr>]"
    by (simp add: exampleHistory_def)
  have walk: "getAllTransactionsUntilLastSignature (listSignatures 2 exampleHistory) ?venue
                (Some ''s2'') = Some (Inr (take 3 exampleHistory))"
    using getAll_listSignatures[OF d l, of ?venue "Some ''s2''"] unfolding w .
  have val: "getTokenPoolInfo ?sv ''MintA'' (Some ''s2'') =
     Some (Inr [], [[\<lparr>ConfirmedSignatureInfo.signature = ''s5'', err = None\<rparr>,
                     \<lparr>ConfirmedSignatureInfo.signature = ''s3'', err = None\<rparr>]])"
    unfolding getTokenPoolInfo_servicesOf[OF walk] f
    by (simp add: batchesFrom.simps[of _ 0] batchesFrom.simps[of _ 100])
  from getTokenPoolInfo_forwards_newest_first[OF getPoolInfo_servicesOf agree d l,
        of "''MintA''" "Some ''s2''"]
  obtain outcome forwarded where
    run: "getTokenPoolInfo ?sv ''MintA'' (Some ''s2'') = Some (outcome, forwarded)" and
    sub: "subseq (concat forwarded) exampleHistory" and
    dist: "distinct (map ConfirmedSignatureInfo.signature (concat forwarded))" and
    cur: "\<forall>c. Some ''s2'' = Some c \<and> c \<noteq> [] \<longrightarrow>
              (\<forall>r \<in> set (concat forwarded).
                 ConfirmedSignatureInfo.signature r \<notin>
                   ConfirmedSignatureInfo.signature `
                     set (dropWhile (\<lambda>x. ConfirmedSignatureInfo.signature x \<noteq> c) exampleHistory))"
    by blast
  from run val have fw: "forwarded = [[\<lparr>ConfirmedSignatureInfo.signature = ''s5'', err = None\<rparr>,
                     \<lparr>ConfirmedSignatureInfo.signature = ''s3'', err = None\<rparr>]]"
    by simp
  from cur have "\<forall>r \<in> set (concat forwarded).
                 ConfirmedSignatureInfo.signature r \<notin>
                   ConfirmedSignatureInfo.signature `
                     set (dropWhile (\<lambda>x. ConfirmedSignatureInfo.signature x \<noteq> ''s2'') exampleHistory)"
    by simp
  then have newer: "''s3'' \<notin> ConfirmedSignatureInfo.signature `
              set (dropWhile (\<lambda>x. ConfirmedSignatureInfo.signature x \<noteq> ''s2'') exampleHistory)"
    unfolding fw by simp
  from sub dist have "subseq [\<lparr>ConfirmedSignatureInfo.signature = ''s5'', err = None\<rparr>,
           \<lparr>ConfirmedSignatureInfo.signature = ''s3'', err = None\<rparr>] exampleHistory"
    "distinct (map ConfirmedSignatureInfo.signature
               [\<lparr>ConfirmedSignatureInfo.signature = ''s5'', err = None\<rparr>,
                \<lparr>ConfirmedSignatureInfo.signature = ''s3'', err = None\<rparr>])"
    unfolding fw by simp_all
  with val newer show ?thesis by blast
qed

text \<open>
  Claim C10. The ceiling is applied before the filter: once the walker has returned
  \<open>allSignatures\<close>, the records \<open>getTokenPoolInfo\<close> forwards are an initial part of the
  successful ones among the first 5000 of \<open>allSignatures\<close>, all of them when the run
  returns; no record beyond the first 5000 is forwarded, and every failed record among the
  first 5000 takes one of the 5000 places. So a history with more than 5000 successful
  records can forward fewer than 5000.
\<close>

theorem getTokenPoolInfo_cap_before_filter:
  assumes "getPoolInfo (PublicKey_new sv) (PublicKey_findProgramAddressSync sv)
             (raydium_fetchPoolByMints sv) m = Inr venue"
    and "getAllTransactionsUntilLastSignature (solanaConnection_getSignaturesForAddress sv)
           venue cursor = Some (Inr allSignatures)"
    and "distinct allSignatures"
  shows "\<exists>outcome forwarded.
           getTokenPoolInfo sv m cursor = Some (outcome, forwarded) \<and>
           prefix (concat forwarded) (filter (\<lambda>t. err t = None) (take 5000 allSignatures)) \<and>
           (\<not> isl outcome \<longrightarrow>
              concat forwarded = filter (\<lambda>t. err t = None) (take 5000 allSignatures)) \<and>
           (\<forall>r \<in> set (drop 5000 allSignatures). r \<notin> set (concat forwarded)) \<and>
           length (concat forwarded) +
             length (filter (\<lambda>t. err t \<noteq> None) (take 5000 allSignatures)) \<le>
           min 5000 (length allSignatures) \<and>
           (\<not> isl outcome \<longrightarrow>
              length (concat forwarded) +
                length (filter (\<lambda>t. err t \<noteq> None) (take 5000 allSignatures)) =
              min 5000 (length allSignatures))"
proof -
  let ?F = "filter (\<lambda>t. err t = None) (take 5000 allSignatures)"
  from getTokenPoolInfo_forwarded[OF assms(1,2)] obtain outcome forwarded where
    run: "getTokenPoolInfo sv m cursor = Some (outcome, forwarded)" and
    pre: "prefix (concat forwarded) ?F" and
    all: "\<not> isl outcome \<longrightarrow> concat forwarded = ?F"
    by blast
  from pre have setfw: "set (concat forwarded) \<subseteq> set ?F" by (rule set_mono_prefix)
  from assms(3) have "distinct (take 5000 allSignatures @ drop 5000 allSignatures)" by simp
  then have "set (take 5000 allSignatures) \<inter> set (drop 5000 allSignatures) = {}"
    by (simp only: distinct_append)
  with setfw have beyond: "\<forall>r \<in> set (drop 5000 allSignatures). r \<notin> set (concat forwarded)"
    by auto
  have "length ?F + length (filter (\<lambda>t. err t \<noteq> None) (take 5000 allSignatures)) =
        length (take 5000 allSignatures)"
    using sum_length_filter_compl[of "\<lambda>t. err t = None" "take 5000 allSignatures"] by simp
  then have count: "length ?F + length (filter (\<lambda>t. err t \<noteq> None) (take 5000 allSignatures)) =
                    min 5000 (length allSignatures)"
    by (simp add: min.commute)
  from prefix_length_le[OF pre] count
  have le: "length (concat forwarded) +
             length (filter (\<lambda>t. err t \<noteq> None) (take 5000 allSignatures)) \<le>
           min 5000 (length allSignatures)"
    by linarith
  from all count
  have eq: "\<not> isl outcome \<longrightarrow>
              length (concat forwarded) +
                length (filter (\<lambda>t. err t \<noteq> None) (take 5000 allSignatures)) =
              min 5000 (length allSignatures)"
    by auto
  from run pre all beyond le eq show ?thesis by blast
qed

lemma longHistory_signatures:
  "distinct (map ConfirmedSignatureInfo.signature longHistory)"
proof -
  have "inj_on (\<lambda>i. replicate (Suc i) (CHR ''s'')) A" for A
    by (rule inj_onI) (auto dest: arg_cong[where f = length])
  then show ?thesis
    by (auto simp: longHistory_def distinct_map comp_def)
qed

lemma longHistory_distinct: "distinct longHistory"
  using longHistory_signatures by (simp add: distinct_map)

lemma longHistory_length: "length longHistory = 5002"
  by (simp add: longHistory_def)

lemma longHistory_last:
  "last longHistory \<in> set (drop 5000 longHistory) \<and> err (last longHistory) = None"
proof -
  have "drop 5000 longHistory \<noteq> []" by (simp add: longHistory_length)
  then have "last (drop 5000 longHistory) \<in> set (drop 5000 longHistory)" by (rule last_in_set)
  moreover have "last (drop 5000 longHistory) = last longHistory"
    by (rule last_drop) (simp add: longHistory_length)
  moreover have "err (last longHistory) = None"
    by (simp add: longHistory_def last_map)
  ultimately show ?thesis by simp
qed

theorem getTokenPoolInfo_cap_before_filter_witness:
  "length (filter (\<lambda>t. err t = None) longHistory) = 5001 \<and>
   getTokenPoolInfo (servicesOf (listSignatures 1000 longHistory)) ''MintA'' None =
     Some (Inr [], batchesFrom (filter (\<lambda>t. err t = None) (take 5000 longHistory)) 0) \<and>
   length (concat (batchesFrom (filter (\<lambda>t. err t = None) (take 5000 longHistory)) 0)) = 4999 \<and>
   err (last longHistory) = None \<and>
   last longHistory \<notin>
     set (concat (batchesFrom (filter (\<lambda>t. err t = None) (take 5000 longHistory)) 0))"
proof -
  let ?sv = "servicesOf (listSignatures 1000 longHistory)"
  let ?venue = "PublicKey (map of_char ''PoolA'')"
  let ?fw = "batchesFrom (filter (\<lambda>t. err t = None) (take 5000 longHistory)) 0"
  have l: "(0::nat) < 1000" by simp
  have walk: "getAllTransactionsUntilLastSignature (listSignatures 1000 longHistory) ?venue None
              = Some (Inr longHistory)"
    using getAll_listSignatures[OF longHistory_signatures l, of ?venue None] by simp
  then have walk': "getAllTransactionsUntilLastSignature
                      (solanaConnection_getSignaturesForAddress ?sv) ?venue None
              = Some (Inr longHistory)"
    by (simp only: servicesOf_fields)
  have val: "getTokenPoolInfo ?sv ''MintA'' None = Some (Inr [], ?fw)"
    by (rule getTokenPoolInfo_servicesOf[OF walk])
  have n: "length (filter (\<lambda>t. err t = None) longHistory) = 5001"
    by (simp add: longHistory_def filter_map comp_def)
  have failed: "length (filter (\<lambda>t. err t \<noteq> None) (take 5000 longHistory)) = 1"
    by (simp add: longHistory_def take_map filter_map comp_def)
  from getTokenPoolInfo_cap_before_filter[OF getPoolInfo_servicesOf walk' longHistory_distinct,
        of "''MintA''"]
  obtain outcome forwarded where
    run: "getTokenPoolInfo ?sv ''MintA'' None = Some (outcome, forwarded)" and
    beyond: "\<forall>r \<in> set (drop 5000 longHistory). r \<notin> set (concat forwarded)" and
    eq: "\<not> isl outcome \<longrightarrow>
           length (concat forwarded) +
             length (filter (\<lambda>t. err t \<noteq> None) (take 5000 longHistory)) =
           min 5000 (length longHistory)"
    by blast
  from run val have o: "outcome = Inr []" and fw: "forwarded = ?fw" by simp_all
  from eq have short: "length (concat ?fw) = 4999"
    unfolding o fw failed longHistory_length by simp
  from beyond longHistory_last have "last longHistory \<notin> set (concat ?fw)"
    unfolding fw by blast
  with n val short longHistory_last show ?thesis by blast
qed

section \<open>Properties of the expanded agent response\<close>

lemma returnedHistory_expanded:
  "returnedHistory (getAgentResponse parseFloat (Some a) agentHistory True h0) =
   Some (sort_key time (flattenHistory parseFloat agentHistory))"
  by (simp add: getAgentResponse_def returnedHistory_def new_array_def Array_sort_by_time_def
      Let_def nth_append)

lemma Number_decimal_small:
  "Number_decimal ''1'' = Fin 1" "Number_decimal ''2'' = Fin 2" "Number_decimal ''3'' = Fin 3"
  by (simp_all add: Number_decimal_def)

lemma flattenHistory_farFutureRows:
  "flattenHistory Number_decimal farFutureRows =
     [\<lparr>time = 5000000000, HistoricPrice.price = Fin 5\<rparr>,
      \<lparr>time = 4999999999, HistoricPrice.price = Fin 1\<rparr>]"
  by (simp add: flattenHistory_def farFutureRows_def Object_entries_def isArrayIndex_def
      sumPrices_def Number_decimal_small)

lemma flattenHistory_recentRows:
  "flattenHistory Number_decimal recentRows =
     [\<lparr>time = 1700000100, HistoricPrice.price = Fin 1\<rparr>,
      \<lparr>time = 1700000300, HistoricPrice.price = Fin 5\<rparr>]"
  by (simp add: flattenHistory_def recentRows_def Object_entries_def isArrayIndex_def
      sumPrices_def Number_decimal_small)

text \<open>
  Claim C9 as stated fails: the returned history is not the unsorted aggregated sequence.
  For block times beyond \<open>2^32\<close> the aggregated sequence is in insertion order and the
  returned one is that sequence sorted; for present-day block times the returned history
  is in ascending time order.
\<close>

theorem getAgentResponse_unsorted_counterexample:
  "returnedHistory (getAgentResponse Number_decimal (Some exampleAgent) farFutureRows True []) =
     Some [\<lparr>time = 4999999999, HistoricPrice.price = Fin 1\<rparr>,
           \<lparr>time = 5000000000, HistoricPrice.price = Fin 5\<rparr>] \<and>
   returnedHistory (getAgentResponse Number_decimal (Some exampleAgent) farFutureRows True []) \<noteq>
     Some (flattenHistory Number_decimal farFutureRows) \<and>
   returnedHistory (getAgentResponse Number_decimal (Some exampleAgent) recentRows True []) =
     Some [\<lparr>time = 1700000100, HistoricPrice.price = Fin 1\<rparr>,
           \<lparr>time = 1700000300, HistoricPrice.price = Fin 5\<rparr>]"
  by (simp add: returnedHistory_expanded flattenHistory_farFutureRows flattenHistory_recentRows)

text \<open>
  Claim C9, amended. In the expanded path the history returned to the caller is the
  per-block-time aggregated sequence sorted ascending by time: \<open>sort\<close> sorts
  \<open>flattendHistory\<close> in place and returns the same array, so the second assignment stores
  the array that was just sorted.
\<close>

theorem getAgentResponse_history_sorted:
  "returnedHistory (getAgentResponse parseFloat (Some a) agentHistory True h0) =
     Some (sort_key time (flattenHistory parseFloat agentHistory)) \<and>
   (\<forall>xs. returnedHistory (getAgentResponse parseFloat (Some a) agentHistory True h0) = Some xs \<longrightarrow>
      sorted (map time xs) \<and> set xs = set (flattenHistory parseFloat agentHistory) \<and>
      length xs = length (flattenHistory parseFloat agentHistory))"
  by (simp add: returnedHistory_expanded)

theorem getAgentResponse_history_sorted_witness:
  "returnedHistory (getAgentResponse Number_decimal (Some exampleAgent) farFutureRows True []) =
     Some [\<lparr>time = 4999999999, HistoricPrice.price = Fin 1\<rparr>,
           \<lparr>time = 5000000000, HistoricPrice.price = Fin 5\<rparr>] \<and>
   sorted (map time [\<lparr>time = 4999999999, HistoricPrice.price = Fin 1\<rparr>,
                     \<lparr>time = 5000000000, HistoricPrice.price = Fin 5\<rparr>])"
proof -
  have s: "sort_key time (flattenHistory Number_decimal farFutureRows) =
           [\<lparr>time = 4999999999, HistoricPrice.price = Fin 1\<rparr>,
            \<lparr>time = 5000000000, HistoricPrice.price = Fin 5\<rparr>]"
    by (simp add: flattenHistory_farFutureRows)
  from getAgentResponse_history_sorted[of Number_decimal exampleAgent farFutureRows "[]"]
  have r: "returnedHistory (getAgentResponse Number_decimal (Some exampleAgent) farFutureRows True [])
        = Some (sort_key time (flattenHistory Number_decimal farFutureRows))"
    and "\<forall>xs. returnedHistory (getAgentResponse Number_decimal (Some exampleAgent) farFutureRows True [])
           = Some xs \<longrightarrow> sorted (map time xs)"
    by blast+
  then have "sorted (map time (sort_key time (flattenHistory Number_decimal farFutureRows)))"
    by blast
  with r show ?thesis unfolding s by blast
qed

section \<open>Properties of error propagation\<close>

lemma priorityFeeOf_badSale: "priorityFeeOf exampleDecoder badSale = Inl decodeError"
  by (simp add: priorityFeeOf_def computeBudgetInstructions_def badSale_def saleOf_def
      exampleDecoder_def decodeError_def)

lemma computeTokenPrice_badSale:
  "computeTokenPrice Number_decimal exampleDecoder badSale ''BAD'' = Inl decodeError"
proof -
  have b: "badSale = saleOf ''BAD'' [\<lparr>programId = ComputeBudgetProgram_programId,
                               PartiallyDecodedInstruction.data = ''unknown''\<rparr>]"
    by (simp add: badSale_def)
  show ?thesis
    unfolding computeTokenPrice_def signerTrade_def
    by (simp add: b saleOf_fields signersOf_saleOf tokenBalanceOf_balancesOf or_zero_def
          priorityFeeOf_badSale[unfolded b])
qed

lemma badHistory_length: "length badHistory = 101"
  by (simp add: badHistory_def)

lemma badHistory_distinct: "distinct (map ConfirmedSignatureInfo.signature badHistory)"
proof -
  have "inj_on (\<lambda>i. CHR ''g'' # replicate i (CHR ''x'')) A" for A
    by (rule inj_onI) (auto dest: arg_cong[where f = length])
  then show ?thesis
    by (auto simp: badHistory_def distinct_map comp_def)
qed

lemma badHistory_successful:
  "successfullTransactions (consideredTransactions badHistory) = badHistory"
  by (simp add: successfullTransactions_def consideredTransactions_def badHistory_def
      filter_map comp_def)

lemma badHistory_batches:
  "batchesFrom badHistory 0 = [take 100 badHistory, drop 100 badHistory]"
  by (simp add: batchesFrom.simps[of badHistory 0] batchesFrom.simps[of badHistory 100]
      batchesFrom.simps[of badHistory 200] badHistory_length)

lemma badHistory_first_batch:
  "\<exists>rest. take 100 badHistory =
     \<lparr>ConfirmedSignatureInfo.signature = ''sigBad'', err = None\<rparr> # rest"
  by (simp add: badHistory_def)

lemma badHistory_second_batch:
  "drop 100 badHistory =
     [\<lparr>ConfirmedSignatureInfo.signature = CHR ''g'' # replicate 99 (CHR ''x''), err = None\<rparr>]"
proof -
  have "[99..<100] = [99::nat]" by (simp add: upt_rec)
  then show ?thesis by (simp add: badHistory_def drop_map)
qed

lemma first_batch_fetched:
  "\<exists>rest. fst (getTransactionsWithRetries exampleTransactions (take 100 badHistory)) =
          badSale # rest"
proof -
  from badHistory_first_batch obtain rest where
    b: "take 100 badHistory = \<lparr>ConfirmedSignatureInfo.signature = ''sigBad'', err = None\<rparr> # rest"
    by blast
  have "exampleTransactions (map ConfirmedSignatureInfo.signature (take 100 badHistory)) 0 =
        Inr (Some (Some badSale # map (\<lambda>s. if s = ''sigBad'' then Some badSale
                          else if s = ''sig1'' then Some exampleSale
                          else Some goodSale) (map ConfirmedSignatureInfo.signature rest)))"
    unfolding b by (simp add: exampleTransactions_def)
  from fetch_first_attempt[where p = exampleTransactions and batch = "take 100 badHistory", OF this]
  show ?thesis by (simp add: nonNull_Cons)
qed

lemma first_batch_fails:
  "processTransactionBatch Number_decimal exampleDecoder exampleTransactions
     (take 100 badHistory) ''BAD'' = Inl decodeError"
proof -
  from first_batch_fetched obtain rest where
    "fst (getTransactionsWithRetries exampleTransactions (take 100 badHistory)) = badSale # rest"
    by blast
  then show ?thesis
    by (simp add: processTransactionBatch_def computeTokenPrice_badSale)
qed

lemma second_batch_trades:
  "processTransactionBatch Number_decimal exampleDecoder exampleTransactions
     (drop 100 badHistory) ''BAD'' = Inr [saleTrade ''BAD'']"
proof -
  have "exampleTransactions (map ConfirmedSignatureInfo.signature (drop 100 badHistory)) 0 =
        Inr (Some [Some goodSale])"
    unfolding badHistory_second_batch by (simp add: exampleTransactions_def)
  from fetch_first_attempt[where p = exampleTransactions and batch = "drop 100 badHistory", OF this]
  show ?thesis
    by (simp add: processTransactionBatch_def nonNull_def computeTokenPrice_goodSale)
qed

lemma getPoolInfo_exampleServices:
  "m \<noteq> [] \<Longrightarrow>
   getPoolInfo examplePublicKey exampleDerive mintRegistry m = Inr (PublicKey (map of_char (''pool-'' @ m)))"
  by (simp add: getPoolInfo_def mintRegistry_def examplePublicKey_def)

lemma exampleServices_fields:
  "Number_conv exampleServices = Number_decimal"
  "ComputeBudgetInstruction_decode exampleServices = exampleDecoder"
  "PublicKey_new exampleServices = examplePublicKey"
  "PublicKey_findProgramAddressSync exampleServices = exampleDerive"
  "raydium_fetchPoolByMints exampleServices = mintRegistry"
  "solanaConnection_getSignaturesForAddress exampleServices = venueSignatures"
  "solanaConnection_getParsedTransactions exampleServices = exampleTransactions"
  by (simp_all add: exampleServices_def)

lemma walk_venue:
  "getAllTransactionsUntilLastSignature venueSignatures (PublicKey (map of_char ''pool-BAD'')) None
     = Some (Inr badHistory)"
  "getAllTransactionsUntilLastSignature venueSignatures (PublicKey (map of_char ''pool-MINT'')) None
     = Some (Inr goodHistory)"
proof -
  have l: "(0::nat) < 1000" by simp
  have g: "distinct (map ConfirmedSignatureInfo.signature goodHistory)"
    by (simp add: goodHistory_def)
  have a: "venueSignatures (PublicKey (map of_char ''pool-BAD'')) opts =
           listSignatures 1000 badHistory (PublicKey (map of_char ''pool-BAD'')) opts" for opts
    by (simp add: venueSignatures_def)
  have b: "venueSignatures (PublicKey (map of_char ''pool-MINT'')) opts =
           listSignatures 1000 goodHistory (PublicKey (map of_char ''pool-MINT'')) opts" for opts
    by (simp add: venueSignatures_def)
  from getAll_provider[where p = venueSignatures and addr = "PublicKey (map of_char ''pool-BAD'')"
      and lastSignature = None, OF badHistory_distinct l a]
  show "getAllTransactionsUntilLastSignature venueSignatures
          (PublicKey (map of_char ''pool-BAD'')) None = Some (Inr badHistory)"
    by simp
  from getAll_provider[where p = venueSignatures and addr = "PublicKey (map of_char ''pool-MINT'')"
      and lastSignature = None, OF g l b]
  show "getAllTransactionsUntilLastSignature venueSignatures
          (PublicKey (map of_char ''pool-MINT'')) None = Some (Inr goodHistory)"
    by simp
qed

lemma getTokenPoolInfo_BAD:
  "getTokenPoolInfo exampleServices ''BAD'' None = Some (Inl decodeError, [take 100 badHistory])"
proof -
  have pool: "getPoolInfo examplePublicKey exampleDerive mintRegistry ''BAD''
              = Inr (PublicKey (map of_char ''pool-BAD''))"
    by (simp add: getPoolInfo_exampleServices)
  show ?thesis
    unfolding getTokenPoolInfo_def exampleServices_fields pool sum.case walk_venue option.case
    by (simp add: badHistory_successful badHistory_batches first_batch_fails)
qed

lemma getTokenPoolInfo_MINT:
  "getTokenPoolInfo exampleServices ''MINT'' None = Some (Inr [exampleSaleTrade], [goodHistory])"
proof -
  have pool: "getPoolInfo examplePublicKey exampleDerive mintRegistry ''MINT''
              = Inr (PublicKey (map of_char ''pool-MINT''))"
    by (simp add: getPoolInfo_exampleServices)
  have batches: "batchesFrom (successfullTransactions (consideredTransactions goodHistory)) 0
                 = [goodHistory]"
    by (simp add: successfullTransactions_def consideredTransactions_def goodHistory_def
        batchesFrom.simps[of _ 0] batchesFrom.simps[of _ 100])
  have "exampleTransactions (map ConfirmedSignatureInfo.signature goodHistory) 0 =
        Inr (Some [Some exampleSale])"
    by (simp add: exampleTransactions_def goodHistory_def)
  from fetch_first_attempt[where p = exampleTransactions and batch = goodHistory, OF this]
  have batch: "processTransactionBatch Number_decimal exampleDecoder exampleTransactions
                 goodHistory ''MINT'' = Inr [exampleSaleTrade]"
    by (simp add: processTransactionBatch_def nonNull_def computeTokenPrice_exampleSale)
  show ?thesis
    unfolding getTokenPoolInfo_def exampleServices_fields pool sum.case walk_venue option.case
    by (simp add: batches batch)
qed

lemma agent_fields:
  "Agent.mint exampleAgent = ''MINT''" "agent_id exampleAgent = 2"
  "Agent.mint badAgent = ''BAD''" "agent_id badAgent = 1"
  by (simp_all add: exampleAgent_def badAgent_def)

lemma examplePersistence_fields:
  "db_getAgents examplePersistence = Inr [badAgent, exampleAgent]"
  "db_getLastSignature examplePersistence i = Inr None"
  "db_create examplePersistence row = None"
  "String_of_number examplePersistence = exampleString"
  by (simp_all add: examplePersistence_def)

lemma rowOf_exampleSaleTrade:
  "rowOf examplePersistence exampleAgent exampleSaleTrade = exampleRow"
  by (simp add: rowOf_def examplePersistence_fields agent_fields exampleSaleTrade_def
      exampleString_def exampleRow_def)

lemma sync_good_alone:
  "syncAgents exampleServices examplePersistence [exampleAgent] [] = Some ([exampleRow], None)"
  by (simp only: syncAgents.simps examplePersistence_fields sum.case agent_fields
      getTokenPoolInfo_MINT option.case list.map rowOf_exampleSaleTrade createAll.simps
      append_Nil prod.case)

lemma sync_aborts:
  "syncAgentTransactionHistory exampleServices examplePersistence [] = Some ([], Some decodeError)"
  by (simp only: syncAgentTransactionHistory_def syncAgents.simps examplePersistence_fields
      sum.case agent_fields getTokenPoolInfo_BAD option.case prod.case)

text \<open>
  Claim C8 as stated fails. The successful records of the venue of \<open>BAD\<close> make two
  batches; decoding an instruction of the first transaction of the first batch throws, and
  the run for the asset ends with that error after forwarding the first batch only,
  although the second batch alone yields a trade. In a sync run over the agents of \<open>BAD\<close>
  and \<open>MINT\<close> the same error ends the run before the agent of \<open>MINT\<close>, which alone
  yields a row, is processed.
\<close>

theorem errors_abort_siblings_counterexample:
  "batchesFrom (successfullTransactions (consideredTransactions badHistory)) 0 =
     [take 100 badHistory, drop 100 badHistory] \<and>
   processTransactionBatch Number_decimal exampleDecoder exampleTransactions
     (take 100 badHistory) ''BAD'' = Inl decodeError \<and>
   processTransactionBatch Number_decimal exampleDecoder exampleTransactions
     (drop 100 badHistory) ''BAD'' = Inr [saleTrade ''BAD''] \<and>
   getTokenPoolInfo exampleServices ''BAD'' None = Some (Inl decodeError, [take 100 badHistory]) \<and>
   syncAgents exampleServices examplePersistence [exampleAgent] [] = Some ([exampleRow], None) \<and>
   db_getAgents examplePersistence = Inr [badAgent, exampleAgent] \<and>
   syncAgentTransactionHistory exampleServices examplePersistence [] = Some ([], Some decodeError)"
  by (simp only: badHistory_successful badHistory_batches first_batch_fails second_batch_trades
      getTokenPoolInfo_BAD sync_good_alone sync_aborts examplePersistence_fields simp_thms)

lemma fetch_all_fail:
  assumes "\<forall>i<5. isl (p (map ConfirmedSignatureInfo.signature batch) i)"
  shows "fst (getTransactionsWithRetries p batch) = []"
proof -
  from retryLoop_shape[of 0 p "map ConfirmedSignatureInfo.signature batch" "[]" "[]"]
  obtain k where k: "k < 5 \<longrightarrow> \<not> isl (p (map ConfirmedSignatureInfo.signature batch) k)" and
    res: "getTransactionsWithRetries p batch =
         (if k < 5 then (case projr (p (map ConfirmedSignatureInfo.signature batch) k) of
                           None \<Rightarrow> [] | Some r \<Rightarrow> nonNull r)
          else [],
          concat (replicate k [Fetch, Sleep 1000]) @ (if k < 5 then [Fetch] else []))"
    unfolding getTransactionsWithRetries_def by auto
  from assms k have "\<not> k < 5" by blast
  with res show ?thesis by simp
qed

lemma forEachTransaction_abort:
  "\<forall>x \<in> set pre. \<not> isl (compute x) \<Longrightarrow> compute failing = Inl e \<Longrightarrow>
   forEachTransaction compute (pre @ failing # post) acc = Inl e"
proof (induction pre arbitrary: acc)
  case Nil
  then show ?case by simp
next
  case (Cons x pre)
  from Cons.prems(1) obtain r where r: "compute x = Inr r" by (cases "compute x") auto
  from Cons.prems(1) have "\<forall>x \<in> set pre. \<not> isl (compute x)" by simp
  from Cons.IH[OF this Cons.prems(2)] r show ?case by (cases r) simp_all
qed

lemma computeTokenPrice_throws:
  assumes "meta tx = Some mt" and "preTokenBalances mt = Some preTB"
    and "postTokenBalances mt = Some postTB"
    and "or_zero (ParsedTransactionWithMeta.blockTime tx) \<noteq> 0"
    and "\<exists>s \<in> set (signersOf tx).
           \<not> js_eq (tokenBalanceOf toNumber preTB (key s) m)
                   (tokenBalanceOf toNumber postTB (key s) m)"
    and "priorityFeeOf decode tx = Inl e"
  shows "computeTokenPrice toNumber decode tx m = Inl e"
proof -
  let ?bt = "or_zero (ParsedTransactionWithMeta.blockTime tx)"
  let ?body = "signerTrade toNumber decode tx m preTB postTB (preBalances mt) (postBalances mt)
                 (fee mt) ?bt"
  have each: "?body s = Inl e \<or> ?body s = Inr None" for s
    using signerTrade_unchanged[of toNumber preTB s m postTB decode tx]
      signerTrade_throws[OF _ assms(4,6), of toNumber preTB s m postTB]
    by blast
  from assms(5) obtain s where s: "s \<in> set (signersOf tx)" "?body s = Inl e"
    using signerTrade_throws[OF _ assms(4,6)] by blast
  then have "\<exists>s \<in> set (signersOf tx). ?body s = Inl e" by blast
  moreover from each have "\<forall>s \<in> set (signersOf tx). ?body s = Inl e \<or> ?body s = Inr None"
    by blast
  ultimately have "forEachSigner ?body (signersOf tx) [] = Inl e"
    by (rule forEachSigner_throws)
  with assms(4) show ?thesis by (simp add: computeTokenPrice_unfold[OF assms(1,2,3)])
qed

text \<open>
  Claim C8, amended. Only failures of the transaction-body provider are contained: a batch
  whose five fetch attempts all fail contributes no trades and the remaining batches are
  processed. Nothing else is caught. A throw of the instruction decoder on a compute-budget
  instruction is the throw of \<open>computeTokenPrice\<close> for a transaction with a signer whose
  asset balance changed; a throw of \<open>computeTokenPrice\<close> is the throw of
  \<open>processTransactionBatch\<close>; a throw of \<open>processTransactionBatch\<close> is the throw of
  \<open>getTokenPoolInfo\<close>, which has forwarded the batches up to the failing one and none of
  the remaining ones, and so are a throw of the venue resolver and one of the walker; and a
  throw of \<open>getTokenPoolInfo\<close> for one agent ends the sync run with the table as it is,
  before the remaining agents are processed.
\<close>

theorem only_fetch_failures_are_contained:
  "((\<forall>i<5. isl (provider (map ConfirmedSignatureInfo.signature batch) i)) \<longrightarrow>
      processTransactionBatch toNumber decode provider batch m = Inr [] \<and>
      forEachBatch (\<lambda>b. processTransactionBatch toNumber decode provider b m) (batch # rest)
        acc fw =
      forEachBatch (\<lambda>b. processTransactionBatch toNumber decode provider b m) rest
        acc (fw @ [batch])) \<and>
   (computeBudgetInstructions tx = inss @ ins # inss' \<and>
    (\<forall>i \<in> set inss. \<not> isl (decode i)) \<and> decode ins = Inl e \<and>
    meta tx = Some mt \<and> preTokenBalances mt = Some preTB \<and> postTokenBalances mt = Some postTB \<and>
    or_zero (ParsedTransactionWithMeta.blockTime tx) \<noteq> 0 \<and>
    (\<exists>s \<in> set (signersOf tx).
       \<not> js_eq (tokenBalanceOf toNumber preTB (key s) m)
               (tokenBalanceOf toNumber postTB (key s) m)) \<longrightarrow>
      computeTokenPrice toNumber decode tx m = Inl e) \<and>
   (fst (getTransactionsWithRetries provider' batch') = txs @ tx' # txs' \<and>
    (\<forall>x \<in> set txs. \<not> isl (computeTokenPrice toNumber decode x m)) \<and>
    computeTokenPrice toNumber decode tx' m = Inl e \<longrightarrow>
      processTransactionBatch toNumber decode provider' batch' m = Inl e) \<and>
   (getPoolInfo (PublicKey_new sv) (PublicKey_findProgramAddressSync sv)
      (raydium_fetchPoolByMints sv) m' = Inl e \<longrightarrow>
      getTokenPoolInfo sv m' cursor = Some (Inl e, [])) \<and>
   (getPoolInfo (PublicKey_new sv) (PublicKey_findProgramAddressSync sv)
      (raydium_fetchPoolByMints sv) m' = Inr venue \<and>
    getAllTransactionsUntilLastSignature (solanaConnection_getSignaturesForAddress sv)
      venue cursor = Some (Inl e) \<longrightarrow>
      getTokenPoolInfo sv m' cursor = Some (Inl e, [])) \<and>
   (getPoolInfo (PublicKey_new sv) (PublicKey_findProgramAddressSync sv)
      (raydium_fetchPoolByMints sv) m' = Inr venue \<and>
    getAllTransactionsUntilLastSignature (solanaConnection_getSignaturesForAddress sv)
      venue cursor = Some (Inr allSignatures) \<and>
    batchesFrom (filter (\<lambda>t. err t = None) (take 5000 allSignatures)) 0 =
      pre @ failing # post \<and>
    (\<forall>b \<in> set pre.
       \<not> isl (processTransactionBatch (Number_conv sv) (ComputeBudgetInstruction_decode sv)
                (solanaConnection_getParsedTransactions sv) b m')) \<and>
    processTransactionBatch (Number_conv sv) (ComputeBudgetInstruction_decode sv)
      (solanaConnection_getParsedTransactions sv) failing m' = Inl e \<longrightarrow>
      getTokenPoolInfo sv m' cursor = Some (Inl e, pre @ [failing])) \<and>
   (db_getLastSignature ps (agent_id agent) = Inr cursor' \<and>
    getTokenPoolInfo sv (Agent.mint agent) cursor' = Some (Inl e, forwarded) \<longrightarrow>
      syncAgents sv ps (agent # others) rows = Some (rows, Some e))"
proof -
  have a: "processTransactionBatch toNumber decode provider batch m = Inr [] \<and>
      forEachBatch (\<lambda>b. processTransactionBatch toNumber decode provider b m) (batch # rest)
        acc fw =
      forEachBatch (\<lambda>b. processTransactionBatch toNumber decode provider b m) rest
        acc (fw @ [batch])"
    if "\<forall>i<5. isl (provider (map ConfirmedSignatureInfo.signature batch) i)"
  proof -
    from fetch_all_fail[where p = provider and batch = batch, OF that]
    have "processTransactionBatch toNumber decode provider batch m = Inr []"
      by (simp add: processTransactionBatch_def)
    then show ?thesis by simp
  qed
  have b: "computeTokenPrice toNumber decode tx m = Inl e"
    if h: "computeBudgetInstructions tx = inss @ ins # inss' \<and>
        (\<forall>i \<in> set inss. \<not> isl (decode i)) \<and> decode ins = Inl e \<and>
        meta tx = Some mt \<and> preTokenBalances mt = Some preTB \<and>
        postTokenBalances mt = Some postTB \<and>
        or_zero (ParsedTransactionWithMeta.blockTime tx) \<noteq> 0 \<and>
        (\<exists>s \<in> set (signersOf tx).
           \<not> js_eq (tokenBalanceOf toNumber preTB (key s) m)
                   (tokenBalanceOf toNumber postTB (key s) m))"
  proof -
    from h have "priorityFeeOf decode tx = Inl e"
      using priorityFeeOf_throws[of tx inss ins inss' decode e] by blast
    with h show ?thesis
      using computeTokenPrice_throws[of tx mt preTB postTB toNumber m decode e] by blast
  qed
  have c: "processTransactionBatch toNumber decode provider' batch' m = Inl e"
    if h: "fst (getTransactionsWithRetries provider' batch') = txs @ tx' # txs' \<and>
        (\<forall>x \<in> set txs. \<not> isl (computeTokenPrice toNumber decode x m)) \<and>
        computeTokenPrice toNumber decode tx' m = Inl e"
  proof -
    from h have "forEachTransaction (\<lambda>x. computeTokenPrice toNumber decode x m)
                   (txs @ tx' # txs') [] = Inl e"
      by (intro forEachTransaction_abort) auto
    with h show ?thesis by (simp add: processTransactionBatch_def)
  qed
  have d: "getTokenPoolInfo sv m' cursor = Some (Inl e, [])"
    if "getPoolInfo (PublicKey_new sv) (PublicKey_findProgramAddressSync sv)
          (raydium_fetchPoolByMints sv) m' = Inl e"
    using that by (simp add: getTokenPoolInfo_def)
  have f: "getTokenPoolInfo sv m' cursor = Some (Inl e, [])"
    if "getPoolInfo (PublicKey_new sv) (PublicKey_findProgramAddressSync sv)
          (raydium_fetchPoolByMints sv) m' = Inr venue \<and>
        getAllTransactionsUntilLastSignature (solanaConnection_getSignaturesForAddress sv)
          venue cursor = Some (Inl e)"
    using that by (simp add: getTokenPoolInfo_def)
  have g: "getTokenPoolInfo sv m' cursor = Some (Inl e, pre @ [failing])"
    if h: "getPoolInfo (PublicKey_new sv) (PublicKey_findProgramAddressSync sv)
          (raydium_fetchPoolByMints sv) m' = Inr venue \<and>
        getAllTransactionsUntilLastSignature (solanaConnection_getSignaturesForAddress sv)
          venue cursor = Some (Inr allSignatures) \<and>
        batchesFrom (filter (\<lambda>t. err t = None) (take 5000 allSignatures)) 0 =
          pre @ failing # post \<and>
        (\<forall>b \<in> set pre.
           \<not> isl (processTransactionBatch (Number_conv sv) (ComputeBudgetInstruction_decode sv)
                    (solanaConnection_getParsedTransactions sv) b m')) \<and>
        processTransactionBatch (Number_conv sv) (ComputeBudgetInstruction_decode sv)
          (solanaConnection_getParsedTransactions sv) failing m' = Inl e"
  proof -
    let ?process = "\<lambda>b. processTransactionBatch (Number_conv sv)
                       (ComputeBudgetInstruction_decode sv)
                       (solanaConnection_getParsedTransactions sv) b m'"
    from h have "forEachBatch ?process (pre @ failing # post) [] [] = (Inl e, [] @ pre @ [failing])"
      by (intro forEachBatch_abort) auto
    with h show ?thesis
      by (simp add: getTokenPoolInfo_def successfullTransactions_def consideredTransactions_def)
  qed
  have i: "syncAgents sv ps (agent # others) rows = Some (rows, Some e)"
    if "db_getLastSignature ps (agent_id agent) = Inr cursor' \<and>
        getTokenPoolInfo sv (Agent.mint agent) cursor' = Some (Inl e, forwarded)"
    using that by simp
  from a b c d f g i show ?thesis by blast
qed

theorem only_fetch_failures_are_contained_witness:
  "processTransactionBatch Number_decimal exampleDecoder deadProvider exampleBatch ''BAD'' = Inr [] \<and>
   computeTokenPrice Number_decimal exampleDecoder badSale ''BAD'' = Inl decodeError \<and>
   processTransactionBatch Number_decimal exampleDecoder exampleTransactions
     (take 100 badHistory) ''BAD'' = Inl decodeError \<and>
   getTokenPoolInfo exampleServices ''BAD'' None = Some (Inl decodeError, [take 100 badHistory]) \<and>
   syncAgents exampleServices examplePersistence [badAgent, exampleAgent] [] =
     Some ([], Some decodeError) \<and>
   getTokenPoolInfo (exampleServices\<lparr>raydium_fetchPoolByMints := failingRegistry\<rparr>) ''BAD'' None =
     Some (Inl (Error ''Request failed with status code 500''), []) \<and>
   getTokenPoolInfo (exampleServices\<lparr>solanaConnection_getSignaturesForAddress := failingSignatures\<rparr>)
       ''BAD'' None =
     Some (Inl (Error ''503 Service Unavailable''), [])"
proof -
  let ?unknown = "\<lparr>programId = ComputeBudgetProgram_programId,
                    PartiallyDecodedInstruction.data = ''unknown''\<rparr>"
  let ?mt = "\<lparr>fee = 5000, preBalances = [1000000000], postBalances = [1499995000],
              preTokenBalances = Some (balancesOf ''BAD'' ''5000000''),
              postTokenBalances = Some (balancesOf ''BAD'' ''3000000''),
              computeUnitsConsumed = Some 200000\<rparr>"
  have b: "badSale = saleOf ''BAD'' [?unknown]" by (simp add: badSale_def)
  obtain rest where
    fetched: "fst (getTransactionsWithRetries exampleTransactions (take 100 badHistory)) =
              [] @ badSale # rest"
    using first_batch_fetched by auto
  note inst = only_fetch_failures_are_contained
    [where provider = deadProvider and batch = exampleBatch and toNumber = Number_decimal
       and decode = exampleDecoder and m = "''BAD''" and e = decodeError
       and tx = badSale and inss = "[]" and ins = ?unknown and inss' = "[]"
       and mt = ?mt and preTB = "balancesOf ''BAD'' ''5000000''"
       and postTB = "balancesOf ''BAD'' ''3000000''"
       and provider' = exampleTransactions and batch' = "take 100 badHistory"
       and txs = "[]" and tx' = badSale and txs' = rest
       and sv = exampleServices and m' = "''BAD''" and cursor = None
       and venue = "PublicKey (map of_char ''pool-BAD'')" and allSignatures = badHistory
       and pre = "[]" and failing = "take 100 badHistory" and post = "[drop 100 badHistory]"
       and ps = examplePersistence and agent = badAgent and cursor' = None
       and forwarded = "[take 100 badHistory]" and others = "[exampleAgent]" and rows = "[]"]
  have dead: "\<forall>i<5. isl (deadProvider (map ConfirmedSignatureInfo.signature exampleBatch) i)"
    by (simp add: deadProvider_def)
  have cbi: "computeBudgetInstructions badSale = [] @ ?unknown # []"
    by (simp add: b computeBudgetInstructions_def saleOf_def)
  have dec: "(\<forall>i \<in> set []. \<not> isl (exampleDecoder i)) \<and> exampleDecoder ?unknown = Inl decodeError"
    by (simp add: exampleDecoder_def decodeError_def)
  have snap: "meta badSale = Some ?mt \<and>
    preTokenBalances ?mt = Some (balancesOf ''BAD'' ''5000000'') \<and>
    postTokenBalances ?mt = Some (balancesOf ''BAD'' ''3000000'') \<and>
    or_zero (ParsedTransactionWithMeta.blockTime badSale) \<noteq> 0"
    unfolding b by (simp add: saleOf_fields or_zero_def)
  have signers: "signersOf badSale = [\<lparr>key = ''alice'', index = 0\<rparr>]"
    unfolding b by (rule signersOf_saleOf)
  have changed: "\<exists>s \<in> set (signersOf badSale).
       \<not> js_eq (tokenBalanceOf Number_decimal (balancesOf ''BAD'' ''5000000'') (key s) ''BAD'')
               (tokenBalanceOf Number_decimal (balancesOf ''BAD'' ''3000000'') (key s) ''BAD'')"
    unfolding signers by (simp add: tokenBalanceOf_balancesOf)
  note decode = cbi dec snap changed
  from inst decode have price: "computeTokenPrice Number_decimal exampleDecoder badSale ''BAD'' =
                                Inl decodeError"
    by blast
  have "\<forall>x \<in> set []. \<not> isl (computeTokenPrice Number_decimal exampleDecoder x ''BAD'')" by simp
  with inst fetched price
  have batch: "processTransactionBatch Number_decimal exampleDecoder exampleTransactions
                 (take 100 badHistory) ''BAD'' = Inl decodeError"
    by blast
  have pool: "getPoolInfo (PublicKey_new exampleServices)
                (PublicKey_findProgramAddressSync exampleServices)
                (raydium_fetchPoolByMints exampleServices) ''BAD'' =
              Inr (PublicKey (map of_char ''pool-BAD''))"
    unfolding exampleServices_fields by (simp add: getPoolInfo_exampleServices)
  have walk: "getAllTransactionsUntilLastSignature
                (solanaConnection_getSignaturesForAddress exampleServices)
                (PublicKey (map of_char ''pool-BAD'')) None = Some (Inr badHistory)"
    unfolding exampleServices_fields by (rule walk_venue)
  have batches: "batchesFrom (filter (\<lambda>t. err t = None) (take 5000 badHistory)) 0 =
                 [] @ take 100 badHistory # [drop 100 badHistory]"
    using badHistory_batches badHistory_successful
    by (simp add: successfullTransactions_def consideredTransactions_def)
  have none: "\<forall>b \<in> set [].
       \<not> isl (processTransactionBatch (Number_conv exampleServices)
                (ComputeBudgetInstruction_decode exampleServices)
                (solanaConnection_getParsedTransactions exampleServices) b ''BAD'')"
    by simp
  have batch': "processTransactionBatch (Number_conv exampleServices)
                (ComputeBudgetInstruction_decode exampleServices)
                (solanaConnection_getParsedTransactions exampleServices)
                (take 100 badHistory) ''BAD'' = Inl decodeError"
    unfolding exampleServices_fields by (rule batch)
  from inst pool walk batches none batch'
  have run: "getTokenPoolInfo exampleServices ''BAD'' None =
             Some (Inl decodeError, [] @ [take 100 badHistory])"
    by blast
  then have run': "getTokenPoolInfo exampleServices ''BAD'' None =
             Some (Inl decodeError, [take 100 badHistory])"
    by simp
  have "db_getLastSignature examplePersistence (agent_id badAgent) = Inr None \<and>
    getTokenPoolInfo exampleServices (Agent.mint badAgent) None =
      Some (Inl decodeError, [take 100 badHistory])"
    by (simp only: examplePersistence_fields agent_fields run' simp_thms)
  with inst have sync: "syncAgents exampleServices examplePersistence [badAgent, exampleAgent] [] =
     Some ([], Some decodeError)"
    by blast
  from inst dead
  have contained: "processTransactionBatch Number_decimal exampleDecoder deadProvider exampleBatch
                     ''BAD'' = Inr []"
    by blast
  let ?noRegistry = "exampleServices\<lparr>raydium_fetchPoolByMints := failingRegistry\<rparr>"
  have "getPoolInfo (PublicKey_new ?noRegistry) (PublicKey_findProgramAddressSync ?noRegistry)
          (raydium_fetchPoolByMints ?noRegistry) ''BAD'' =
        Inl (Error ''Request failed with status code 500'')"
    by (simp add: getPoolInfo_def failingRegistry_def)
  with only_fetch_failures_are_contained[where sv = ?noRegistry and m' = "''BAD''"
      and e = "Error ''Request failed with status code 500''" and cursor = None,
      THEN conjunct2, THEN conjunct2, THEN conjunct2, THEN conjunct1]
  have resolver: "getTokenPoolInfo ?noRegistry ''BAD'' None =
                  Some (Inl (Error ''Request failed with status code 500''), [])"
    by blast
  let ?noWalker = "exampleServices\<lparr>solanaConnection_getSignaturesForAddress := failingSignatures\<rparr>"
  have "getPoolInfo (PublicKey_new ?noWalker) (PublicKey_findProgramAddressSync ?noWalker)
          (raydium_fetchPoolByMints ?noWalker) ''BAD'' =
        Inr (PublicKey (map of_char ''pool-BAD'')) \<and>
        getAllTransactionsUntilLastSignature (solanaConnection_getSignaturesForAddress ?noWalker)
          (PublicKey (map of_char ''pool-BAD'')) None =
        Some (Inl (Error ''503 Service Unavailable''))"
    by (simp add: exampleServices_fields getPoolInfo_exampleServices
        getAllTransactionsUntilLastSignature_def failingSignatures_def)
  with only_fetch_failures_are_contained[where sv = ?noWalker and m' = "''BAD''"
      and e = "Error ''503 Service Unavailable''" and cursor = None
      and venue = "PublicKey (map of_char ''pool-BAD'')",
      THEN conjunct2, THEN conjunct2, THEN conjunct2, THEN conjunct2, THEN conjunct1]
  have walker: "getTokenPoolInfo ?noWalker ''BAD'' None =
                Some (Inl (Error ''503 Service Unavailable''), [])"
    by blast
  from contained price batch run' sync resolver walker show ?thesis by blast
qed

end
